(* ===== verification/Prelude.thy ===== *)
theory Prelude
  imports Complex_Main "HOL-Library.Word"
begin

text \<open>
  Shared vocabulary of the development: the ASCII character classes that the
  client scripts test with regular expressions (\<open>[a-zA-Z0-9]\<close>, \<open>\d\<close>) and
  with \<open>toUpperCase\<close>, the JavaScript string predicates the scripts call
  (\<open>startsWith\<close>, \<open>includes\<close>), and the named collections of facts that the
  component theories feed to \<open>simp\<close>.  JavaScript strings are modelled as
  \<open>string\<close> (a list of 8-bit characters): every string operation of the
  modelled code either keeps only ASCII characters or compares with ASCII
  literals, so a non-ASCII code unit behaves as any non-alphanumeric byte.
\<close>

named_theorems char_class "characterisations of the ASCII character classes"
named_theorems eval_model "definitions unfolded to run the model on concrete inputs"

type_synonym js_string = string

section \<open>ASCII character classes\<close>

definition is_digit :: "char \<Rightarrow> bool" where
  "is_digit c \<longleftrightarrow> 48 \<le> (of_char c :: nat) \<and> (of_char c :: nat) \<le> 57"

definition is_lower :: "char \<Rightarrow> bool" where
  "is_lower c \<longleftrightarrow> 97 \<le> (of_char c :: nat) \<and> (of_char c :: nat) \<le> 122"

definition is_upper :: "char \<Rightarrow> bool" where
  "is_upper c \<longleftrightarrow> 65 \<le> (of_char c :: nat) \<and> (of_char c :: nat) \<le> 90"

text \<open>The class \<open>[a-zA-Z0-9]\<close> of the regular expression in \<open>findProductCode\<close>.\<close>

definition is_alnum :: "char \<Rightarrow> bool" where
  "is_alnum c \<longleftrightarrow> is_upper c \<or> is_lower c \<or> is_digit c"

text \<open>\<open>String.prototype.toUpperCase\<close> restricted to one ASCII character:
  \<open>a\<close>..\<open>z\<close> move down by 32, every other character is unchanged.\<close>

definition ascii_upper :: "char \<Rightarrow> char" where
  "ascii_upper c = (if is_lower c then char_of ((of_char c :: nat) - 32) else c)"

declare is_digit_def [eval_model] is_lower_def [eval_model] is_upper_def [eval_model]
  is_alnum_def [eval_model] ascii_upper_def [eval_model]

section \<open>JavaScript string predicates\<close>

text \<open>\<open>s.startsWith(p)\<close>.\<close>

definition starts_with :: "js_string \<Rightarrow> js_string \<Rightarrow> bool" where
  "starts_with s p \<longleftrightarrow> take (length p) s = p"

text \<open>\<open>s.includes(p)\<close>: some suffix of \<open>s\<close> starts with \<open>p\<close>.\<close>

fun js_includes :: "js_string \<Rightarrow> js_string \<Rightarrow> bool" where
  "js_includes [] p \<longleftrightarrow> p = []"
| "js_includes (c # cs) p \<longleftrightarrow> starts_with (c # cs) p \<or> js_includes cs p"

declare starts_with_def [eval_model]

text \<open>The white space \<open>String.prototype.trim\<close> removes, among the characters
  below 256: tab, line feed, vertical tab, form feed, carriage return, space
  and no-break space.\<close>

definition is_js_space :: "char \<Rightarrow> bool" where
  "is_js_space c \<longleftrightarrow> (9 \<le> (of_char c :: nat) \<and> (of_char c :: nat) \<le> 13)
     \<or> (of_char c :: nat) = 32 \<or> (of_char c :: nat) = 160"

definition js_trim :: "js_string \<Rightarrow> js_string" where
  "js_trim s = rev (dropWhile is_js_space (rev (dropWhile is_js_space s)))"

text \<open>\<open>v || d\<close> for a string-valued property \<open>v\<close>: \<open>undefined\<close>, \<open>null\<close> and the
  empty string are falsy.\<close>

definition js_or :: "js_string option \<Rightarrow> js_string \<Rightarrow> js_string" where
  "js_or v d = (case v of Some x \<Rightarrow> if x = [] then d else x | None \<Rightarrow> d)"

definition newline :: js_string where
  "newline = [CHR 0x0A]"

declare is_js_space_def [eval_model] js_trim_def [eval_model] js_or_def [eval_model]
  newline_def [eval_model]

text \<open>\<open>${v}\<close> in a template literal, for a value that may be \<open>null\<close>.\<close>

definition js_template :: "js_string option \<Rightarrow> js_string" where
  "js_template v = (case v of Some x \<Rightarrow> x | None \<Rightarrow> ''null'')"

section \<open>Audio cues\<close>

text \<open>The two \<open>audio\<close> elements every page plays through \<open>playSound(id)\<close>,
  \<open>successSound\<close> and \<open>errorSound\<close>.\<close>

datatype sound = SuccessSound | ErrorSound

section \<open>Lemmas on the character classes\<close>

lemma is_digit_upper [char_class, simp]: "is_digit (ascii_upper c) = is_digit c"
  by (auto simp: ascii_upper_def is_digit_def is_lower_def of_char_of)

lemma is_alnum_upper [char_class, simp]: "is_alnum (ascii_upper c) = is_alnum c"
  by (auto simp: ascii_upper_def is_alnum_def is_digit_def is_lower_def is_upper_def of_char_of)

lemma ascii_upper_idem [char_class, simp]: "ascii_upper (ascii_upper c) = ascii_upper c"
  by (auto simp: ascii_upper_def is_lower_def of_char_of)

lemma ascii_upper_digit [char_class]: "is_digit c \<Longrightarrow> ascii_upper c = c"
  by (simp add: ascii_upper_def is_digit_def is_lower_def)

lemma digit_alnum [char_class]: "is_digit c \<Longrightarrow> is_alnum c"
  by (simp add: is_alnum_def)

lemma map_upper_digits [char_class]:
  "list_all is_digit ds \<Longrightarrow> map ascii_upper ds = ds"
  by (induction ds) (simp_all add: ascii_upper_digit)

lemma map_upper_idem [simp]: "map ascii_upper (map ascii_upper s) = map ascii_upper s"
  by (induction s) simp_all

lemma takeWhile_digits_upper [simp]:
  "takeWhile is_digit (map ascii_upper s) = map ascii_upper (takeWhile is_digit s)"
  by (induction s) simp_all

section \<open>Bytes\<close>

lemma unat_byte_le: "unat (w :: 8 word) \<le> 255"
proof -
  have "unat w < 2 ^ LENGTH(8)" by (rule unsigned_less)
  then show ?thesis by simp
qed

section \<open>Lemmas on the string predicates\<close>

lemma starts_with_iff: "starts_with s p \<longleftrightarrow> (\<exists>v. s = p @ v)"
  by (metis append_eq_conv_conj starts_with_def)

lemma includes_iff: "js_includes s p \<longleftrightarrow> (\<exists>u v. s = u @ p @ v)"
proof (induction s)
  case Nil
  then show ?case by simp
next
  case (Cons c cs)
  have "starts_with (c # cs) p \<longleftrightarrow> (\<exists>v. c # cs = p @ v)"
    by (rule starts_with_iff)
  moreover have "(\<exists>u v. c # cs = u @ p @ v) \<longleftrightarrow>
      (\<exists>v. c # cs = p @ v) \<or> (\<exists>u v. cs = u @ p @ v)"
    by (auto simp: Cons_eq_append_conv)
  ultimately show ?case using Cons.IH by simp
qed

section \<open>Generic lemmas on iteration and lists\<close>

text \<open>A field that one step leaves unchanged is unchanged by any number of them.\<close>

lemma funpow_invariant: "(\<And>x. g (f x) = g x) \<Longrightarrow> g ((f ^^ n) x) = g x"
  by (induction n) simp_all

lemma ball_dropWhile: "(\<forall>x\<in>set (dropWhile P xs). P x) \<longleftrightarrow> (\<forall>x\<in>set xs. P x)"
  by (induction xs) auto

lemma remove_nth_distinct:
  assumes "distinct xs" and "n < length xs"
  shows "distinct (take n xs @ drop (Suc n) xs) \<and> set (take n xs @ drop (Suc n) xs) = set xs - {xs ! n}"
proof -
  have xs: "xs = take n xs @ xs ! n # drop (Suc n) xs" using assms(2) by (simp add: id_take_nth_drop)
  then have d: "distinct (take n xs @ xs ! n # drop (Suc n) xs)" using assms(1) by simp
  have "set xs = set (take n xs) \<union> insert (xs ! n) (set (drop (Suc n) xs))"
    using arg_cong [OF xs, of set] by simp
  with d show ?thesis by auto
qed

lemma filter_key_unique:
  "distinct (map f xs) \<Longrightarrow> x \<in> set xs \<Longrightarrow> filter (\<lambda>y. f y = f x) xs = [x]"
proof (induction xs)
  case (Cons a xs)
  then show ?case
    by (auto simp: filter_empty_conv) (metis image_eqI)
qed simp

section \<open>String.prototype.trim\<close>

lemma js_trim_split:
  "\<exists>l r. s = l @ js_trim s @ r \<and> list_all is_js_space l \<and> list_all is_js_space r"
proof -
  let ?t = "dropWhile is_js_space s"
  have s: "s = takeWhile is_js_space s @ ?t" by simp
  have "rev ?t = takeWhile is_js_space (rev ?t) @ dropWhile is_js_space (rev ?t)" by simp
  then have t: "?t = js_trim s @ rev (takeWhile is_js_space (rev ?t))"
    by (metis js_trim_def rev_append rev_rev_ident)
  show ?thesis
    by (rule exI [of _ "takeWhile is_js_space s"], rule exI [of _ "rev (takeWhile is_js_space (rev ?t))"])
      (metis (no_types, lifting) s t append_assoc list_all_iff list_all_rev set_takeWhileD)
qed

lemma js_trim_ends:
  "js_trim s \<noteq> [] \<Longrightarrow> \<not> is_js_space (hd (js_trim s)) \<and> \<not> is_js_space (last (js_trim s))"
proof -
  let ?t = "dropWhile is_js_space s"
  assume ne: "js_trim s \<noteq> []"
  have last: "last (js_trim s) = hd (dropWhile is_js_space (rev ?t))"
    using ne by (simp add: js_trim_def last_rev)
  have ne2: "dropWhile is_js_space (rev ?t) \<noteq> []" using ne by (simp add: js_trim_def)
  then have "rev ?t \<noteq> []" by (metis dropWhile.simps(1))
  then have net: "?t \<noteq> []" by simp
  have "?t = js_trim s @ rev (takeWhile is_js_space (rev ?t))"
    by (metis js_trim_def rev_append rev_rev_ident takeWhile_dropWhile_id)
  then have "hd (js_trim s) = hd ?t" using ne by (metis hd_append2)
  then show ?thesis
    using hd_dropWhile [OF net] hd_dropWhile [OF ne2] last by simp
qed

lemma js_trim_Nil_iff: "js_trim s = [] \<longleftrightarrow> list_all is_js_space s"
  by (simp add: js_trim_def list_all_iff dropWhile_eq_Nil_conv ball_dropWhile)

end
