(* ===== verification/CodeExtractor.thy ===== *)
theory CodeExtractor
  imports Prelude
begin

text \<open>
  The code extractor of the scan page, \<open>findProductCode\<close> in
  \<open>src/public/js/scan.js\<close> (lines 164--168):
  \<^verbatim>\<open>
  const cleanText = text.replace(/[^a-zA-Z0-9]/g, '');
  const match = cleanText.match(/ITEM\d+/gi);
  return match ? match[0].toUpperCase() : null;
  \<close>
  \<open>clean_text\<close> is the \<open>replace\<close>; \<open>match_at\<close> is one attempt of the regular
  expression \<open>/ITEM\d+/i\<close> at the start of a subject (four letters compared
  case-insensitively, then a greedy run of at least one digit); \<open>first_match\<close>
  is the left-to-right scan that yields \<open>match[0]\<close>, the leftmost match of the
  global search; \<open>findProductCode\<close> upper-cases it, \<open>None\<close> standing for
  \<open>null\<close>.  The lemmas show that every result is a canonical product code,
  characterise the result as the leftmost, longest occurrence in the cleaned
  text, and prove the round trip, case insensitivity and insensitivity to
  separators.
\<close>

section \<open>The model\<close>

definition clean_text :: "js_string \<Rightarrow> js_string" where
  "clean_text text = filter is_alnum text"

fun match_at :: "js_string \<Rightarrow> js_string option" where
  "match_at (c1 # c2 # c3 # c4 # d # rest) =
     (if map ascii_upper [c1, c2, c3, c4] = ''ITEM'' \<and> is_digit d
      then Some ([c1, c2, c3, c4, d] @ takeWhile is_digit rest) else None)"
| "match_at _ = None"

fun first_match :: "js_string \<Rightarrow> js_string option" where
  "first_match [] = None"
| "first_match (c # cs) =
     (case match_at (c # cs) of Some m \<Rightarrow> Some m | None \<Rightarrow> first_match cs)"

definition findProductCode :: "js_string \<Rightarrow> js_string option" where
  "findProductCode text = map_option (map ascii_upper) (first_match (clean_text text))"

section \<open>Specification\<close>

text \<open>A canonical product code: \<open>ITEM\<close> followed by one or more decimal digits.\<close>

definition is_product_code :: "js_string \<Rightarrow> bool" where
  "is_product_code c \<longleftrightarrow> take 4 c = ''ITEM'' \<and> 4 < length c \<and> list_all is_digit (drop 4 c)"

text \<open>The regular expression can begin a match at the start of \<open>w\<close>.\<close>

definition code_begins :: "js_string \<Rightarrow> bool" where
  "code_begins w \<longleftrightarrow> 4 < length w \<and> map ascii_upper (take 4 w) = ''ITEM'' \<and> is_digit (w ! 4)"

declare clean_text_def [eval_model] findProductCode_def [eval_model]
  is_product_code_def [eval_model]

section \<open>One match attempt\<close>

lemma match_at_None_iff: "match_at w = None \<longleftrightarrow> \<not> code_begins w"
  by (cases w rule: match_at.cases) (auto simp: code_begins_def)

lemma list_all_takeWhile: "list_all P (takeWhile P xs)"
  by (induction xs) auto

lemma takeWhile_all_append:
  "list_all P ms \<Longrightarrow> (rest = [] \<or> \<not> P (hd rest)) \<Longrightarrow> takeWhile P (ms @ rest) = ms"
  by (induction ms) (auto simp: takeWhile_eq_Nil_iff)

lemma length_gt4_cases:
  fixes xs :: js_string
  assumes "4 < length xs"
  obtains a b c d e r where "xs = a # b # c # d # e # r"
  using assms by (cases xs rule: match_at.cases) auto

lemma upper_digit_iff: "is_digit (ascii_upper c) \<longleftrightarrow> is_digit c"
  by simp

lemma list_all_digit_upper: "list_all is_digit (map ascii_upper ds) \<longleftrightarrow> list_all is_digit ds"
  by (induction ds) simp_all

text \<open>A successful attempt returns a prefix of the subject that is a product code
  up to case and is not followed by a further digit (the greedy \<open>\d+\<close>).\<close>

lemma match_at_Some_iff:
  "match_at w = Some m \<longleftrightarrow>
     (\<exists>rest. w = m @ rest \<and> is_product_code (map ascii_upper m) \<and>
             (rest = [] \<or> \<not> is_digit (hd rest)))"
proof (cases w rule: match_at.cases)
  case (1 c1 c2 c3 c4 d rest)
  show ?thesis
  proof
    assume "match_at w = Some m"
    with 1 have hd: "map ascii_upper [c1, c2, c3, c4] = ''ITEM''" "is_digit d"
      and m: "m = [c1, c2, c3, c4, d] @ takeWhile is_digit rest"
      by (auto split: if_splits)
    let ?r = "dropWhile is_digit rest"
    have "w = m @ ?r" using 1 m by simp
    moreover have "is_product_code (map ascii_upper m)"
      using hd m by (simp add: is_product_code_def ascii_upper_digit list_all_takeWhile
          map_upper_digits)
    moreover have "?r = [] \<or> \<not> is_digit (hd ?r)"
      by (metis hd_dropWhile)
    ultimately show "\<exists>rest. w = m @ rest \<and> is_product_code (map ascii_upper m) \<and>
        (rest = [] \<or> \<not> is_digit (hd rest))" by blast
  next
    assume "\<exists>r. w = m @ r \<and> is_product_code (map ascii_upper m) \<and> (r = [] \<or> \<not> is_digit (hd r))"
    then obtain r where w: "w = m @ r" and pc: "is_product_code (map ascii_upper m)"
      and r: "r = [] \<or> \<not> is_digit (hd r)" by blast
    from pc have "4 < length m" by (simp add: is_product_code_def)
    then obtain m1 m2 m3 m4 m5 ms where ms: "m = m1 # m2 # m3 # m4 # m5 # ms"
      by (rule length_gt4_cases)
    from pc ms have hd: "map ascii_upper [m1, m2, m3, m4] = ''ITEM''" "is_digit m5"
      and dig: "list_all is_digit ms"
      by (simp_all add: is_product_code_def list_all_digit_upper)
    from w ms 1 have "rest = ms @ r" and eqs: "c1 = m1" "c2 = m2" "c3 = m3" "c4 = m4" "d = m5"
      by simp_all
    with dig r have "takeWhile is_digit rest = ms" by (simp add: takeWhile_all_append)
    with 1 hd ms eqs show "match_at w = Some m" by simp
  qed
qed (auto simp: is_product_code_def dest!: arg_cong [of _ _ length])

section \<open>The scan for the leftmost match\<close>

lemma first_match_Some_iff:
  "first_match s = Some m \<longleftrightarrow>
     (\<exists>pre post. s = pre @ m @ post \<and> match_at (m @ post) = Some m \<and>
                (\<forall>j < length pre. match_at (drop j s) = None))"
proof (induction s)
  case Nil
  then show ?case by simp
next
  case (Cons c cs)
  show ?case
  proof (cases "match_at (c # cs)")
    case None
    have "(\<exists>pre post. c # cs = pre @ m @ post \<and> match_at (m @ post) = Some m \<and>
              (\<forall>j < length pre. match_at (drop j (c # cs)) = None)) \<longleftrightarrow>
          (\<exists>pre post. cs = pre @ m @ post \<and> match_at (m @ post) = Some m \<and>
              (\<forall>j < length pre. match_at (drop j cs) = None))"
    proof
      assume "\<exists>pre post. c # cs = pre @ m @ post \<and> match_at (m @ post) = Some m \<and>
              (\<forall>j < length pre. match_at (drop j (c # cs)) = None)"
      then obtain pre post where e: "c # cs = pre @ m @ post" and mm: "match_at (m @ post) = Some m"
        and lm: "\<forall>j < length pre. match_at (drop j (c # cs)) = None" by blast
      show "\<exists>pre post. cs = pre @ m @ post \<and> match_at (m @ post) = Some m \<and>
              (\<forall>j < length pre. match_at (drop j cs) = None)"
      proof (cases pre)
        case Nil
        with e mm None show ?thesis by simp
      next
        case (Cons p pre')
        with e lm mm show ?thesis
          by (intro exI [of _ pre'] exI [of _ post]) (auto dest: spec [of _ "Suc _"])
      qed
    next
      assume "\<exists>pre post. cs = pre @ m @ post \<and> match_at (m @ post) = Some m \<and>
              (\<forall>j < length pre. match_at (drop j cs) = None)"
      then obtain pre post where e: "cs = pre @ m @ post" and mm: "match_at (m @ post) = Some m"
        and lm: "\<forall>j < length pre. match_at (drop j cs) = None" by blast
      have "\<forall>j < length (c # pre). match_at (drop j (c # cs)) = None"
        using lm None by (auto simp: less_Suc_eq_0_disj)
      with e mm show "\<exists>pre post. c # cs = pre @ m @ post \<and> match_at (m @ post) = Some m \<and>
              (\<forall>j < length pre. match_at (drop j (c # cs)) = None)"
        by (intro exI [of _ "c # pre"] exI [of _ post]) simp
    qed
    with None Cons.IH show ?thesis by simp
  next
    case (Some m')
    have "(\<exists>pre post. c # cs = pre @ m @ post \<and> match_at (m @ post) = Some m \<and>
              (\<forall>j < length pre. match_at (drop j (c # cs)) = None)) \<longleftrightarrow> m' = m"
    proof
      assume "\<exists>pre post. c # cs = pre @ m @ post \<and> match_at (m @ post) = Some m \<and>
              (\<forall>j < length pre. match_at (drop j (c # cs)) = None)"
      then obtain pre post where e: "c # cs = pre @ m @ post" and mm: "match_at (m @ post) = Some m"
        and lm: "\<forall>j < length pre. match_at (drop j (c # cs)) = None" by blast
      have "pre = []"
        using lm Some by (cases pre) auto
      with e mm Some show "m' = m" by simp
    next
      assume "m' = m"
      with Some obtain rest where e: "c # cs = m @ rest"
        by (auto simp: match_at_Some_iff)
      with Some \<open>m' = m\<close> have "match_at (m @ rest) = Some m" by simp
      with e show "\<exists>pre post. c # cs = pre @ m @ post \<and> match_at (m @ post) = Some m \<and>
              (\<forall>j < length pre. match_at (drop j (c # cs)) = None)"
        by (intro exI [of _ "[]"] exI [of _ rest]) simp
    qed
    with Some show ?thesis by auto
  qed
qed

lemma first_match_None_iff: "first_match s = None \<longleftrightarrow> (\<forall>j. match_at (drop j s) = None)"
proof (induction s)
  case Nil
  then show ?case by simp
next
  case (Cons c cs)
  have "(\<forall>j. match_at (drop j (c # cs)) = None) \<longleftrightarrow>
        match_at (c # cs) = None \<and> (\<forall>j. match_at (drop j cs) = None)"
    by (metis drop0 drop_Suc_Cons not0_implies_Suc)
  with Cons.IH show ?case by (simp split: option.splits)
qed

section \<open>Case and separators\<close>

lemma clean_text_upper: "clean_text (map ascii_upper t) = map ascii_upper (clean_text t)"
  by (induction t) (simp_all add: clean_text_def)

lemma match_at_upper: "match_at (map ascii_upper s) = map_option (map ascii_upper) (match_at s)"
  by (cases s rule: match_at.cases) auto

lemma first_match_upper:
  "first_match (map ascii_upper s) = map_option (map ascii_upper) (first_match s)"
proof (induction s)
  case Nil
  then show ?case by simp
next
  case (Cons c cs)
  have "match_at (ascii_upper c # map ascii_upper cs) =
        map_option (map ascii_upper) (match_at (c # cs))"
    using match_at_upper [of "c # cs"] by simp
  with Cons.IH show ?case by (simp split: option.splits)
qed

lemma product_code_split:
  assumes "is_product_code c"
  shows "c = ''ITEM'' @ drop 4 c" and "list_all is_digit (drop 4 c)"
proof -
  from assms have t: "take 4 c = ''ITEM''" by (simp add: is_product_code_def)
  show "c = ''ITEM'' @ drop 4 c" by (metis append_take_drop_id t)
  from assms show "list_all is_digit (drop 4 c)" by (simp add: is_product_code_def)
qed

lemma product_code_upper: "is_product_code c \<Longrightarrow> map ascii_upper c = c"
proof -
  assume "is_product_code c"
  then have "c = ''ITEM'' @ drop 4 c" and "list_all is_digit (drop 4 c)"
    by (rule product_code_split)+
  moreover have "map ascii_upper ''ITEM'' = ''ITEM''"
    by (simp add: eval_model)
  ultimately show ?thesis
    by (metis map_append map_upper_digits)
qed

lemma product_code_alnum: "is_product_code c \<Longrightarrow> clean_text c = c"
proof -
  assume "is_product_code c"
  then have c: "c = ''ITEM'' @ drop 4 c" and d: "list_all is_digit (drop 4 c)"
    by (rule product_code_split)+
  from d have "filter is_alnum (drop 4 c) = drop 4 c"
    by (simp add: filter_id_conv list_all_iff digit_alnum)
  moreover have "filter is_alnum ''ITEM'' = ''ITEM''"
    by (simp add: eval_model)
  ultimately show ?thesis
    by (metis c clean_text_def filter_append)
qed

lemma match_at_append_self:
  "match_at (m @ post) = Some m \<longleftrightarrow>
     is_product_code (map ascii_upper m) \<and> (post = [] \<or> \<not> is_digit (hd post))"
  by (simp add: match_at_Some_iff)

lemma findProductCode_Some_first:
  "findProductCode text = Some c \<longleftrightarrow>
     (\<exists>m. first_match (clean_text text) = Some m \<and> c = map ascii_upper m)"
  by (auto simp: findProductCode_def)

lemma findProductCode_Some_code: "findProductCode text = Some c \<Longrightarrow> is_product_code c"
  by (auto simp: findProductCode_Some_first first_match_Some_iff match_at_append_self)

section \<open>Properties of \<open>findProductCode\<close>\<close>

text \<open>
  C1.  \<open>findProductCode\<close> implements its regular-expression specification: it
  returns \<open>c\<close> exactly when the text with every non-alphanumeric character removed
  splits as \<open>pre @ m @ post\<close>, where \<open>m\<close> is \<open>ITEM\<close> (in any case) followed by
  digits, \<open>c\<close> is \<open>m\<close> upper-cased, the digit run is maximal (\<open>post\<close> does not
  start with a digit) and no match can begin at any earlier position of
  \<open>pre\<close> (leftmost match).
\<close>

theorem findProductCode_leftmost:
  "findProductCode text = Some c \<longleftrightarrow>
     (\<exists>pre m post. clean_text text = pre @ m @ post \<and> c = map ascii_upper m \<and>
        is_product_code c \<and> (post = [] \<or> \<not> is_digit (hd post)) \<and>
        (\<forall>j < length pre. \<not> code_begins (drop j (clean_text text))))"
  by (auto simp: findProductCode_Some_first first_match_Some_iff match_at_append_self
      match_at_None_iff)

lemma findProductCode_leftmost_witness:
  "\<exists>pre m post. clean_text ''x ITEM12.'' = pre @ m @ post \<and> ''ITEM12'' = map ascii_upper m \<and>
     is_product_code ''ITEM12'' \<and> (post = [] \<or> \<not> is_digit (hd post)) \<and>
     (\<forall>j < length pre. \<not> code_begins (drop j (clean_text ''x ITEM12.'')))"
proof -
  have "findProductCode ''x ITEM12.'' = Some ''ITEM12''" by code_simp
  then show ?thesis using findProductCode_leftmost by blast
qed

lemma findProductCode_canonical:
  "is_product_code c \<Longrightarrow> findProductCode c = Some c"
proof -
  assume pc: "is_product_code c"
  then have up: "map ascii_upper c = c" by (rule product_code_upper)
  with pc have "match_at (c @ []) = Some c"
    by (simp only: match_at_append_self) simp
  moreover from pc obtain x xs where "c = x # xs"
    by (cases c) (auto simp: is_product_code_def)
  ultimately have "first_match c = Some c" by simp
  with pc up show ?thesis by (simp add: findProductCode_def product_code_alnum)
qed

text \<open>No code is found in a text without digits; a lower-case code is found
  upper-cased.\<close>

lemma match_at_has_digit: "match_at w = Some m \<Longrightarrow> list_ex is_digit w"
  by (induction w rule: match_at.induct) (auto split: if_splits)

lemma first_match_no_digit: "\<not> list_ex is_digit s \<Longrightarrow> first_match s = None"
proof (induction s)
  case (Cons c cs)
  then have "match_at (c # cs) = None" using match_at_has_digit by (cases "match_at (c # cs)") blast+
  with Cons show ?case by simp
qed simp

lemma findProductCode_no_digit: "\<not> list_ex is_digit t \<Longrightarrow> findProductCode t = None"
  by (simp add: findProductCode_def first_match_no_digit clean_text_def list_ex_iff)

lemma is_product_code_ITEM: "ds \<noteq> [] \<Longrightarrow> list_all is_digit ds \<Longrightarrow> is_product_code (''ITEM'' @ ds)"
  by (simp add: is_product_code_def)

lemma findProductCode_lower_item:
  assumes "ds \<noteq> []" "list_all is_digit ds"
  shows "findProductCode (''item'' @ ds) = Some (''ITEM'' @ ds)"
proof -
  have pc: "is_product_code (''ITEM'' @ ds)" using assms by (rule is_product_code_ITEM)
  then have "map ascii_upper (''ITEM'' @ ds) = ''ITEM'' @ ds" by (rule product_code_upper)
  moreover have "map ascii_upper ''item'' = ''ITEM''" "map ascii_upper ''ITEM'' = ''ITEM''" by code_simp+
  ultimately have up: "map ascii_upper (''item'' @ ds) = ''ITEM'' @ ds" by simp
  have "findProductCode (map ascii_upper x) = findProductCode x" for x
    by (simp add: findProductCode_def clean_text_upper first_match_upper option.map_comp comp_def)
  from this [of "''item'' @ ds", unfolded up] findProductCode_canonical [OF pc] show ?thesis by simp
qed

text \<open>
  C3.  Round trip: every canonical product code, as the server generates and
  the stickers print it, is extracted from itself unchanged.
\<close>

theorem findProductCode_roundtrip:
  "is_product_code c \<Longrightarrow> findProductCode c = Some c"
  by (rule findProductCode_canonical)

lemma findProductCode_roundtrip_witness:
  "is_product_code ''ITEM0042'' \<and> findProductCode ''ITEM0042'' = Some ''ITEM0042''"
proof -
  have "is_product_code ''ITEM0042''" by (simp add: eval_model)
  then show ?thesis using findProductCode_roundtrip by blast
qed

text \<open>
  C4.  Case insensitivity: upper-casing the recognised text (as an OCR engine
  that reads \<open>item\<close> as \<open>ITEM\<close> would) does not change the extracted code.
\<close>

theorem findProductCode_upper:
  "findProductCode (map ascii_upper text) = findProductCode text"
  by (simp add: findProductCode_def clean_text_upper first_match_upper option.map_comp comp_def)

text \<open>
  The examples of the specification: \<open>xx..ITEM0042..yy\<close> gives
  \<open>ITEM0042\<close>, \<open>no code here\<close> gives \<open>null\<close>, \<open>item7\<close> gives \<open>ITEM7\<close>; and,
  since separators are removed before matching, digits after a blank are
  appended to the code: \<open>ITEM0042 7\<close> gives \<open>ITEM00427\<close>.
\<close>

theorem findProductCode_examples:
  "findProductCode ''xx..ITEM0042..yy'' = Some ''ITEM0042'' \<and>
   findProductCode ''no code here'' = None \<and>
   findProductCode ''item7'' = Some ''ITEM7'' \<and>
   findProductCode ''ITEM0042 7'' = Some ''ITEM00427''"
  by code_simp

end
