(* ===== verification/Imaging.thy ===== *)
theory Imaging
  imports Prelude
begin

text \<open>
  The image side of the OCR path of \<open>src/public/js/scan.js\<close>:
  \<open>preprocessImage\<close> (lines 118--131) crops the live video to a fixed box on a
  canvas, converts it to grey and binarises it with OpenCV, and
  \<open>runSingleRecognition\<close> (lines 146--151) reads the canvas back and, for the
  \<open>inverted\<close> strategy, applies \<open>cv.bitwise_not\<close> before handing it to the OCR
  engine.  A canvas and an OpenCV matrix are both an \<open>image\<close>: width, height
  and the row-major pixel list; a colour pixel is four 8-bit channels, a grey
  pixel one \<open>8 word\<close>.  The browser's video resampling (\<open>drawImage\<close>) and
  OpenCV's Gaussian local mean are parameters of the model (\<open>sample\<close>,
  \<open>gauss_mean\<close>), since the code only calls them.  The crop box's fractions are
  exact rationals (the code's double-precision products differ from them only
  in the last bit).
\<close>

unbundle bit_operations_syntax

section \<open>Pixels, images, errors\<close>

record rgba =
  red :: "8 word"
  green :: "8 word"
  blue :: "8 word"
  alpha :: "8 word"

record 'p image =
  iw :: nat
  ih :: nat
  ipx :: "'p list"

type_synonym canvas = "rgba image"
type_synonym gray_mat = "8 word image"

text \<open>\<open>getImageData\<close> on a canvas with a zero dimension throws \<open>IndexSizeError\<close>.\<close>

datatype cv_error = IndexSizeError

section \<open>Canvas and OpenCV operations\<close>

text \<open>\<open>context.drawImage(video, sx, sy, sWidth, sHeight, 0, 0, sWidth, sHeight)\<close>
  on a canvas of \<open>w \<times> h\<close> pixels: the pixel in column \<open>x\<close> and row \<open>y\<close> shows
  the video at the source point of its centre.\<close>

definition draw_image :: "(rat \<Rightarrow> rat \<Rightarrow> rgba) \<Rightarrow> rat \<Rightarrow> rat \<Rightarrow> nat \<Rightarrow> nat \<Rightarrow> canvas" where
  "draw_image sample sx sy w h =
     \<lparr>iw = w, ih = h,
      ipx = map (\<lambda>i. sample (sx + of_nat (i mod w) + 1/2) (sy + of_nat (i div w) + 1/2))
                [0..<w * h]\<rparr>"

text \<open>\<open>cv.imread(canvas)\<close> reads the canvas through \<open>getImageData\<close>.\<close>

definition cv_imread :: "canvas \<Rightarrow> cv_error + canvas" where
  "cv_imread c = (if iw c = 0 \<or> ih c = 0 then Inl IndexSizeError else Inr c)"

text \<open>\<open>cv.cvtColor(src, dst, cv.COLOR_RGBA2GRAY)\<close>: OpenCV's fixed-point luma
  with 14 fraction bits and rounding.\<close>

definition gray_of :: "rgba \<Rightarrow> 8 word" where
  "gray_of p = word_of_nat ((unat (red p) * 4899 + unat (green p) * 9617 + unat (blue p) * 1868
                             + 8192) div 16384)"

definition cvt_rgba2gray :: "canvas \<Rightarrow> gray_mat" where
  "cvt_rgba2gray c = \<lparr>iw = iw c, ih = ih c, ipx = map gray_of (ipx c)\<rparr>"

text \<open>\<open>cv.adaptiveThreshold(src, dst, 255, ADAPTIVE_THRESH_GAUSSIAN_C, THRESH_BINARY,
  11, 2)\<close>: a pixel becomes 255 when it exceeds its Gaussian local mean minus 2,
  else 0 (OpenCV's table \<open>i - 255 > -2\<close> indexed by \<open>src - mean + 255\<close>).\<close>

definition threshold_pixel :: "8 word \<Rightarrow> 8 word \<Rightarrow> 8 word" where
  "threshold_pixel s m = (if - 2 < int (unat s) - int (unat m) then 255 else 0)"

definition adaptive_threshold :: "(gray_mat \<Rightarrow> nat \<Rightarrow> 8 word) \<Rightarrow> gray_mat \<Rightarrow> gray_mat" where
  "adaptive_threshold gauss_mean src =
     src\<lparr>ipx := map (\<lambda>i. threshold_pixel (ipx src ! i) (gauss_mean src i)) [0..<length (ipx src)]\<rparr>"

text \<open>\<open>cv.imshow(canvas, mat)\<close> of a one-channel matrix: grey to opaque RGBA.\<close>

definition imshow_gray :: "gray_mat \<Rightarrow> canvas" where
  "imshow_gray m = \<lparr>iw = iw m, ih = ih m,
     ipx = map (\<lambda>v. \<lparr>red = v, green = v, blue = v, alpha = 255\<rparr>) (ipx m)\<rparr>"

text \<open>\<open>cv.bitwise_not(mat, mat)\<close> on the four-channel matrix that \<open>cv.imread\<close>
  returns: every channel is complemented, the alpha channel included.\<close>

definition not_pixel :: "rgba \<Rightarrow> rgba" where
  "not_pixel p = \<lparr>red = NOT (red p), green = NOT (green p), blue = NOT (blue p),
                  alpha = NOT (alpha p)\<rparr>"

definition bitwise_not :: "canvas \<Rightarrow> canvas" where
  "bitwise_not c = c\<lparr>ipx := map not_pixel (ipx c)\<rparr>"

section \<open>preprocessImage\<close>

text \<open>The fixed crop box \<open>{x: 0.1, y: 0.35, width: 0.8, height: 0.3}\<close>.\<close>

definition box_x :: rat where "box_x = 1/10"
definition box_y :: rat where "box_y = 7/20"
definition box_w :: rat where "box_w = 4/5"
definition box_h :: rat where "box_h = 3/10"

text \<open>Assigning \<open>canvas.width = sWidth\<close> truncates to an unsigned integer.\<close>

definition canvas_dim :: "rat \<Rightarrow> nat" where
  "canvas_dim r = nat \<lfloor>r\<rfloor>"

definition preprocessImage ::
  "(rat \<Rightarrow> rat \<Rightarrow> rgba) \<Rightarrow> (gray_mat \<Rightarrow> nat \<Rightarrow> 8 word) \<Rightarrow> nat \<Rightarrow> nat \<Rightarrow> cv_error + canvas" where
  "preprocessImage sample gauss_mean vw vh =
     (let sx = of_nat vw * box_x; sy = of_nat vh * box_y;
          sW = of_nat vw * box_w; sH = of_nat vh * box_h;
          cv = draw_image sample sx sy (canvas_dim sW) (canvas_dim sH)
      in case cv_imread cv of
           Inl e \<Rightarrow> Inl e
         | Inr src \<Rightarrow> Inr (imshow_gray (adaptive_threshold gauss_mean (cvt_rgba2gray src))))"

section \<open>The image handed to the OCR engine\<close>

datatype strategy = Standard | Inverted

text \<open>\<open>let mat = cv.imread(canvas); if (strategy === 'inverted') cv.bitwise_not(mat, mat);
  cv.imshow(tempCanvas, mat)\<close>: a four-channel \<open>imshow\<close> copies the matrix.\<close>

definition attempt_image :: "canvas \<Rightarrow> strategy \<Rightarrow> cv_error + canvas" where
  "attempt_image cv s =
     (case cv_imread cv of
        Inl e \<Rightarrow> Inl e
      | Inr mat \<Rightarrow> Inr (if s = Inverted then bitwise_not mat else mat))"

declare draw_image_def [eval_model] cv_imread_def [eval_model] gray_of_def [eval_model]
  cvt_rgba2gray_def [eval_model] threshold_pixel_def [eval_model]
  adaptive_threshold_def [eval_model] imshow_gray_def [eval_model] not_pixel_def [eval_model]
  bitwise_not_def [eval_model] box_x_def [eval_model] box_y_def [eval_model]
  box_w_def [eval_model] box_h_def [eval_model] canvas_dim_def [eval_model]
  preprocessImage_def [eval_model] attempt_image_def [eval_model]

text \<open>A pixel of the binarised canvas: opaque, grey, and black or white.\<close>

definition binary_opaque :: "rgba \<Rightarrow> bool" where
  "binary_opaque p \<longleftrightarrow> alpha p = 255 \<and> green p = red p \<and> blue p = red p \<and>
     (red p = 0 \<or> red p = 255)"

section \<open>Lemmas on the image operations\<close>

lemma canvas_dim_zero_iff: "0 \<le> r \<Longrightarrow> canvas_dim r = 0 \<longleftrightarrow> r < 1"
  by (simp add: canvas_dim_def floor_less_one)

lemma crop_width_zero_iff: "canvas_dim (of_nat vw * box_w) = 0 \<longleftrightarrow> vw \<le> 1"
proof -
  have "of_nat vw * box_w < 1 \<longleftrightarrow> vw \<le> 1"
    by (cases vw) (auto simp: box_w_def field_simps)
  then show ?thesis by (simp add: canvas_dim_zero_iff box_w_def)
qed

lemma crop_height_zero_iff: "canvas_dim (of_nat vh * box_h) = 0 \<longleftrightarrow> vh \<le> 3"
proof -
  have "of_nat vh * box_h < 1 \<longleftrightarrow> vh \<le> 3"
    by (auto simp: box_h_def field_simps)
  then show ?thesis by (simp add: canvas_dim_zero_iff box_h_def)
qed

lemma threshold_pixel_binary: "threshold_pixel s m = 0 \<or> threshold_pixel s m = 255"
  by (simp add: threshold_pixel_def)

lemma length_adaptive_threshold [simp]:
  "length (ipx (adaptive_threshold g m)) = length (ipx m)"
  by (simp add: adaptive_threshold_def)

lemma set_adaptive_threshold_binary:
  "v \<in> set (ipx (adaptive_threshold g m)) \<Longrightarrow> v = 0 \<or> v = 255"
  by (auto simp: adaptive_threshold_def threshold_pixel_def)

lemma dims_adaptive_threshold [simp]:
  "iw (adaptive_threshold g m) = iw m" "ih (adaptive_threshold g m) = ih m"
  by (simp_all add: adaptive_threshold_def)

lemma not_not_pixel [simp]: "not_pixel (not_pixel p) = p"
  by (simp add: not_pixel_def)

lemma preprocessImage_Inr:
  "preprocessImage sample g vw vh = Inr cv \<longleftrightarrow>
     \<not> (vw \<le> 1 \<or> vh \<le> 3) \<and>
     cv = imshow_gray (adaptive_threshold g (cvt_rgba2gray
            (draw_image sample (of_nat vw * box_x) (of_nat vh * box_y)
               (canvas_dim (of_nat vw * box_w)) (canvas_dim (of_nat vh * box_h)))))"
  by (auto simp: preprocessImage_def Let_def cv_imread_def draw_image_def
      crop_width_zero_iff crop_height_zero_iff)

lemma gray_of_bound:
  "(unat (red p) * 4899 + unat (green p) * 9617 + unat (blue p) * 1868 + 8192) div 16384 < 256"
proof -
  have "unat (red p) \<le> 255" "unat (green p) \<le> 255" "unat (blue p) \<le> 255"
    by (rule unat_byte_le)+
  then show ?thesis by simp
qed

lemma gray_of_gray: "gray_of \<lparr>red = v, green = v, blue = v, alpha = a\<rparr> = v"
proof -
  have "(unat v * 4899 + unat v * 9617 + unat v * 1868 + 8192) div 16384 = unat v"
    by simp
  then show ?thesis by (simp add: gray_of_def)
qed

lemma imshow_binary_opaque:
  "(\<And>v. v \<in> set (ipx m) \<Longrightarrow> v = 0 \<or> v = 255) \<Longrightarrow> list_all binary_opaque (ipx (imshow_gray m))"
  by (auto simp: imshow_gray_def binary_opaque_def list_all_iff)

lemma floor_six_fifths: "\<lfloor>6 / 5 :: rat\<rfloor> = 1"
  by (rule floor_unique) simp_all

lemma preprocessed_canvas:
  assumes "preprocessImage sample g vw vh = Inr cv"
  shows "iw cv \<noteq> 0 \<and> ih cv \<noteq> 0 \<and> length (ipx cv) = iw cv * ih cv \<and>
         list_all binary_opaque (ipx cv)"
proof -
  from assms have ne: "\<not> (vw \<le> 1 \<or> vh \<le> 3)" and
    cv: "cv = imshow_gray (adaptive_threshold g (cvt_rgba2gray
            (draw_image sample (of_nat vw * box_x) (of_nat vh * box_y)
               (canvas_dim (of_nat vw * box_w)) (canvas_dim (of_nat vh * box_h)))))"
    by (simp_all add: preprocessImage_Inr)
  have "list_all binary_opaque (ipx cv)"
    unfolding cv by (rule imshow_binary_opaque) (rule set_adaptive_threshold_binary)
  with ne show ?thesis
    by (simp add: cv imshow_gray_def cvt_rgba2gray_def draw_image_def crop_width_zero_iff
        crop_height_zero_iff)
qed

text \<open>The two images the OCR engine receives for a preprocessed canvas.\<close>

lemma attempt_images_preprocessed:
  assumes "preprocessImage sample g vw vh = Inr cv"
  shows "attempt_image cv Standard = Inr cv"
    and "attempt_image cv Inverted = Inr (bitwise_not cv)"
    and "list_all (\<lambda>p. alpha p = 0) (ipx (bitwise_not cv))"
proof -
  from preprocessed_canvas [OF assms] have rd: "cv_imread cv = Inr cv"
    by (simp add: cv_imread_def)
  then show "attempt_image cv Standard = Inr cv" "attempt_image cv Inverted = Inr (bitwise_not cv)"
    by (simp_all add: attempt_image_def)
  from preprocessed_canvas [OF assms] show "list_all (\<lambda>p. alpha p = 0) (ipx (bitwise_not cv))"
    by (auto simp: list_all_iff binary_opaque_def not_pixel_def bitwise_not_def)
qed

lemma preprocessImage_small_fails:
  "vw \<le> 1 \<or> vh \<le> 3 \<Longrightarrow> preprocessImage sample g vw vh = Inl IndexSizeError"
  by (auto simp: preprocessImage_def Let_def cv_imread_def draw_image_def
      crop_width_zero_iff crop_height_zero_iff)

section \<open>Properties of the image path\<close>

text \<open>
  C6.  \<open>preprocessImage\<close> fails, with the \<open>IndexSizeError\<close> that
  \<open>cv.imread\<close> raises on an empty canvas, exactly when the video is at most one
  pixel wide or at most three pixels high (the crop box then truncates to a zero
  canvas dimension); it never fails otherwise.
\<close>

theorem preprocessImage_error:
  "preprocessImage sample g vw vh = Inl e \<longleftrightarrow> e = IndexSizeError \<and> (vw \<le> 1 \<or> vh \<le> 3)"
  by (auto simp: preprocessImage_def Let_def cv_imread_def draw_image_def
      crop_width_zero_iff crop_height_zero_iff)

text \<open>
  C7.  A successful \<open>preprocessImage\<close> yields a canvas of
  \<open>floor (0.8 * videoWidth)\<close> by \<open>floor (0.3 * videoHeight)\<close> pixels, every one
  of them opaque grey and either black or white.
\<close>

theorem preprocessImage_output:
  assumes "preprocessImage sample g vw vh = Inr cv"
  shows "iw cv = nat \<lfloor>of_nat vw * 4 / 5 :: rat\<rfloor> \<and> ih cv = nat \<lfloor>of_nat vh * 3 / 10 :: rat\<rfloor> \<and>
         length (ipx cv) = iw cv * ih cv \<and> list_all binary_opaque (ipx cv)"
proof -
  from assms have cv: "cv = imshow_gray (adaptive_threshold g (cvt_rgba2gray
            (draw_image sample (of_nat vw * box_x) (of_nat vh * box_y)
               (canvas_dim (of_nat vw * box_w)) (canvas_dim (of_nat vh * box_h)))))"
    by (simp add: preprocessImage_Inr)
  have "list_all binary_opaque (ipx cv)"
    unfolding cv by (rule imshow_binary_opaque) (rule set_adaptive_threshold_binary)
  then show ?thesis
    by (simp add: cv imshow_gray_def cvt_rgba2gray_def draw_image_def canvas_dim_def
        box_w_def box_h_def)
qed

lemma preprocessImage_output_witness:
  "\<exists>cv. preprocessImage (\<lambda>_ _. \<lparr>red = 0, green = 0, blue = 0, alpha = 255\<rparr>) (\<lambda>_ _. 0) 5 4
          = Inr cv \<and> iw cv = 4 \<and> ih cv = 1 \<and> length (ipx cv) = 4 \<and> list_all binary_opaque (ipx cv)"
proof -
  obtain cv where cv: "preprocessImage (\<lambda>_ _. \<lparr>red = 0, green = 0, blue = 0, alpha = 255\<rparr>)
      (\<lambda>_ _. 0) 5 4 = Inr cv"
    by (simp add: preprocessImage_Inr)
  have "nat \<lfloor>6 / 5 :: rat\<rfloor> = 1" by (simp add: floor_six_fifths)
  with preprocessImage_output [OF cv] cv show ?thesis by auto
qed

text \<open>
  C8.  The retry strategy does not invert intensities of an opaque image:
  \<open>cv.bitwise_not\<close> also complements the alpha channel, so for every
  preprocessed canvas the image handed to the OCR engine on the \<open>inverted\<close>
  attempt has the canvas's size and is fully transparent (alpha 0 everywhere),
  while the \<open>standard\<close> attempt receives the canvas itself.
\<close>

theorem inverted_attempt_transparent:
  assumes "preprocessImage sample g vw vh = Inr cv"
  shows "attempt_image cv Standard = Inr cv \<and>
         (\<exists>img. attempt_image cv Inverted = Inr img \<and> length (ipx img) = length (ipx cv) \<and>
                list_all (\<lambda>p. alpha p = 0) (ipx img))"
  using attempt_images_preprocessed [OF assms] by (simp add: bitwise_not_def)

lemma inverted_attempt_transparent_witness:
  "\<exists>cv img. preprocessImage (\<lambda>_ _. \<lparr>red = 0, green = 0, blue = 0, alpha = 255\<rparr>) (\<lambda>_ _. 0) 5 4
          = Inr cv \<and> attempt_image cv Inverted = Inr img \<and> length (ipx img) = 4 \<and>
          list_all (\<lambda>p. alpha p = 0) (ipx img)"
proof -
  obtain cv where cv: "preprocessImage (\<lambda>_ _. \<lparr>red = 0, green = 0, blue = 0, alpha = 255\<rparr>)
      (\<lambda>_ _. 0) 5 4 = Inr cv"
    by (simp add: preprocessImage_Inr)
  have "nat \<lfloor>6 / 5 :: rat\<rfloor> = 1" by (simp add: floor_six_fifths)
  with cv have "length (ipx cv) = 4"
    by (auto simp: preprocessImage_Inr imshow_gray_def cvt_rgba2gray_def draw_image_def
        canvas_dim_def box_w_def box_h_def)
  with inverted_attempt_transparent [OF cv] cv show ?thesis by auto
qed

text \<open>
  Round trip of the binarised image through the canvas: showing a grey
  matrix on a canvas (\<open>cv.imshow\<close>) and converting it back with the fixed-point
  luma of \<open>cv.cvtColor\<close> returns the matrix unchanged; the luma weights sum to
  \<open>2^14\<close>, so no grey level is shifted and none overflows 8 bits.
\<close>

lemma gray_imshow_roundtrip: "cvt_rgba2gray (imshow_gray m) = m"
  by (simp add: cvt_rgba2gray_def imshow_gray_def comp_def gray_of_gray)

end
