(* ===== verification/Recognition.thy ===== *)
theory Recognition
  imports CodeExtractor Imaging
begin

text \<open>
  The recognition pipeline of \<open>src/public/js/scan.js\<close>: \<open>runSingleRecognition\<close>
  (lines 145--162) runs the OCR engine once on the canvas, standard or
  inverted, and accepts its output when \<open>findProductCode\<close> finds a code and the
  engine's confidence exceeds 60; \<open>runRecognitionPipeline\<close> (lines 133--143)
  tries the standard strategy, then the inverted one, and ends in
  \<open>handleSuccess\<close> or \<open>handleFailure\<close> (lines 170--180).  The Tesseract worker
  is the parameter \<open>ocr\<close>: it maps the image it is given to a resolved
  \<open>{text, confidence}\<close> or to a rejected promise (caught by the code).  What the
  code does to the page is recorded as a list of \<open>effect\<close>s in program order:
  status messages, sounds, OCR calls and the delayed redirect.  A
  \<open>cv.imread\<close> failure is thrown outside the \<open>try\<close>, so it rejects the whole
  pipeline (\<open>ScanRejected\<close>).
\<close>

section \<open>Outcomes and effects\<close>

datatype ocr_outcome = OcrText js_string rat | OcrRejected

datatype recog_result = Recognized js_string | NotRecognized

datatype found_kind = QrCodeFound | TextFound

datatype status =
    StatusInitializing
  | StatusEngineReady
  | StatusQrStartFailed
  | StatusCameraFailed
  | StatusAnalyzing
  | StatusRetryingInverted
  | StatusFound found_kind js_string
  | StatusNoValidCode

datatype effect =
    Status status
  | PlaySound sound
  | OcrCall strategy
  | Redirect js_string

datatype scan_outcome = ScanSuccess js_string | ScanFailure | ScanRejected cv_error

type_synonym ocr_engine = "canvas \<Rightarrow> ocr_outcome"

section \<open>The pipeline\<close>

text \<open>\<open>if (productCode && confidence > 60)\<close>: a code is truthy when non-empty.\<close>

definition accept_ocr :: "ocr_outcome \<Rightarrow> recog_result" where
  "accept_ocr r =
     (case r of
        OcrRejected \<Rightarrow> NotRecognized
      | OcrText text confidence \<Rightarrow>
          (case findProductCode text of
             Some code \<Rightarrow> if code \<noteq> [] \<and> 60 < confidence then Recognized code else NotRecognized
           | None \<Rightarrow> NotRecognized))"

definition runSingleRecognition ::
  "ocr_engine \<Rightarrow> canvas \<Rightarrow> strategy \<Rightarrow> cv_error + recog_result \<times> effect list" where
  "runSingleRecognition ocr cv s =
     (case attempt_image cv s of
        Inl e \<Rightarrow> Inl e
      | Inr img \<Rightarrow> Inr (accept_ocr (ocr img), [OcrCall s]))"

definition detailsUrl :: "js_string \<Rightarrow> js_string" where
  "detailsUrl code = ''/details.html?code='' @ code"

definition handleSuccess :: "js_string \<Rightarrow> found_kind \<Rightarrow> effect list" where
  "handleSuccess code kind =
     [PlaySound SuccessSound, Status (StatusFound kind code), Redirect (detailsUrl code)]"

definition handleFailure :: "effect list" where
  "handleFailure = [PlaySound ErrorSound, Status StatusNoValidCode]"

definition runRecognitionPipeline :: "ocr_engine \<Rightarrow> canvas \<Rightarrow> scan_outcome \<times> effect list" where
  "runRecognitionPipeline ocr cv =
     (let e1 = [Status StatusAnalyzing] in
      case runSingleRecognition ocr cv Standard of
        Inl err \<Rightarrow> (ScanRejected err, e1)
      | Inr (Recognized code, c1) \<Rightarrow> (ScanSuccess code, e1 @ c1 @ handleSuccess code TextFound)
      | Inr (NotRecognized, c1) \<Rightarrow>
          (let e2 = e1 @ c1 @ [Status StatusRetryingInverted] in
           case runSingleRecognition ocr cv Inverted of
             Inl err \<Rightarrow> (ScanRejected err, e2)
           | Inr (Recognized code, c2) \<Rightarrow> (ScanSuccess code, e2 @ c2 @ handleSuccess code TextFound)
           | Inr (NotRecognized, c2) \<Rightarrow> (ScanFailure, e2 @ c2 @ handleFailure)))"

declare accept_ocr_def [eval_model] runSingleRecognition_def [eval_model]
  detailsUrl_def [eval_model] handleSuccess_def [eval_model] handleFailure_def [eval_model]
  runRecognitionPipeline_def [eval_model]

section \<open>Specification of an accepted attempt\<close>

text \<open>The specification's acceptance rule: the engine, given the attempt's image,
  returns text from which a code is extracted, with confidence above 60.\<close>

definition accepted :: "ocr_engine \<Rightarrow> canvas \<Rightarrow> strategy \<Rightarrow> js_string \<Rightarrow> bool" where
  "accepted ocr cv s code \<longleftrightarrow>
     (\<exists>img text conf. attempt_image cv s = Inr img \<and> ocr img = OcrText text conf \<and>
                      findProductCode text = Some code \<and> 60 < conf)"

fun is_ocr_call :: "effect \<Rightarrow> bool" where
  "is_ocr_call (OcrCall _) = True"
| "is_ocr_call _ = False"

lemma product_code_nonempty: "findProductCode text = Some code \<Longrightarrow> code \<noteq> []"
  by (auto simp: findProductCode_def first_match_Some_iff match_at_append_self
      is_product_code_def)

lemma accept_ocr_Recognized:
  "accept_ocr r = Recognized code \<longleftrightarrow>
     (\<exists>text conf. r = OcrText text conf \<and> findProductCode text = Some code \<and> 60 < conf)"
  by (auto simp: accept_ocr_def product_code_nonempty split: ocr_outcome.splits option.splits)

lemma single_Recognized_iff:
  "attempt_image cv s = Inr img \<Longrightarrow>
   runSingleRecognition ocr cv s = Inr (Recognized code, [OcrCall s]) \<longleftrightarrow> accepted ocr cv s code"
  by (simp add: runSingleRecognition_def accepted_def accept_ocr_Recognized)

lemma single_result:
  "attempt_image cv s = Inr img \<Longrightarrow>
   runSingleRecognition ocr cv s = Inr (accept_ocr (ocr img), [OcrCall s])"
  by (simp add: runSingleRecognition_def)

lemma accepted_iff:
  "attempt_image cv s = Inr img \<Longrightarrow>
   accepted ocr cv s code \<longleftrightarrow> accept_ocr (ocr img) = Recognized code"
  by (simp add: accepted_def accept_ocr_Recognized)

lemma accept_ocr_cases: "accept_ocr r = NotRecognized \<or> (\<exists>c. accept_ocr r = Recognized c)"
  by (cases "accept_ocr r") auto

text \<open>The pipeline on a canvas that both attempts can read, written out.\<close>

lemma pipeline_readable:
  assumes "attempt_image cv Standard = Inr img1" and "attempt_image cv Inverted = Inr img2"
  shows "runRecognitionPipeline ocr cv =
    (case accept_ocr (ocr img1) of
       Recognized code \<Rightarrow>
         (ScanSuccess code, [Status StatusAnalyzing, OcrCall Standard] @ handleSuccess code TextFound)
     | NotRecognized \<Rightarrow>
         (case accept_ocr (ocr img2) of
            Recognized code \<Rightarrow>
              (ScanSuccess code, [Status StatusAnalyzing, OcrCall Standard,
                 Status StatusRetryingInverted, OcrCall Inverted] @ handleSuccess code TextFound)
          | NotRecognized \<Rightarrow>
              (ScanFailure, [Status StatusAnalyzing, OcrCall Standard,
                 Status StatusRetryingInverted, OcrCall Inverted] @ handleFailure)))"
  by (simp add: runRecognitionPipeline_def single_result [OF assms(1)] single_result [OF assms(2)]
      split: recog_result.split)

lemma pipeline_preprocessed:
  assumes "preprocessImage sample g vw vh = Inr cv"
  shows "runRecognitionPipeline ocr cv =
    (case accept_ocr (ocr cv) of
       Recognized code \<Rightarrow>
         (ScanSuccess code, [Status StatusAnalyzing, OcrCall Standard] @ handleSuccess code TextFound)
     | NotRecognized \<Rightarrow>
         (case accept_ocr (ocr (bitwise_not cv)) of
            Recognized code \<Rightarrow>
              (ScanSuccess code, [Status StatusAnalyzing, OcrCall Standard,
                 Status StatusRetryingInverted, OcrCall Inverted] @ handleSuccess code TextFound)
          | NotRecognized \<Rightarrow>
              (ScanFailure, [Status StatusAnalyzing, OcrCall Standard,
                 Status StatusRetryingInverted, OcrCall Inverted] @ handleFailure)))"
  using attempt_images_preprocessed(1,2) [OF assms] by (rule pipeline_readable)

lemma accepted_preprocessed:
  assumes "preprocessImage sample g vw vh = Inr cv"
  shows "accepted ocr cv Standard code \<longleftrightarrow> accept_ocr (ocr cv) = Recognized code"
    and "accepted ocr cv Inverted code \<longleftrightarrow> accept_ocr (ocr (bitwise_not cv)) = Recognized code"
  using accepted_iff attempt_images_preprocessed(1,2) [OF assms] by blast+

lemma witness_canvas:
  obtains cv where "preprocessImage (\<lambda>_ _. \<lparr>red = 0, green = 0, blue = 0, alpha = 255\<rparr>) (\<lambda>_ _. 0)
     5 4 = Inr cv"
  by (simp add: preprocessImage_Inr)

lemma single_Recognized_code:
  "runSingleRecognition ocr cv s = Inr (Recognized k, c) \<Longrightarrow> is_product_code k"
  by (auto simp: runSingleRecognition_def accept_ocr_Recognized findProductCode_Some_code
      split: sum.splits)

lemma pipeline_success_shape:
  assumes ok: "fst (runRecognitionPipeline ocr cv) = ScanSuccess code"
  shows "(\<exists>s c. runSingleRecognition ocr cv s = Inr (Recognized code, c)) \<and>
         (\<exists>pre. snd (runRecognitionPipeline ocr cv) = pre @ handleSuccess code TextFound)"
proof (cases "runSingleRecognition ocr cv Standard")
  case (Inl err)
  with ok show ?thesis by (simp add: runRecognitionPipeline_def)
next
  case (Inr r1)
  note s1 = this
  obtain res1 c1 where r1: "r1 = (res1, c1)" by (cases r1)
  show ?thesis
  proof (cases res1)
    case (Recognized k)
    with ok s1 r1 show ?thesis by (auto simp: runRecognitionPipeline_def)
  next
    case NotRecognized
    note n1 = this
    show ?thesis
    proof (cases "runSingleRecognition ocr cv Inverted")
      case (Inl err)
      with ok s1 r1 n1 show ?thesis by (simp add: runRecognitionPipeline_def)
    next
      case (Inr r2)
      note s2 = this
      obtain res2 c2 where r2: "r2 = (res2, c2)" by (cases r2)
      with ok s1 r1 n1 s2 show ?thesis
        by (cases res2) (auto simp: runRecognitionPipeline_def)
    qed
  qed
qed

section \<open>Properties of the pipeline\<close>

text \<open>
  C10.  On a preprocessed canvas the pipeline succeeds with \<open>code\<close> exactly when
  the standard attempt is accepted with \<open>code\<close>, or the standard attempt is not
  accepted at all and the inverted retry is accepted with \<open>code\<close>
  (retry-then-accept ordering of the specification).
\<close>

theorem pipeline_success_iff:
  assumes "preprocessImage sample g vw vh = Inr cv"
  shows "fst (runRecognitionPipeline ocr cv) = ScanSuccess code \<longleftrightarrow>
           accepted ocr cv Standard code \<or>
           ((\<forall>k. \<not> accepted ocr cv Standard k) \<and> accepted ocr cv Inverted code)"
  using accept_ocr_cases [of "ocr cv"] accept_ocr_cases [of "ocr (bitwise_not cv)"]
  by (auto simp: pipeline_preprocessed [OF assms] accepted_preprocessed [OF assms])

text \<open>The specification's example: the standard pass reads \<open>ITEM9\<close> with confidence
  55, the inverted pass with confidence 75; the pipeline returns \<open>ITEM9\<close>.\<close>

lemma pipeline_success_iff_witness:
  "\<exists>cv. preprocessImage (\<lambda>_ _. \<lparr>red = 0, green = 0, blue = 0, alpha = 255\<rparr>) (\<lambda>_ _. 0) 5 4 = Inr cv \<and>
     fst (runRecognitionPipeline
            (\<lambda>img. if list_all (\<lambda>p. alpha p = 0) (ipx img) then OcrText ''code: ITEM9'' 75
                   else OcrText ''ITEM9'' 55) cv) = ScanSuccess ''ITEM9''"
proof -
  obtain cv where cv: "preprocessImage (\<lambda>_ _. \<lparr>red = 0, green = 0, blue = 0, alpha = 255\<rparr>)
      (\<lambda>_ _. 0) 5 4 = Inr cv" by (rule witness_canvas)
  let ?ocr = "\<lambda>img. if list_all (\<lambda>p. alpha p = 0) (ipx img) then OcrText ''code: ITEM9'' 75
                   else OcrText ''ITEM9'' 55"
  from preprocessed_canvas [OF cv] have "ipx cv \<noteq> []" and "list_all binary_opaque (ipx cv)"
    by auto
  then have "\<not> list_all (\<lambda>p. alpha p = 0) (ipx cv)"
    by (cases "ipx cv") (auto simp: binary_opaque_def)
  then have "?ocr cv = OcrText ''ITEM9'' 55" by simp
  then have std: "\<forall>k. \<not> accepted ?ocr cv Standard k"
    by (simp add: accepted_preprocessed [OF cv] accept_ocr_def split: option.splits)
  have "?ocr (bitwise_not cv) = OcrText ''code: ITEM9'' 75"
    using attempt_images_preprocessed(3) [OF cv] by simp
  moreover have "findProductCode ''code: ITEM9'' = Some ''ITEM9''" by code_simp
  ultimately have "accepted ?ocr cv Inverted ''ITEM9''"
    by (simp add: accepted_preprocessed [OF cv] accept_ocr_def)
  with std pipeline_success_iff [OF cv, of ?ocr "''ITEM9''"] cv show ?thesis by blast
qed

text \<open>
  C11.  On a preprocessed canvas the pipeline fails exactly when neither attempt
  is accepted, and its failure is the fixed sequence of the code: the two
  status messages and two OCR calls, then the error sound and the
  \<open>no valid code\<close> message.
\<close>

theorem pipeline_failure:
  assumes "preprocessImage sample g vw vh = Inr cv"
  shows "runRecognitionPipeline ocr cv =
           (ScanFailure, [Status StatusAnalyzing, OcrCall Standard, Status StatusRetryingInverted,
                          OcrCall Inverted, PlaySound ErrorSound, Status StatusNoValidCode]) \<longleftrightarrow>
         (\<forall>k. \<not> accepted ocr cv Standard k \<and> \<not> accepted ocr cv Inverted k)"
  using accept_ocr_cases [of "ocr cv"] accept_ocr_cases [of "ocr (bitwise_not cv)"]
  by (auto simp: pipeline_preprocessed [OF assms] accepted_preprocessed [OF assms]
      handleFailure_def)

lemma pipeline_failure_witness:
  "\<exists>cv. preprocessImage (\<lambda>_ _. \<lparr>red = 0, green = 0, blue = 0, alpha = 255\<rparr>) (\<lambda>_ _. 0) 5 4 = Inr cv \<and>
     runRecognitionPipeline (\<lambda>_. OcrText ''ITEM9'' 55) cv =
       (ScanFailure, [Status StatusAnalyzing, OcrCall Standard, Status StatusRetryingInverted,
                      OcrCall Inverted, PlaySound ErrorSound, Status StatusNoValidCode])"
proof -
  obtain cv where cv: "preprocessImage (\<lambda>_ _. \<lparr>red = 0, green = 0, blue = 0, alpha = 255\<rparr>)
      (\<lambda>_ _. 0) 5 4 = Inr cv" by (rule witness_canvas)
  have "\<forall>k. \<not> accepted (\<lambda>_. OcrText ''ITEM9'' 55) cv Standard k \<and>
            \<not> accepted (\<lambda>_. OcrText ''ITEM9'' 55) cv Inverted k"
    by (simp add: accepted_preprocessed [OF cv] accept_ocr_def split: option.splits)
  with pipeline_failure [OF cv, of "\<lambda>_. OcrText ''ITEM9'' 55"] cv show ?thesis by blast
qed

text \<open>
  C12.  Bounded retry: on a preprocessed canvas the pipeline never rejects and
  calls the OCR engine once, with the standard image, when that attempt is
  accepted, and otherwise exactly twice, standard then inverted; there is never
  a third attempt.
\<close>

theorem pipeline_bounded:
  assumes "preprocessImage sample g vw vh = Inr cv"
  shows "(\<forall>e. fst (runRecognitionPipeline ocr cv) \<noteq> ScanRejected e) \<and>
         filter is_ocr_call (snd (runRecognitionPipeline ocr cv)) =
           (if \<exists>k. accepted ocr cv Standard k then [OcrCall Standard]
            else [OcrCall Standard, OcrCall Inverted])"
  using accept_ocr_cases [of "ocr cv"] accept_ocr_cases [of "ocr (bitwise_not cv)"]
  by (auto simp: pipeline_preprocessed [OF assms] accepted_preprocessed [OF assms]
      handleFailure_def handleSuccess_def)

lemma pipeline_bounded_witness:
  "\<exists>cv. preprocessImage (\<lambda>_ _. \<lparr>red = 0, green = 0, blue = 0, alpha = 255\<rparr>) (\<lambda>_ _. 0) 5 4 = Inr cv \<and>
     filter is_ocr_call (snd (runRecognitionPipeline (\<lambda>_. OcrRejected) cv)) =
       [OcrCall Standard, OcrCall Inverted]"
proof -
  obtain cv where cv: "preprocessImage (\<lambda>_ _. \<lparr>red = 0, green = 0, blue = 0, alpha = 255\<rparr>)
      (\<lambda>_ _. 0) 5 4 = Inr cv" by (rule witness_canvas)
  have "\<not> (\<exists>k. accepted (\<lambda>_. OcrRejected) cv Standard k)"
    by (simp add: accepted_preprocessed [OF cv] accept_ocr_def)
  with pipeline_bounded [OF cv, of "\<lambda>_. OcrRejected"] cv show ?thesis by auto
qed

text \<open>
  C13.  Whenever the pipeline succeeds (on any canvas), the code it reports is a
  canonical product code, and its last effects are those of \<open>handleSuccess\<close>:
  the success sound, the \<open>Text Found\<close> message and the redirect to the details
  page of that code.
\<close>

theorem pipeline_success_effects:
  assumes "fst (runRecognitionPipeline ocr cv) = ScanSuccess code"
  shows "is_product_code code \<and>
         (\<exists>pre. snd (runRecognitionPipeline ocr cv) =
            pre @ [PlaySound SuccessSound, Status (StatusFound TextFound code),
                   Redirect (''/details.html?code='' @ code)])"
  using pipeline_success_shape [OF assms]
  by (auto simp: handleSuccess_def detailsUrl_def dest: single_Recognized_code)

lemma pipeline_success_effects_witness:
  "\<exists>cv. preprocessImage (\<lambda>_ _. \<lparr>red = 0, green = 0, blue = 0, alpha = 255\<rparr>) (\<lambda>_ _. 0) 5 4 = Inr cv \<and>
     fst (runRecognitionPipeline (\<lambda>_. OcrText ''ITEM12'' 90) cv) = ScanSuccess ''ITEM12'' \<and>
     is_product_code ''ITEM12''"
proof -
  obtain cv where cv: "preprocessImage (\<lambda>_ _. \<lparr>red = 0, green = 0, blue = 0, alpha = 255\<rparr>)
      (\<lambda>_ _. 0) 5 4 = Inr cv" by (rule witness_canvas)
  have "findProductCode ''ITEM12'' = Some ''ITEM12''" by code_simp
  then have ok: "fst (runRecognitionPipeline (\<lambda>_. OcrText ''ITEM12'' 90) cv) = ScanSuccess ''ITEM12''"
    by (simp add: pipeline_preprocessed [OF cv] accept_ocr_def)
  from pipeline_success_effects [OF ok] ok cv show ?thesis by blast
qed

end
