(* ===== verification/ScanController.thy ===== *)
theory ScanController
  imports Recognition
begin

text \<open>
  The scan session controller of \<open>src/public/js/scan.js\<close>: the global state
  (lines 1--3), engine readiness (lines 8--36), the tab handlers
  \<open>startQrScanner\<close> and \<open>activateOcrScanner\<close> (lines 59--85), the QR callback
  \<open>onScanSuccess\<close> (lines 49--57), the capture button (lines 90--99), the
  start-up sequence (lines 103--105) and \<open>stopAllStreams\<close> (lines 108--116).

  The page is single-threaded but asynchronous: every \<open>await\<close> or promise of
  the code splits a handler into a synchronous part and a later completion.
  The model makes each completion an event of its own, so that the step
  function \<open>scan_step\<close> runs one handler or one completion, and any
  interleaving the browser may choose is a list of events:
  \<^item> \<open>QrStartDone i ok\<close>: the promise of \<open>html5Qrcode.start\<close> of the \<open>i\<close>-th
    scanner object resolves (the camera is running) or rejects;
  \<^item> \<open>GumDone ok\<close>: a pending \<open>getUserMedia\<close> of \<open>activateOcrScanner\<close> resolves
    with a new stream or rejects;
  \<^item> \<open>TesseractReady\<close>, \<open>OpenCvReady\<close>: the engine initialisations complete;
  \<^item> \<open>QrDecoded i text\<close>: the \<open>i\<close>-th scanner object decodes \<open>text\<close>;
  \<^item> \<open>PipelineDone n ocr\<close>: the \<open>n\<close>-th recognition pipeline in flight completes,
    with the OCR engine's answers \<open>ocr\<close>.
  Every \<open>Html5Qrcode\<close> object created is kept in \<open>qrs\<close> (the variable
  \<open>html5Qrcode\<close> is the last one); streams are numbered, \<open>live\<close> holds those
  whose tracks are not stopped.  \<open>isScanning\<close> is taken to hold from the
  resolution of \<open>start\<close> until \<open>stop\<close>, and \<open>stop\<close> releases the camera at
  once (html5-qrcode stops the tracks synchronously).
\<close>

section \<open>State and events\<close>

datatype tab = QrTab | OcrTab

datatype qr_phase = QrStarting | QrScanning | QrStopped | QrStartFailed

record scan_state =
  loaded :: bool
  cv_ready :: bool
  tess_ready :: bool
  tess_pending :: bool
  capture_disabled :: bool
  cur_tab :: tab
  qrs :: "qr_phase list"
  active_stream :: "nat option"
  live :: "nat set"
  next_stream :: nat
  pending_gum :: nat
  pipelines :: "canvas list"
  log :: "effect list"

datatype scan_event =
    DomLoaded
  | OpenCvReady
  | TesseractReady
  | ClickQrTab
  | ClickOcrTab
  | ClickRetry
  | QrStartDone nat bool
  | GumDone bool
  | QrDecoded nat js_string
  | ClickCapture "rat \<Rightarrow> rat \<Rightarrow> rgba" "gray_mat \<Rightarrow> nat \<Rightarrow> 8 word" nat nat
  | PipelineDone nat ocr_engine

text \<open>The page before \<open>DOMContentLoaded\<close>: no scanner, no stream, no engine.\<close>

definition scan_init :: scan_state where
  "scan_init = \<lparr>loaded = False, cv_ready = False, tess_ready = False, tess_pending = False,
     capture_disabled = False, cur_tab = QrTab, qrs = [], active_stream = None, live = {},
     next_stream = 0, pending_gum = 0, pipelines = [], log = []\<rparr>"

section \<open>Handlers\<close>

text \<open>\<open>html5Qrcode && html5Qrcode.isScanning\<close>.\<close>

definition qr_is_scanning :: "scan_state \<Rightarrow> bool" where
  "qr_is_scanning s \<longleftrightarrow> qrs s \<noteq> [] \<and> last (qrs s) = QrScanning"

definition stop_current_qr :: "scan_state \<Rightarrow> scan_state" where
  "stop_current_qr s =
     (if qr_is_scanning s then s\<lparr>qrs := butlast (qrs s) @ [QrStopped]\<rparr> else s)"

definition stopAllStreams :: "scan_state \<Rightarrow> scan_state" where
  "stopAllStreams s =
     (let s1 = stop_current_qr s in
      case active_stream s1 of
        None \<Rightarrow> s1
      | Some k \<Rightarrow> s1\<lparr>live := live s1 - {k}, active_stream := None\<rparr>)"

definition checkIfOcrReady :: "scan_state \<Rightarrow> scan_state" where
  "checkIfOcrReady s =
     (if cv_ready s \<and> tess_ready s
      then s\<lparr>capture_disabled := False,
             log := log s @ (if cur_tab s = QrTab then [Status StatusEngineReady] else [])\<rparr>
      else s)"

text \<open>\<open>startQrScanner\<close>: stop everything, switch the tab, create a new scanner and
  call its \<open>start\<close> (completed by \<open>QrStartDone\<close>).\<close>

definition startQrScanner :: "scan_state \<Rightarrow> scan_state" where
  "startQrScanner s =
     (let s1 = stopAllStreams s in s1\<lparr>cur_tab := QrTab, qrs := qrs s1 @ [QrStarting]\<rparr>)"

text \<open>\<open>activateOcrScanner\<close> up to its \<open>await getUserMedia\<close> (completed by \<open>GumDone\<close>).\<close>

definition activateOcrScanner :: "scan_state \<Rightarrow> scan_state" where
  "activateOcrScanner s =
     (let s1 = stopAllStreams s in s1\<lparr>cur_tab := OcrTab, pending_gum := Suc (pending_gum s1)\<rparr>)"

text \<open>\<open>activeStream = await getUserMedia(...)\<close>: the new stream replaces the
  variable's value; a stream it held before is not stopped.\<close>

definition gum_done :: "bool \<Rightarrow> scan_state \<Rightarrow> scan_state" where
  "gum_done ok s =
     (if pending_gum s = 0 then s
      else if ok then
        s\<lparr>pending_gum := pending_gum s - 1, live := insert (next_stream s) (live s),
          active_stream := Some (next_stream s), next_stream := Suc (next_stream s)\<rparr>
      else s\<lparr>pending_gum := pending_gum s - 1, log := log s @ [Status StatusCameraFailed]\<rparr>)"

definition qr_start_done :: "nat \<Rightarrow> bool \<Rightarrow> scan_state \<Rightarrow> scan_state" where
  "qr_start_done i ok s =
     (if i < length (qrs s) \<and> qrs s ! i = QrStarting then
        (if ok then s\<lparr>qrs := (qrs s)[i := QrScanning]\<rparr>
         else s\<lparr>qrs := (qrs s)[i := QrStartFailed], log := log s @ [Status StatusQrStartFailed]\<rparr>)
      else s)"

text \<open>\<open>onScanSuccess(decodedText)\<close>: sound, stop the current scanner, then
  \<open>handleSuccess(decodedText, "QR Code Found")\<close>.\<close>

definition onScanSuccess :: "nat \<Rightarrow> js_string \<Rightarrow> scan_state \<Rightarrow> scan_state" where
  "onScanSuccess i text s =
     (if i < length (qrs s) \<and> qrs s ! i = QrScanning then
        (let s1 = stop_current_qr (s\<lparr>log := log s @ [PlaySound SuccessSound]\<rparr>) in
         s1\<lparr>log := log s1 @ handleSuccess text QrCodeFound\<rparr>)
      else s)"

text \<open>The capture button: a disabled button receives no click; without a stream
  the handler returns; otherwise sound, \<open>preprocessImage\<close> (an exception aborts
  the handler), \<open>runRecognitionPipeline\<close> (asynchronous: completed by
  \<open>PipelineDone\<close>) and \<open>stopAllStreams\<close>.\<close>

definition capture :: "(rat \<Rightarrow> rat \<Rightarrow> rgba) \<Rightarrow> (gray_mat \<Rightarrow> nat \<Rightarrow> 8 word) \<Rightarrow> nat \<Rightarrow> nat \<Rightarrow>
    scan_state \<Rightarrow> scan_state" where
  "capture sample g vw vh s =
     (if capture_disabled s \<or> active_stream s = None then s
      else
        (let s1 = s\<lparr>log := log s @ [PlaySound SuccessSound]\<rparr> in
         case preprocessImage sample g vw vh of
           Inl e \<Rightarrow> s1
         | Inr cv \<Rightarrow> stopAllStreams (s1\<lparr>pipelines := pipelines s1 @ [cv]\<rparr>)))"

definition pipeline_done :: "nat \<Rightarrow> ocr_engine \<Rightarrow> scan_state \<Rightarrow> scan_state" where
  "pipeline_done n ocr s =
     (if n < length (pipelines s) then
        s\<lparr>pipelines := take n (pipelines s) @ drop (Suc n) (pipelines s),
          log := log s @ snd (runRecognitionPipeline ocr (pipelines s ! n))\<rparr>
      else s)"

text \<open>The \<open>DOMContentLoaded\<close> handler: disable capture, start the Tesseract
  initialisation (its status message is written before its first \<open>await\<close>),
  start the QR scanner.\<close>

definition dom_loaded :: "scan_state \<Rightarrow> scan_state" where
  "dom_loaded s =
     startQrScanner (s\<lparr>loaded := True, capture_disabled := True, tess_pending := True,
                       log := log s @ [Status StatusInitializing]\<rparr>)"

fun scan_step :: "scan_state \<Rightarrow> scan_event \<Rightarrow> scan_state" where
  "scan_step s DomLoaded = (if loaded s then s else dom_loaded s)"
| "scan_step s OpenCvReady = checkIfOcrReady (s\<lparr>cv_ready := True\<rparr>)"
| "scan_step s TesseractReady =
     (if tess_pending s then checkIfOcrReady (s\<lparr>tess_pending := False, tess_ready := True\<rparr>) else s)"
| "scan_step s ClickQrTab = (if loaded s then startQrScanner s else s)"
| "scan_step s ClickOcrTab = (if loaded s then activateOcrScanner s else s)"
| "scan_step s ClickRetry = (if loaded s then activateOcrScanner s else s)"
| "scan_step s (QrStartDone i ok) = qr_start_done i ok s"
| "scan_step s (GumDone ok) = gum_done ok s"
| "scan_step s (QrDecoded i text) = onScanSuccess i text s"
| "scan_step s (ClickCapture sample g vw vh) = (if loaded s then capture sample g vw vh s else s)"
| "scan_step s (PipelineDone n ocr) = pipeline_done n ocr s"

fun scan_run :: "scan_state \<Rightarrow> scan_event list \<Rightarrow> scan_state" where
  "scan_run s [] = s"
| "scan_run s (e # es) = scan_run (scan_step s e) es"

inductive scan_reachable :: "scan_state \<Rightarrow> bool" where
  init: "scan_reachable scan_init"
| step: "scan_reachable s \<Longrightarrow> scan_reachable (scan_step s e)"

text \<open>The camera sessions held at a time: running streams and running scanners.\<close>

definition camera_holders :: "scan_state \<Rightarrow> nat" where
  "camera_holders s = card (live s) + length (filter (\<lambda>p. p = QrScanning) (qrs s))"

declare scan_init_def [eval_model] qr_is_scanning_def [eval_model]
  stop_current_qr_def [eval_model] stopAllStreams_def [eval_model]
  checkIfOcrReady_def [eval_model] startQrScanner_def [eval_model]
  activateOcrScanner_def [eval_model] gum_done_def [eval_model] qr_start_done_def [eval_model]
  onScanSuccess_def [eval_model] capture_def [eval_model] pipeline_done_def [eval_model]
  dom_loaded_def [eval_model] camera_holders_def [eval_model]

section \<open>Invariants\<close>

text \<open>Readiness: the capture button is enabled, and a pipeline runs, only once
  both engines are ready.\<close>

definition ready_inv :: "scan_state \<Rightarrow> bool" where
  "ready_inv s \<longleftrightarrow> (loaded s \<and> \<not> capture_disabled s \<longrightarrow> cv_ready s \<and> tess_ready s) \<and>
                   (pipelines s \<noteq> [] \<longrightarrow> cv_ready s \<and> tess_ready s)"

text \<open>The Tesseract initialisation, once started by the page, is pending
  until it completes.\<close>

definition tess_inv :: "scan_state \<Rightarrow> bool" where
  "tess_inv s \<longleftrightarrow> (loaded s \<longrightarrow> tess_pending s \<or> tess_ready s)"

text \<open>An orphan stream: live, created by the page, and no longer held by
  \<open>activeStream\<close>, so that no call of \<open>stopAllStreams\<close> can stop it.\<close>

definition orphan :: "nat \<Rightarrow> scan_state \<Rightarrow> bool" where
  "orphan k s \<longleftrightarrow> k \<in> live s \<and> active_stream s \<noteq> Some k \<and> k < next_stream s"

section \<open>Frame lemmas of the handlers\<close>

lemma stop_current_qr_fields [simp]:
  "loaded (stop_current_qr s) = loaded s" "cv_ready (stop_current_qr s) = cv_ready s"
  "tess_ready (stop_current_qr s) = tess_ready s" "tess_pending (stop_current_qr s) = tess_pending s"
  "capture_disabled (stop_current_qr s) = capture_disabled s"
  "cur_tab (stop_current_qr s) = cur_tab s" "active_stream (stop_current_qr s) = active_stream s"
  "live (stop_current_qr s) = live s" "next_stream (stop_current_qr s) = next_stream s"
  "pending_gum (stop_current_qr s) = pending_gum s" "pipelines (stop_current_qr s) = pipelines s"
  "log (stop_current_qr s) = log s"
  by (simp_all add: stop_current_qr_def)

lemma stop_current_qr_not_scanning: "\<not> qr_is_scanning (stop_current_qr s)"
  by (auto simp: stop_current_qr_def qr_is_scanning_def)

lemma stop_current_qr_idem: "\<not> qr_is_scanning s \<Longrightarrow> stop_current_qr s = s"
  by (simp add: stop_current_qr_def)

lemma stopAllStreams_fields [simp]:
  "loaded (stopAllStreams s) = loaded s" "cv_ready (stopAllStreams s) = cv_ready s"
  "tess_ready (stopAllStreams s) = tess_ready s" "tess_pending (stopAllStreams s) = tess_pending s"
  "capture_disabled (stopAllStreams s) = capture_disabled s"
  "cur_tab (stopAllStreams s) = cur_tab s" "next_stream (stopAllStreams s) = next_stream s"
  "pending_gum (stopAllStreams s) = pending_gum s" "pipelines (stopAllStreams s) = pipelines s"
  "log (stopAllStreams s) = log s"
  by (simp_all add: stopAllStreams_def Let_def split: option.split)

lemma stopAllStreams_stream:
  "active_stream (stopAllStreams s) = None"
  "live (stopAllStreams s) = (case active_stream s of None \<Rightarrow> live s | Some k \<Rightarrow> live s - {k})"
  by (simp_all add: stopAllStreams_def Let_def split: option.split)

lemma stopAllStreams_qr: "qrs (stopAllStreams s) = qrs (stop_current_qr s)"
  by (simp add: stopAllStreams_def Let_def split: option.split)

lemma length_qrs_stop [simp]: "length (qrs (stop_current_qr s)) = length (qrs s)"
  by (auto simp: stop_current_qr_def qr_is_scanning_def)

lemma length_qrs_stopAll [simp]: "length (qrs (stopAllStreams s)) = length (qrs s)"
  by (simp add: stopAllStreams_qr)

lemma stopAllStreams_not_scanning: "\<not> qr_is_scanning (stopAllStreams s)"
  using stop_current_qr_not_scanning [of s]
  by (simp add: qr_is_scanning_def stopAllStreams_qr)

lemma scan_reachable_run: "scan_reachable s \<Longrightarrow> scan_reachable (scan_run s es)"
  by (induction es arbitrary: s) (auto intro: scan_reachable.step)

lemma scan_run_append: "scan_run s (es @ fs) = scan_run (scan_run s es) fs"
  by (induction es arbitrary: s) simp_all

section \<open>The readiness invariant\<close>

lemma ready_inv_init: "ready_inv scan_init"
  by (simp add: ready_inv_def scan_init_def)

lemma ready_inv_check: "ready_inv s \<Longrightarrow> ready_inv (checkIfOcrReady s)"
  by (simp add: ready_inv_def checkIfOcrReady_def)

lemma ready_inv_stop: "ready_inv s \<Longrightarrow> ready_inv (stopAllStreams s)"
  by (simp add: ready_inv_def)

lemma ready_inv_capture:
  "ready_inv s \<Longrightarrow> loaded s \<Longrightarrow> ready_inv (capture sample g vw vh s)"
  by (auto simp: ready_inv_def capture_def Let_def split: sum.split)

lemma ready_inv_pipeline_done: "ready_inv s \<Longrightarrow> ready_inv (pipeline_done n ocr s)"
  by (auto simp: ready_inv_def pipeline_done_def)

lemma ready_inv_step: "ready_inv s \<Longrightarrow> ready_inv (scan_step s e)"
proof (cases e)
  case DomLoaded
  assume "ready_inv s"
  then show ?thesis using DomLoaded
    by (simp add: dom_loaded_def startQrScanner_def Let_def ready_inv_def)
next
  case OpenCvReady
  assume "ready_inv s"
  then show ?thesis using OpenCvReady
    by (auto simp: checkIfOcrReady_def ready_inv_def)
next
  case TesseractReady
  assume "ready_inv s"
  then show ?thesis using TesseractReady
    by (auto simp: checkIfOcrReady_def ready_inv_def)
next
  case (ClickCapture sample g vw vh)
  assume "ready_inv s"
  then show ?thesis using ClickCapture by (simp add: ready_inv_capture)
next
  case (PipelineDone n ocr)
  assume "ready_inv s"
  then show ?thesis using PipelineDone by (simp add: ready_inv_pipeline_done)
qed (auto simp: ready_inv_def startQrScanner_def activateOcrScanner_def Let_def gum_done_def
       qr_start_done_def onScanSuccess_def)

lemma scan_reachable_ready_inv: "scan_reachable s \<Longrightarrow> ready_inv s"
  by (induction rule: scan_reachable.induct) (auto intro: ready_inv_init ready_inv_step)

section \<open>Streams that are no longer referenced\<close>

lemma orphan_stop: "orphan k s \<Longrightarrow> orphan k (stopAllStreams s)"
  by (auto simp: orphan_def stopAllStreams_stream split: option.split)

lemma orphan_step: "orphan k s \<Longrightarrow> orphan k (scan_step s e)"
proof (cases e)
  case DomLoaded
  assume "orphan k s"
  then show ?thesis using DomLoaded orphan_stop [of k]
    by (auto simp: dom_loaded_def startQrScanner_def Let_def orphan_def)
next
  case ClickQrTab
  assume "orphan k s"
  then show ?thesis using ClickQrTab orphan_stop [of k]
    by (auto simp: startQrScanner_def Let_def orphan_def)
next
  case ClickOcrTab
  assume "orphan k s"
  then show ?thesis using ClickOcrTab orphan_stop [of k]
    by (auto simp: activateOcrScanner_def Let_def orphan_def)
next
  case ClickRetry
  assume "orphan k s"
  then show ?thesis using ClickRetry orphan_stop [of k]
    by (auto simp: activateOcrScanner_def Let_def orphan_def)
next
  case (ClickCapture sample g vw vh)
  assume o: "orphan k s"
  then have "orphan k (s\<lparr>log := log s @ [PlaySound SuccessSound],
                         pipelines := pipelines s @ [cv]\<rparr>)" for cv
    by (simp add: orphan_def)
  with o show ?thesis using ClickCapture orphan_stop
    by (auto simp: capture_def Let_def orphan_def split: sum.split)
qed (auto simp: orphan_def checkIfOcrReady_def gum_done_def qr_start_done_def onScanSuccess_def
       pipeline_done_def Let_def)

lemma orphan_run: "orphan k s \<Longrightarrow> orphan k (scan_run s es)"
  by (induction es arbitrary: s) (auto intro: orphan_step)

section \<open>Properties of the controller\<close>

text \<open>
  C14.  Readiness gating: in every reachable state of the page, an enabled
  capture button means that both OpenCV and Tesseract are initialised, and a
  recognition pipeline is in flight only if both are.
\<close>

theorem capture_requires_engines:
  "scan_reachable s \<Longrightarrow>
     (loaded s \<and> \<not> capture_disabled s \<longrightarrow> cv_ready s \<and> tess_ready s) \<and>
     (pipelines s \<noteq> [] \<longrightarrow> cv_ready s \<and> tess_ready s)"
  using scan_reachable_ready_inv by (simp add: ready_inv_def)

lemma capture_requires_engines_witness:
  "scan_reachable (scan_run scan_init [DomLoaded, OpenCvReady, TesseractReady, ClickOcrTab,
      GumDone True, ClickCapture (\<lambda>_ _. \<lparr>red = 0, green = 0, blue = 0, alpha = 255\<rparr>) (\<lambda>_ _. 0) 5 4])
   \<and> pipelines (scan_run scan_init [DomLoaded, OpenCvReady, TesseractReady, ClickOcrTab,
      GumDone True, ClickCapture (\<lambda>_ _. \<lparr>red = 0, green = 0, blue = 0, alpha = 255\<rparr>) (\<lambda>_ _. 0) 5 4])
      \<noteq> []
   \<and> cv_ready (scan_run scan_init [DomLoaded, OpenCvReady, TesseractReady, ClickOcrTab,
      GumDone True, ClickCapture (\<lambda>_ _. \<lparr>red = 0, green = 0, blue = 0, alpha = 255\<rparr>) (\<lambda>_ _. 0) 5 4])"
proof -
  let ?s = "scan_run scan_init [DomLoaded, OpenCvReady, TesseractReady, ClickOcrTab,
      GumDone True, ClickCapture (\<lambda>_ _. \<lparr>red = 0, green = 0, blue = 0, alpha = 255\<rparr>) (\<lambda>_ _. 0) 5 4]"
  have r: "scan_reachable ?s" by (rule scan_reachable_run [OF scan_reachable.init])
  have p: "pipelines ?s \<noteq> []"
    by (simp add: eval_model floor_six_fifths)
  from capture_requires_engines [OF r] p r show ?thesis by blast
qed

text \<open>
  C15.  The specification's invariant \<open>at most one camera session\<close> does not
  hold: from every loaded state, switching to the OCR tab and back before
  \<open>getUserMedia\<close> resolves leaves the new QR scanner running and the new OCR
  stream live and active at the same time (the pending \<open>await\<close> assigns
  \<open>activeStream\<close> after \<open>stopAllStreams\<close> ran).
\<close>

theorem camera_sessions_overlap:
  assumes "loaded s"
  shows "qr_is_scanning (scan_run s [ClickOcrTab, ClickQrTab, QrStartDone (length (qrs s)) True, GumDone True]) \<and>
         active_stream (scan_run s [ClickOcrTab, ClickQrTab, QrStartDone (length (qrs s)) True, GumDone True])
           = Some (next_stream s) \<and>
         next_stream s \<in> live (scan_run s [ClickOcrTab, ClickQrTab, QrStartDone (length (qrs s)) True, GumDone True])"
  using assms
  by (simp add: activateOcrScanner_def startQrScanner_def qr_start_done_def gum_done_def qr_is_scanning_def
      Let_def nth_append list_update_append)

lemma camera_sessions_overlap_witness:
  "qr_is_scanning (scan_run (scan_run scan_init [DomLoaded]) [ClickOcrTab, ClickQrTab, QrStartDone 1 True, GumDone True]) \<and>
   active_stream (scan_run (scan_run scan_init [DomLoaded]) [ClickOcrTab, ClickQrTab, QrStartDone 1 True, GumDone True])
     = Some 0"
proof -
  have h: "loaded (scan_run scan_init [DomLoaded])" "length (qrs (scan_run scan_init [DomLoaded])) = 1"
    "next_stream (scan_run scan_init [DomLoaded]) = 0"
    by (simp_all add: eval_model)
  from camera_sessions_overlap [OF h(1)] show ?thesis by (simp only: h(2,3))
qed

text \<open>
  C16.  A stream that \<open>activeStream\<close> no longer refers to is never stopped:
  once a live stream is not the active one (and was created before the
  current counter), it stays live, and unreferenced, whatever happens next.
  Two clicks on the OCR tab before the camera answers create such a stream.
\<close>

theorem orphan_stream_persists:
  "k \<in> live s \<Longrightarrow> active_stream s \<noteq> Some k \<Longrightarrow> k < next_stream s \<Longrightarrow>
     k \<in> live (scan_run s es) \<and> active_stream (scan_run s es) \<noteq> Some k"
  using orphan_run [of k s es] by (simp add: orphan_def)

lemma orphan_stream_persists_witness:
  "\<forall>es. 0 \<in> live (scan_run (scan_run scan_init [DomLoaded, ClickOcrTab, ClickOcrTab,
      GumDone True, GumDone True]) es)"
proof
  fix es
  let ?s = "scan_run scan_init [DomLoaded, ClickOcrTab, ClickOcrTab, GumDone True, GumDone True]"
  have "0 \<in> live ?s" "active_stream ?s \<noteq> Some 0" "0 < next_stream ?s"
    by (simp_all add: eval_model)
  from orphan_stream_persists [OF this] show "0 \<in> live (scan_run ?s es)" by blast
qed

text \<open>
  C17.  Error path of the capture button: when the video has no usable size
  yet, \<open>preprocessImage\<close> throws, and the handler stops after the success
  sound: no pipeline is started and \<open>stopAllStreams\<close> is not reached, so the
  camera stream stays active (the specification requires release on all exit
  paths).
\<close>

theorem capture_error_keeps_stream:
  assumes "loaded s" "\<not> capture_disabled s" "active_stream s = Some k" "vw \<le> 1 \<or> vh \<le> 3"
  shows "scan_step s (ClickCapture sample g vw vh) = s\<lparr>log := log s @ [PlaySound SuccessSound]\<rparr>"
  using assms by (simp add: capture_def preprocessImage_small_fails)

lemma capture_error_keeps_stream_witness:
  "active_stream (scan_step (scan_run scan_init [DomLoaded, OpenCvReady, TesseractReady,
      ClickOcrTab, GumDone True])
     (ClickCapture (\<lambda>_ _. \<lparr>red = 0, green = 0, blue = 0, alpha = 255\<rparr>) (\<lambda>_ _. 0) 0 0)) = Some 0"
proof -
  let ?s = "scan_run scan_init [DomLoaded, OpenCvReady, TesseractReady, ClickOcrTab, GumDone True]"
  have h: "loaded ?s" "\<not> capture_disabled ?s" "active_stream ?s = Some 0" "(0::nat) \<le> 1 \<or> (0::nat) \<le> 3"
    by (simp_all add: eval_model)
  have e: "scan_step ?s (ClickCapture (\<lambda>_ _. \<lparr>red = 0, green = 0, blue = 0, alpha = 255\<rparr>)
      (\<lambda>_ _. 0) 0 0) = ?s\<lparr>log := log ?s @ [PlaySound SuccessSound]\<rparr>"
    by (rule capture_error_keeps_stream [OF h])
  show ?thesis unfolding e by (simp add: eval_model)
qed

text \<open>
  C18.  Nothing prevents a second recognition run while the first is in
  flight: from every state with capture enabled and a stream, capture, retry
  and capture again add two pipelines, whatever was already running (the
  specification requires at most one).
\<close>

theorem pipelines_overlap:
  assumes "loaded s" "\<not> capture_disabled s" "active_stream s \<noteq> None"
    and "preprocessImage sample g vw vh = Inr cv" "preprocessImage sample' g' vw' vh' = Inr cv'"
  shows "pipelines (scan_run s [ClickCapture sample g vw vh, ClickRetry, GumDone True,
                                ClickCapture sample' g' vw' vh']) = pipelines s @ [cv, cv']"
  using assms
  by (simp add: capture_def activateOcrScanner_def gum_done_def stopAllStreams_stream Let_def)

lemma pipelines_overlap_witness:
  "\<exists>cv. length (pipelines (scan_run (scan_run scan_init [DomLoaded, OpenCvReady, TesseractReady, ClickOcrTab,
      GumDone True]) [ClickCapture (\<lambda>_ _. \<lparr>red = 0, green = 0, blue = 0, alpha = 255\<rparr>) (\<lambda>_ _. 0) 5 4,
      ClickRetry, GumDone True, ClickCapture (\<lambda>_ _. \<lparr>red = 0, green = 0, blue = 0, alpha = 255\<rparr>) (\<lambda>_ _. 0) 5 4]))
     = 2 \<and> preprocessImage (\<lambda>_ _. \<lparr>red = 0, green = 0, blue = 0, alpha = 255\<rparr>) (\<lambda>_ _. 0) 5 4 = Inr cv"
proof -
  let ?s = "scan_run scan_init [DomLoaded, OpenCvReady, TesseractReady, ClickOcrTab, GumDone True]"
  have h: "loaded ?s" "\<not> capture_disabled ?s" "active_stream ?s \<noteq> None" "pipelines ?s = []"
    by (simp_all add: eval_model)
  obtain cv where cv: "preprocessImage (\<lambda>_ _. \<lparr>red = 0, green = 0, blue = 0, alpha = 255\<rparr>)
      (\<lambda>_ _. 0) 5 4 = Inr cv" by (rule witness_canvas)
  from pipelines_overlap [OF h(1-3) cv cv] h(4) cv show ?thesis by auto
qed

text \<open>
  C19.  A capture with a usable frame hands the preprocessed canvas to a new
  pipeline and then releases the camera: no active stream, the former stream
  stopped, and the current QR scanner not scanning.
\<close>

theorem capture_success_releases:
  assumes "loaded s" "\<not> capture_disabled s" "active_stream s = Some k"
    and "preprocessImage sample g vw vh = Inr cv"
  shows "active_stream (scan_step s (ClickCapture sample g vw vh)) = None \<and>
         k \<notin> live (scan_step s (ClickCapture sample g vw vh)) \<and>
         pipelines (scan_step s (ClickCapture sample g vw vh)) = pipelines s @ [cv] \<and>
         \<not> qr_is_scanning (scan_step s (ClickCapture sample g vw vh))"
  using assms stopAllStreams_not_scanning
  by (simp add: capture_def stopAllStreams_stream)

lemma capture_success_releases_witness:
  "active_stream (scan_step (scan_run scan_init [DomLoaded, OpenCvReady, TesseractReady,
      ClickOcrTab, GumDone True])
     (ClickCapture (\<lambda>_ _. \<lparr>red = 0, green = 0, blue = 0, alpha = 255\<rparr>) (\<lambda>_ _. 0) 5 4)) = None"
proof -
  let ?s = "scan_run scan_init [DomLoaded, OpenCvReady, TesseractReady, ClickOcrTab, GumDone True]"
  have h: "loaded ?s" "\<not> capture_disabled ?s" "active_stream ?s = Some 0"
    by (simp_all add: eval_model)
  obtain cv where cv: "preprocessImage (\<lambda>_ _. \<lparr>red = 0, green = 0, blue = 0, alpha = 255\<rparr>)
      (\<lambda>_ _. 0) 5 4 = Inr cv" by (rule witness_canvas)
  from capture_success_releases [OF h cv] show ?thesis by blast
qed

text \<open>
  \<open>stopAllStreams\<close> is idempotent and leaves no active stream and no
  scanning QR scanner, so calling it twice in a row is harmless.
\<close>

theorem stopAllStreams_idem:
  "stopAllStreams (stopAllStreams s) = stopAllStreams s \<and>
   active_stream (stopAllStreams s) = None \<and> \<not> qr_is_scanning (stopAllStreams s)"
proof -
  have "stop_current_qr (stopAllStreams s) = stopAllStreams s"
    by (rule stop_current_qr_idem) (rule stopAllStreams_not_scanning)
  then show ?thesis
    by (simp add: stopAllStreams_def [of "stopAllStreams s"] Let_def stopAllStreams_stream(1)
        stopAllStreams_not_scanning)
qed

text \<open>
  C21.  On the scan page any decoded QR text leads to the details page of that
  text: \<open>onScanSuccess\<close> applies neither \<open>findProductCode\<close> nor a prefix check,
  although the specification makes \<open>findProductCode\<close> the single check for
  codes read from OCR or from a code payload.
\<close>

theorem qr_decode_unvalidated:
  "i < length (qrs s) \<Longrightarrow> qrs s ! i = QrScanning \<Longrightarrow>
     Redirect (''/details.html?code='' @ text) \<in> set (log (scan_step s (QrDecoded i text)))"
  by (simp add: onScanSuccess_def Let_def handleSuccess_def detailsUrl_def)

lemma qr_decode_unvalidated_witness:
  "findProductCode ''../trash.html'' = None \<and>
   Redirect (''/details.html?code='' @ ''../trash.html'') \<in>
     set (log (scan_step (scan_run scan_init [DomLoaded, QrStartDone 0 True])
                         (QrDecoded 0 ''../trash.html'')))"
proof -
  let ?s = "scan_run scan_init [DomLoaded, QrStartDone 0 True]"
  have h: "0 < length (qrs ?s)" "qrs ?s ! 0 = QrScanning" by (simp_all add: eval_model)
  have "findProductCode ''../trash.html'' = None" by code_simp
  with qr_decode_unvalidated [OF h] show ?thesis by blast
qed

section \<open>Liveness of the capture button\<close>

lemma tess_inv_step: "tess_inv s \<Longrightarrow> tess_inv (scan_step s e)"
  by (cases e)
    (auto simp: tess_inv_def dom_loaded_def startQrScanner_def activateOcrScanner_def gum_done_def
      qr_start_done_def onScanSuccess_def capture_def pipeline_done_def checkIfOcrReady_def
      stop_current_qr_def Let_def split: sum.split)

lemma scan_reachable_tess_inv: "scan_reachable s \<Longrightarrow> tess_inv s"
proof (induction rule: scan_reachable.induct)
  case init
  then show ?case by (simp add: tess_inv_def scan_init_def)
next
  case (step s e)
  from step.IH show ?case by (rule tess_inv_step)
qed

text \<open>C9: liveness of the capture button: from every reachable state of the
  loaded page, the completion of the two engine initialisations enables the
  capture button, whatever happened before (tab switches, captures, pipelines);
  nothing else is needed and nothing disables it again.\<close>

theorem capture_eventually_enabled:
  assumes "scan_reachable s" and "loaded s"
  shows "\<not> capture_disabled (scan_run s [OpenCvReady, TesseractReady]) \<and>
         cv_ready (scan_run s [OpenCvReady, TesseractReady]) \<and>
         tess_ready (scan_run s [OpenCvReady, TesseractReady])"
  using scan_reachable_tess_inv [OF assms(1)] assms(2)
  by (auto simp: tess_inv_def checkIfOcrReady_def)

lemma capture_eventually_enabled_witness:
  "\<not> capture_disabled (scan_run (scan_run scan_init [DomLoaded]) [OpenCvReady, TesseractReady])"
proof -
  have "scan_reachable (scan_run scan_init [DomLoaded])"
    by (rule scan_reachable_run [OF scan_reachable.init])
  moreover have "loaded (scan_run scan_init [DomLoaded])"
    by (simp add: scan_init_def dom_loaded_def startQrScanner_def Let_def)
  ultimately show ?thesis using capture_eventually_enabled by blast
qed

end
