(* ===== verification/BarcodeScanner.thy ===== *)
theory BarcodeScanner
  imports Prelude
begin

text \<open>
  The barcode scanner of the add page, \<open>src/public/js/add.js\<close>: the native
  \<open>BarcodeDetector\<close> strategy with its polling interval (lines 25--55), the
  QuaggaJS fallback (lines 56--60, 84--106), \<open>stopBarcodeScanner\<close> (63--72),
  \<open>onBarcodeScanSuccess\<close> (74--80), the manual lookup button (17--21),
  \<open>fetchProductDetails\<close> (110--128), \<open>populateForm\<close> (130--141) and the
  form submission (145--181).

  As in the scan page, every completion of a promise or library callback is
  an event of its own, so a list of events is one interleaving the browser
  may produce:
  \<^item> \<open>GumResolved ok\<close>: a pending \<open>getUserMedia\<close> resolves with a new stream
    or rejects; \<open>PlayResolved ok\<close>: the following \<open>video.play()\<close>;
  \<^item> \<open>IntervalTick i\<close>: the interval timer \<open>i\<close> fires and calls
    \<open>barcodeDetector.detect\<close>; \<open>DetectResolved r\<close>: one pending \<open>detect\<close>
    resolves with the barcodes found (\<open>None\<close>: it rejects);
  \<^item> \<open>QuaggaInitDone ok\<close>: the callback of \<open>Quagga.init\<close>;
    \<open>QuaggaDetected code\<close>: the library decodes a barcode while running;
  \<^item> \<open>LookupDone n r\<close>: the \<open>n\<close>-th pending Open Food Facts request completes;
    \<open>SubmitDone r\<close>: a pending \<open>POST /api/add-product\<close> completes.
  Streams and interval timers are numbered from one counter; \<open>live_tracks\<close>
  holds the streams whose tracks are not stopped and \<open>intervals\<close> the timers
  not cleared.  QuaggaJS keeps every handler given to \<open>Quagga.onDetected\<close>
  (add.js never calls \<open>offDetected\<close>) and calls each of them, in turn, on a
  detection: \<open>quagga_handlers\<close> counts them.  The capability test of line 31
  is a constant of the browser, \<open>has_native\<close>.
\<close>

section \<open>Data\<close>

datatype backend = Native | Quagga

text \<open>The texts \<open>add.js\<close> writes into \<open>modalStatus\<close>.\<close>

datatype modal_msg =
    ModalStartingCamera
  | ModalPointCamera
  | ModalCameraFailed
  | ModalFallbackStarting
  | ModalFallbackFailed

text \<open>The texts written into \<open>statusDiv\<close> (the lookup status).\<close>

datatype lookup_msg =
    LookupEmpty
  | LookupEnterBarcode
  | LookupFetching js_string
  | LookupFetched
  | LookupFailed js_string

text \<open>The fields of an Open Food Facts product that \<open>populateForm\<close> reads; an
  absent or \<open>null\<close> field is \<open>None\<close>.\<close>

record off_product =
  product_name_en :: "js_string option"
  product_name :: "js_string option"
  brands :: "js_string option"
  quantity :: "js_string option"
  categories_tags :: "js_string list option"

text \<open>How the \<open>fetch\<close> of \<open>fetchProductDetails\<close> ends: \<open>fetch\<close> rejects (a
  network error, with its message), the response is not \<open>ok\<close>, \<open>res.json()\<close>
  rejects (with its message), or the JSON body with its \<open>status\<close> (when a
  number) and \<open>product\<close>.\<close>

datatype off_response =
    FetchRejected js_string
  | HttpNotOk
  | JsonRejected js_string
  | JsonData "int option" "off_product option"

text \<open>The form fields \<open>populateForm\<close> writes: \<open>name\<close>, \<open>notes\<close>, \<open>category\<close>.\<close>

record add_form =
  name_field :: js_string
  notes_field :: js_string
  category_field :: js_string

text \<open>The texts written into \<open>formResult\<close> by the submission handler.\<close>

datatype result_msg =
    ResultEmpty
  | ResultSaving
  | ResultAdded js_string
  | ResultError js_string
  | ResultNoConnection

text \<open>How the \<open>POST /api/add-product\<close> of the submission ends: JSON with
  \<open>success\<close> and the new \<open>code\<close>, JSON without \<open>success\<close> (with its
  \<open>error\<close>), or a rejection of \<open>fetch\<close> or \<open>res.json()\<close>.\<close>

datatype submit_response = SubmitOk js_string | SubmitErr js_string | SubmitFailed

datatype add_effect = AddSound sound | FetchUrl js_string | PostProduct add_form | ShowQr js_string

record add_state =
  has_native :: bool
  modal_shown :: bool
  modal_status :: modal_msg
  scannerType :: "backend option"
  activeStream :: "nat option"
  detectionInterval :: "nat option"
  live_tracks :: "nat set"
  intervals :: "nat set"
  next_id :: nat
  gum_pending :: nat
  play_pending :: nat
  detects_pending :: nat
  quagga_init_pending :: nat
  quagga_running :: bool
  quagga_handlers :: nat
  barcode_input :: js_string
  lookup_status :: lookup_msg
  lookups :: "js_string list"
  form :: add_form
  page_log :: "add_effect list"
  form_defaults :: add_form
  submits_pending :: nat
  form_result :: result_msg

datatype add_event =
    ClickScanBarcode
  | CloseModal
  | GumResolved bool
  | PlayResolved bool
  | IntervalTick nat
  | DetectResolved "js_string list option"
  | QuaggaInitDone bool
  | QuaggaDetected js_string
  | TypeBarcode js_string
  | ClickFetch
  | LookupDone nat off_response
  | SubmitForm
  | SubmitDone submit_response

definition add_init :: "bool \<Rightarrow> add_form \<Rightarrow> add_state" where
  "add_init nat_ok f = \<lparr>has_native = nat_ok, modal_shown = False,
     modal_status = ModalStartingCamera, scannerType = None, activeStream = None,
     detectionInterval = None, live_tracks = {}, intervals = {}, next_id = 0,
     gum_pending = 0, play_pending = 0, detects_pending = 0, quagga_init_pending = 0,
     quagga_running = False, quagga_handlers = 0, barcode_input = [],
     lookup_status = LookupEmpty, lookups = [], form = f, page_log = [], form_defaults = f,
     submits_pending = 0, form_result = ResultEmpty\<rparr>"

text \<open>An empty form, the starting point of the examples below.\<close>

abbreviation blank_form :: add_form where
  "blank_form \<equiv> \<lparr>name_field = [], notes_field = [], category_field = ''Other''\<rparr>"

section \<open>Lookup and form population\<close>

text \<open>\<open>populateForm(product, barcode)\<close>: the category is the first of the three
  tests of lines 137--139 that some category tag passes.\<close>

definition choose_category :: "js_string list \<Rightarrow> js_string" where
  "choose_category cats =
     (if list_ex (\<lambda>c. js_includes c ''electronic'') cats then ''Electronics''
      else if list_ex (\<lambda>c. js_includes c ''groceries'') cats then ''Groceries''
      else if list_ex (\<lambda>c. js_includes c ''appliances'') cats then ''Appliances''
      else ''Other'')"

definition populateForm :: "off_product \<Rightarrow> js_string \<Rightarrow> add_form \<Rightarrow> add_form" where
  "populateForm p barcode f =
     f\<lparr>name_field := js_or (product_name_en p) (js_or (product_name p) []),
       notes_field := ''Brand: '' @ js_or (brands p) [] @ newline @ ''Quantity: ''
         @ js_or (quantity p) [] @ newline @ ''Barcode: '' @ barcode @ newline @ newline,
       category_field := choose_category (case categories_tags p of None \<Rightarrow> [] | Some cs \<Rightarrow> cs)\<rparr>"

definition off_url :: "js_string \<Rightarrow> js_string" where
  "off_url barcode = ''https://world.openfoodfacts.org/api/v2/product/'' @ barcode"

text \<open>\<open>fetchProductDetails(barcode)\<close> up to its \<open>await fetch\<close>: the status
  message and the request, which stays pending until \<open>LookupDone\<close>.\<close>

definition fetchProductDetails :: "js_string \<Rightarrow> add_state \<Rightarrow> add_state" where
  "fetchProductDetails barcode s =
     s\<lparr>lookup_status := LookupFetching barcode, lookups := lookups s @ [barcode],
       page_log := page_log s @ [FetchUrl (off_url barcode)]\<rparr>"

text \<open>The product of a response that passes \<open>data.status === 1 && data.product\<close>.\<close>

fun off_product_of :: "off_response \<Rightarrow> off_product option" where
  "off_product_of (JsonData st (Some p)) = (if st = Some 1 then Some p else None)"
| "off_product_of _ = None"

text \<open>The message of the error caught at line 124.\<close>

fun lookup_error :: "off_response \<Rightarrow> js_string" where
  "lookup_error (FetchRejected m) = m"
| "lookup_error HttpNotOk = ''Barcode not found in the public database.''"
| "lookup_error (JsonRejected m) = m"
| "lookup_error (JsonData _ _) = ''Barcode not found. Please fill details manually.''"

text \<open>The rest of \<open>fetchProductDetails\<close>, once its request completes.\<close>

definition lookup_done :: "js_string \<Rightarrow> off_response \<Rightarrow> add_state \<Rightarrow> add_state" where
  "lookup_done barcode r s =
     (case off_product_of r of
        Some p \<Rightarrow> s\<lparr>form := populateForm p barcode (form s),
                    page_log := page_log s @ [AddSound SuccessSound], lookup_status := LookupFetched\<rparr>
      | None \<Rightarrow> s\<lparr>page_log := page_log s @ [AddSound ErrorSound],
                  lookup_status := LookupFailed (lookup_error r)\<rparr>)"

definition complete_lookup :: "nat \<Rightarrow> off_response \<Rightarrow> add_state \<Rightarrow> add_state" where
  "complete_lookup n r s =
     (if n < length (lookups s) then
        lookup_done (lookups s ! n) r (s\<lparr>lookups := take n (lookups s) @ drop (Suc n) (lookups s)\<rparr>)
      else s)"

text \<open>The click handler of the lookup button (lines 17--21).\<close>

definition click_fetch :: "add_state \<Rightarrow> add_state" where
  "click_fetch s =
     (let code = js_trim (barcode_input s) in
      if code \<noteq> [] then fetchProductDetails code s else s\<lparr>lookup_status := LookupEnterBarcode\<rparr>)"

section \<open>Scanner handlers\<close>

definition stopBarcodeScanner :: "add_state \<Rightarrow> add_state" where
  "stopBarcodeScanner s =
     (let s1 = (case scannerType s of
                  Some Native \<Rightarrow>
                    s\<lparr>intervals := (case detectionInterval s of None \<Rightarrow> intervals s
                                    | Some i \<Rightarrow> intervals s - {i}),
                      live_tracks := (case activeStream s of None \<Rightarrow> live_tracks s
                                      | Some k \<Rightarrow> live_tracks s - {k})\<rparr>
                | Some Quagga \<Rightarrow> s\<lparr>quagga_running := False\<rparr>
                | None \<Rightarrow> s)
      in s1\<lparr>modal_shown := False\<rparr>)"

text \<open>\<open>onBarcodeScanSuccess(barcode)\<close>: an empty string is falsy and ignored.\<close>

definition onBarcodeScanSuccess :: "js_string \<Rightarrow> add_state \<Rightarrow> add_state" where
  "onBarcodeScanSuccess barcode s =
     (if barcode = [] then s
      else
        (let s1 = stopBarcodeScanner (s\<lparr>page_log := page_log s @ [AddSound SuccessSound]\<rparr>) in
         fetchProductDetails barcode (s1\<lparr>barcode_input := barcode\<rparr>)))"

text \<open>\<open>startQuagga\<close>: \<open>Quagga.init\<close> (completed by \<open>QuaggaInitDone\<close>) and one
  more \<open>onDetected\<close> handler.\<close>

definition startQuagga :: "add_state \<Rightarrow> add_state" where
  "startQuagga s =
     s\<lparr>modal_status := ModalFallbackStarting, quagga_init_pending := Suc (quagga_init_pending s),
       quagga_handlers := Suc (quagga_handlers s)\<rparr>"

text \<open>\<open>startBarcodeScanner\<close> up to its first \<open>await\<close>: the backend is chosen by
  the capability test.\<close>

definition startBarcodeScanner :: "add_state \<Rightarrow> add_state" where
  "startBarcodeScanner s =
     (let s1 = s\<lparr>modal_shown := True, modal_status := ModalStartingCamera\<rparr> in
      if has_native s1 then s1\<lparr>scannerType := Some Native, gum_pending := Suc (gum_pending s1)\<rparr>
      else startQuagga (s1\<lparr>scannerType := Some Quagga\<rparr>))"

text \<open>\<open>activeStream = await getUserMedia(...)\<close>, then \<open>await video.play()\<close>;
  a rejection goes to the \<open>catch\<close> of line 53.\<close>

definition gum_resolved :: "bool \<Rightarrow> add_state \<Rightarrow> add_state" where
  "gum_resolved ok s =
     (if gum_pending s = 0 then s
      else if ok then
        s\<lparr>gum_pending := gum_pending s - 1, activeStream := Some (next_id s),
          live_tracks := insert (next_id s) (live_tracks s), next_id := Suc (next_id s),
          play_pending := Suc (play_pending s)\<rparr>
      else s\<lparr>gum_pending := gum_pending s - 1, modal_status := ModalCameraFailed\<rparr>)"

text \<open>After \<open>video.play()\<close>: the detector, the message and \<open>setInterval\<close>.\<close>

definition play_resolved :: "bool \<Rightarrow> add_state \<Rightarrow> add_state" where
  "play_resolved ok s =
     (if play_pending s = 0 then s
      else if ok then
        s\<lparr>play_pending := play_pending s - 1, modal_status := ModalPointCamera,
          detectionInterval := Some (next_id s), intervals := insert (next_id s) (intervals s),
          next_id := Suc (next_id s)\<rparr>
      else s\<lparr>play_pending := play_pending s - 1, modal_status := ModalCameraFailed\<rparr>)"

text \<open>The interval callback: \<open>barcodeDetector.detect(video)\<close> is called and its
  promise stays pending until \<open>DetectResolved\<close>; a rejection is swallowed.\<close>

definition interval_tick :: "nat \<Rightarrow> add_state \<Rightarrow> add_state" where
  "interval_tick i s =
     (if i \<in> intervals s then s\<lparr>detects_pending := Suc (detects_pending s)\<rparr> else s)"

definition detect_resolved :: "js_string list option \<Rightarrow> add_state \<Rightarrow> add_state" where
  "detect_resolved r s =
     (if detects_pending s = 0 then s
      else
        (let s1 = s\<lparr>detects_pending := detects_pending s - 1\<rparr> in
         case r of Some (b # _) \<Rightarrow> onBarcodeScanSuccess b s1 | _ \<Rightarrow> s1))"

definition quagga_init_done :: "bool \<Rightarrow> add_state \<Rightarrow> add_state" where
  "quagga_init_done ok s =
     (if quagga_init_pending s = 0 then s
      else if ok then
        s\<lparr>quagga_init_pending := quagga_init_pending s - 1, quagga_running := True,
          modal_status := ModalPointCamera\<rparr>
      else s\<lparr>quagga_init_pending := quagga_init_pending s - 1, modal_status := ModalFallbackFailed\<rparr>)"

text \<open>A detection of the running library: each registered handler calls
  \<open>onBarcodeScanSuccess\<close> in turn.\<close>

definition quagga_detected :: "js_string \<Rightarrow> add_state \<Rightarrow> add_state" where
  "quagga_detected code s =
     (if quagga_running s then (onBarcodeScanSuccess code ^^ quagga_handlers s) s else s)"

section \<open>Form submission\<close>

text \<open>The \<open>submit\<close> handler up to its \<open>await fetch\<close> (lines 145--154): the
  form's fields are posted.\<close>

definition submit_form :: "add_state \<Rightarrow> add_state" where
  "submit_form s =
     s\<lparr>form_result := ResultSaving, submits_pending := Suc (submits_pending s),
       page_log := page_log s @ [PostProduct (form s)]\<rparr>"

text \<open>The rest of the handler (lines 155--180): on success the sound, the code
  and its QR code, then the form, the barcode input and the lookup status are
  reset.\<close>

definition submit_done :: "submit_response \<Rightarrow> add_state \<Rightarrow> add_state" where
  "submit_done r s =
     (if submits_pending s = 0 then s
      else
        (let s1 = s\<lparr>submits_pending := submits_pending s - 1\<rparr> in
         case r of
           SubmitOk code \<Rightarrow>
             s1\<lparr>page_log := page_log s1 @ [AddSound SuccessSound, ShowQr code],
                form_result := ResultAdded code, form := form_defaults s1, barcode_input := [],
                lookup_status := LookupEmpty\<rparr>
         | SubmitErr e \<Rightarrow> s1\<lparr>form_result := ResultError e\<rparr>
         | SubmitFailed \<Rightarrow> s1\<lparr>form_result := ResultNoConnection\<rparr>))"

fun add_step :: "add_state \<Rightarrow> add_event \<Rightarrow> add_state" where
  "add_step s ClickScanBarcode = startBarcodeScanner s"
| "add_step s CloseModal = stopBarcodeScanner s"
| "add_step s (GumResolved ok) = gum_resolved ok s"
| "add_step s (PlayResolved ok) = play_resolved ok s"
| "add_step s (IntervalTick i) = interval_tick i s"
| "add_step s (DetectResolved r) = detect_resolved r s"
| "add_step s (QuaggaInitDone ok) = quagga_init_done ok s"
| "add_step s (QuaggaDetected code) = quagga_detected code s"
| "add_step s (TypeBarcode v) = s\<lparr>barcode_input := v\<rparr>"
| "add_step s ClickFetch = click_fetch s"
| "add_step s (LookupDone n r) = complete_lookup n r s"
| "add_step s SubmitForm = submit_form s"
| "add_step s (SubmitDone r) = submit_done r s"

fun add_run :: "add_state \<Rightarrow> add_event list \<Rightarrow> add_state" where
  "add_run s [] = s"
| "add_run s (e # es) = add_run (add_step s e) es"

inductive add_reachable :: "bool \<Rightarrow> add_state \<Rightarrow> bool" where
  init: "add_reachable n (add_init n f)"
| step: "add_reachable n s \<Longrightarrow> add_reachable n (add_step s e)"

declare add_init_def [eval_model] choose_category_def [eval_model] populateForm_def [eval_model]
  off_url_def [eval_model] fetchProductDetails_def [eval_model] lookup_done_def [eval_model]
  complete_lookup_def [eval_model] click_fetch_def [eval_model]
  stopBarcodeScanner_def [eval_model] onBarcodeScanSuccess_def [eval_model]
  startQuagga_def [eval_model] startBarcodeScanner_def [eval_model]
  gum_resolved_def [eval_model] play_resolved_def [eval_model] interval_tick_def [eval_model]
  detect_resolved_def [eval_model] quagga_init_done_def [eval_model]
  quagga_detected_def [eval_model] submit_form_def [eval_model] submit_done_def [eval_model]

section \<open>Frame lemmas and the backend invariant\<close>

lemma stopBarcodeScanner_fields [simp]:
  "has_native (stopBarcodeScanner s) = has_native s"
  "scannerType (stopBarcodeScanner s) = scannerType s"
  "activeStream (stopBarcodeScanner s) = activeStream s"
  "detectionInterval (stopBarcodeScanner s) = detectionInterval s"
  "next_id (stopBarcodeScanner s) = next_id s"
  "gum_pending (stopBarcodeScanner s) = gum_pending s"
  "play_pending (stopBarcodeScanner s) = play_pending s"
  "detects_pending (stopBarcodeScanner s) = detects_pending s"
  "quagga_init_pending (stopBarcodeScanner s) = quagga_init_pending s"
  "quagga_handlers (stopBarcodeScanner s) = quagga_handlers s"
  "barcode_input (stopBarcodeScanner s) = barcode_input s"
  "lookups (stopBarcodeScanner s) = lookups s"
  "page_log (stopBarcodeScanner s) = page_log s"
  "form (stopBarcodeScanner s) = form s"
  "modal_shown (stopBarcodeScanner s) = False"
  by (simp_all add: stopBarcodeScanner_def split: option.split backend.split)

lemma onBarcodeScanSuccess_fields [simp]:
  "has_native (onBarcodeScanSuccess b s) = has_native s"
  "scannerType (onBarcodeScanSuccess b s) = scannerType s"
  "quagga_handlers (onBarcodeScanSuccess b s) = quagga_handlers s"
  "detects_pending (onBarcodeScanSuccess b s) = detects_pending s"
  "quagga_init_pending (onBarcodeScanSuccess b s) = quagga_init_pending s"
  by (simp_all add: onBarcodeScanSuccess_def fetchProductDetails_def Let_def)

lemma onBarcodeScanSuccess_log:
  "b \<noteq> [] \<Longrightarrow> page_log (onBarcodeScanSuccess b s) = page_log s @ [AddSound SuccessSound, FetchUrl (off_url b)]"
  by (simp add: onBarcodeScanSuccess_def fetchProductDetails_def Let_def)

lemmas add_handler_defs = startBarcodeScanner_def startQuagga_def gum_resolved_def
  play_resolved_def interval_tick_def detect_resolved_def quagga_init_done_def
  quagga_detected_def click_fetch_def complete_lookup_def lookup_done_def
  fetchProductDetails_def submit_form_def submit_done_def

lemma add_step_has_native [simp]: "has_native (add_step s e) = has_native s"
  by (cases e) (simp_all add: add_handler_defs Let_def funpow_invariant split: option.split list.split submit_response.split)

lemma add_step_scannerType:
  "scannerType (add_step s e) = (if e = ClickScanBarcode then Some (if has_native s then Native else Quagga)
     else scannerType s)"
  by (cases e) (simp_all add: add_handler_defs Let_def funpow_invariant split: option.split list.split submit_response.split)

lemma add_reachable_run: "add_reachable n s \<Longrightarrow> add_reachable n (add_run s es)"
  by (induction es arbitrary: s) (simp_all add: add_reachable.step)

text \<open>C22: the detection backend is chosen once, by the capability test: in
  every reachable state of the add page the scanner type is unset or the one
  the browser's capabilities select (native preferred), never the other.\<close>

lemma backend_chosen_once:
  "add_reachable n s \<Longrightarrow>
     has_native s = n \<and> (scannerType s = None \<or> scannerType s = Some (if n then Native else Quagga))"
  by (induction rule: add_reachable.induct) (auto simp: add_init_def add_step_scannerType)

lemma backend_chosen_once_witness:
  "has_native (add_run (add_init True blank_form) [ClickScanBarcode, CloseModal]) = True \<and>
   scannerType (add_run (add_init True blank_form) [ClickScanBarcode, CloseModal]) = Some Native"
proof -
  have "add_reachable True (add_run (add_init True blank_form) [ClickScanBarcode, CloseModal])"
    by (rule add_reachable_run [OF add_reachable.init])
  from backend_chosen_once [OF this] show ?thesis
    by (simp add: startBarcodeScanner_def add_init_def)
qed

text \<open>C23: \<open>stopBarcodeScanner\<close> closes the modal and releases the current
  session: for the native backend it stops the tracks of \<open>activeStream\<close> and
  clears \<open>detectionInterval\<close> (and nothing else), for Quagga it stops the
  library.\<close>

lemma stopBarcodeScanner_releases:
  "\<not> modal_shown (stopBarcodeScanner s) \<and>
   live_tracks (stopBarcodeScanner s) =
     (if scannerType s = Some Native then live_tracks s - set_option (activeStream s) else live_tracks s) \<and>
   intervals (stopBarcodeScanner s) =
     (if scannerType s = Some Native then intervals s - set_option (detectionInterval s) else intervals s) \<and>
   quagga_running (stopBarcodeScanner s) = (quagga_running s \<and> scannerType s \<noteq> Some Quagga)"
  by (simp add: stopBarcodeScanner_def split: option.split backend.split)

text \<open>\<open>stopBarcodeScanner\<close> is idempotent: a second call changes nothing.\<close>

lemma stopBarcodeScanner_idem: "stopBarcodeScanner (stopBarcodeScanner s) = stopBarcodeScanner s"
  by (simp add: stopBarcodeScanner_def Let_def Diff_insert_absorb split: option.split backend.split)

section \<open>Sessions and the camera\<close>

text \<open>C25: closing the modal while the camera permission is pending does not
  cancel the acquisition: from every state of a browser with the native
  detector, when \<open>getUserMedia\<close> and \<open>play\<close> resolve after the close, the new
  stream is live and the new polling interval runs (and keeps calling
  \<open>detect\<close>) with the modal closed.\<close>

lemma close_during_permission_prompt:
  assumes "has_native s"
  shows "\<not> modal_shown (add_run s [ClickScanBarcode, CloseModal, GumResolved True, PlayResolved True]) \<and>
    next_id s \<in> live_tracks (add_run s [ClickScanBarcode, CloseModal, GumResolved True, PlayResolved True]) \<and>
    Suc (next_id s) \<in> intervals (add_run s [ClickScanBarcode, CloseModal, GumResolved True, PlayResolved True]) \<and>
    detects_pending (add_step (add_run s [ClickScanBarcode, CloseModal, GumResolved True, PlayResolved True])
      (IntervalTick (Suc (next_id s)))) =
    Suc (detects_pending (add_run s [ClickScanBarcode, CloseModal, GumResolved True, PlayResolved True]))"
  using assms
  by (simp add: startBarcodeScanner_def stopBarcodeScanner_def gum_resolved_def play_resolved_def
      interval_tick_def Let_def split: option.split)

lemma close_during_permission_prompt_witness:
  "\<not> modal_shown (add_run (add_init True blank_form) [ClickScanBarcode, CloseModal, GumResolved True, PlayResolved True]) \<and>
   0 \<in> live_tracks (add_run (add_init True blank_form) [ClickScanBarcode, CloseModal, GumResolved True, PlayResolved True])"
  using close_during_permission_prompt [of "add_init True blank_form"] by (simp add: add_init_def)

text \<open>C26: one native session can deliver a barcode twice: from every state
  with a running polling interval, two \<open>detect\<close> calls in flight (a detection
  slower than the 200 ms interval) both resolve with the code, and each plays
  the sound and issues a lookup, although the first delivery stopped the
  scanner.\<close>

lemma native_double_delivery:
  assumes "i \<in> intervals s" and "b \<noteq> []"
  shows "page_log (add_run s [IntervalTick i, IntervalTick i, DetectResolved (Some [b]), DetectResolved (Some [b])]) =
     page_log s @ [AddSound SuccessSound, FetchUrl (off_url b), AddSound SuccessSound, FetchUrl (off_url b)] \<and>
   lookups (add_run s [IntervalTick i, IntervalTick i, DetectResolved (Some [b]), DetectResolved (Some [b])]) =
     lookups s @ [b, b]"
  using assms
  by (simp add: interval_tick_def detect_resolved_def onBarcodeScanSuccess_log Let_def
      onBarcodeScanSuccess_def fetchProductDetails_def)

lemma native_double_delivery_witness:
  "lookups (add_run (add_run (add_init True blank_form) [ClickScanBarcode, GumResolved True, PlayResolved True])
     [IntervalTick 1, IntervalTick 1, DetectResolved (Some [''123'']), DetectResolved (Some [''123''])]) =
   [''123'', ''123'']"
proof -
  let ?s = "add_run (add_init True blank_form) [ClickScanBarcode, GumResolved True, PlayResolved True]"
  have h: "1 \<in> intervals ?s" "lookups ?s = []" by (simp_all add: eval_model)
  from native_double_delivery [OF h(1), of "''123''"] h(2) show ?thesis by simp
qed

section \<open>Delivery of detections\<close>

lemma onBarcodeScanSuccess_funpow_log:
  "b \<noteq> [] \<Longrightarrow> page_log ((onBarcodeScanSuccess b ^^ n) s) =
     page_log s @ concat (replicate n [AddSound SuccessSound, FetchUrl (off_url b)])"
  by (induction n) (simp_all add: onBarcodeScanSuccess_log replicate_append_same [symmetric])

lemma add_step_quagga_handlers:
  "\<not> has_native s \<Longrightarrow>
   quagga_handlers (add_step s e) = quagga_handlers s + (if e = ClickScanBarcode then 1 else 0)"
  by (cases e) (simp_all add: add_handler_defs Let_def funpow_invariant split: option.split list.split submit_response.split)

lemma add_run_quagga_handlers:
  "\<not> has_native s \<Longrightarrow> quagga_handlers (add_run s es) = quagga_handlers s + count_list es ClickScanBarcode"
  by (induction es arbitrary: s) (simp_all add: add_step_quagga_handlers)

text \<open>C27: every Quagga session adds an \<open>onDetected\<close> handler that is never
  removed: a detection in a session after \<open>k\<close> starts plays the sound and
  issues the lookup \<open>k\<close> times.\<close>

lemma quagga_handlers_accumulate:
  assumes "quagga_running (add_run (add_init False f) es)" and "b \<noteq> []"
  shows "page_log (add_step (add_run (add_init False f) es) (QuaggaDetected b)) =
     page_log (add_run (add_init False f) es) @
       concat (replicate (count_list es ClickScanBarcode) [AddSound SuccessSound, FetchUrl (off_url b)])"
proof -
  have "quagga_handlers (add_run (add_init False f) es) = count_list es ClickScanBarcode"
    using add_run_quagga_handlers [of "add_init False f" es] by (simp add: add_init_def)
  then show ?thesis
    using assms by (simp add: quagga_detected_def onBarcodeScanSuccess_funpow_log)
qed

lemma quagga_handlers_accumulate_witness:
  "quagga_running (add_run (add_init False blank_form)
       [ClickScanBarcode, QuaggaInitDone True, CloseModal, ClickScanBarcode, QuaggaInitDone True]) \<and>
   ''4006381333931'' \<noteq> [] \<and>
   page_log (add_step (add_run (add_init False blank_form)
       [ClickScanBarcode, QuaggaInitDone True, CloseModal, ClickScanBarcode, QuaggaInitDone True])
       (QuaggaDetected ''4006381333931'')) =
     [AddSound SuccessSound, FetchUrl (off_url ''4006381333931''),
      AddSound SuccessSound, FetchUrl (off_url ''4006381333931'')]"
proof -
  have run: "quagga_running (add_run (add_init False blank_form)
       [ClickScanBarcode, QuaggaInitDone True, CloseModal, ClickScanBarcode, QuaggaInitDone True])"
    "page_log (add_run (add_init False blank_form)
       [ClickScanBarcode, QuaggaInitDone True, CloseModal, ClickScanBarcode, QuaggaInitDone True]) = []"
    by (simp_all add: add_handler_defs add_init_def)
  show ?thesis
    using quagga_handlers_accumulate [OF run(1), of "''4006381333931''"] run by simp
qed

lemma populateForm_category:
  "category_field (populateForm p b f) =
     (let cats = (case categories_tags p of None \<Rightarrow> [] | Some cs \<Rightarrow> cs) in
      if \<exists>c\<in>set cats. \<exists>u v. c = u @ ''electronic'' @ v then ''Electronics''
      else if \<exists>c\<in>set cats. \<exists>u v. c = u @ ''groceries'' @ v then ''Groceries''
      else if \<exists>c\<in>set cats. \<exists>u v. c = u @ ''appliances'' @ v then ''Appliances''
      else ''Other'')"
  by (simp add: populateForm_def choose_category_def list_ex_iff includes_iff Let_def)

section \<open>Lookups and the form\<close>

lemma off_product_of_Some: "off_product_of r = Some p \<longleftrightarrow> r = JsonData (Some 1) (Some p)"
  by (cases r rule: off_product_of.cases) auto

text \<open>C29: a lookup fills the form and plays the success sound exactly when the
  response is JSON with \<open>status\<close> 1 and a product; on every other outcome
  (network error, HTTP error, bad JSON, unknown product) the form is unchanged,
  the error sound plays and the message names the failure.\<close>

lemma lookup_done_outcome:
  "(lookup_status (lookup_done b r s) = LookupFetched \<longleftrightarrow> (\<exists>p. r = JsonData (Some 1) (Some p))) \<and>
   (\<forall>p. r = JsonData (Some 1) (Some p) \<longrightarrow>
      form (lookup_done b r s) = populateForm p b (form s) \<and>
      page_log (lookup_done b r s) = page_log s @ [AddSound SuccessSound]) \<and>
   ((\<nexists>p. r = JsonData (Some 1) (Some p)) \<longrightarrow>
      form (lookup_done b r s) = form s \<and>
      page_log (lookup_done b r s) = page_log s @ [AddSound ErrorSound] \<and>
      lookup_status (lookup_done b r s) = LookupFailed (lookup_error r))"
  by (cases "off_product_of r") (auto simp: lookup_done_def off_product_of_Some [symmetric])

lemma lookup_done_outcome_witness:
  "form (lookup_done ''123'' HttpNotOk (add_init True blank_form)) = blank_form \<and>
   lookup_status (lookup_done ''123'' HttpNotOk (add_init True blank_form)) =
     LookupFailed ''Barcode not found in the public database.''"
  using lookup_done_outcome [of "''123''" HttpNotOk "add_init True blank_form"] by (simp add: add_init_def)

text \<open>C31: the lookup button requests the input with the white space around it
  removed (and none left at either end), and requests nothing when the input
  is white space only.\<close>

lemma click_fetch_trimmed:
  "\<exists>l r. barcode_input s = l @ js_trim (barcode_input s) @ r \<and>
      list_all is_js_space l \<and> list_all is_js_space r \<and>
      (js_trim (barcode_input s) \<noteq> [] \<longrightarrow>
         \<not> is_js_space (hd (js_trim (barcode_input s))) \<and> \<not> is_js_space (last (js_trim (barcode_input s)))) \<and>
      lookups (click_fetch s) =
        lookups s @ (if list_all is_js_space (barcode_input s) then [] else [js_trim (barcode_input s)])"
  using js_trim_split [of "barcode_input s"] js_trim_ends [of "barcode_input s"]
  by (auto simp: click_fetch_def fetchProductDetails_def js_trim_Nil_iff Let_def)

lemma click_fetch_trimmed_witness:
  "lookups (click_fetch ((add_init True blank_form)\<lparr>barcode_input := '' 123 ''\<rparr>)) = [''123'']"
proof -
  from click_fetch_trimmed [of "(add_init True blank_form)\<lparr>barcode_input := '' 123 ''\<rparr>"]
  have "lookups (click_fetch ((add_init True blank_form)\<lparr>barcode_input := '' 123 ''\<rparr>)) =
          (if list_all is_js_space '' 123 '' then [] else [js_trim '' 123 ''])"
    by (auto simp: add_init_def)
  moreover have "list_all is_js_space '' 123 '' = False" by code_simp
  moreover have "js_trim '' 123 '' = ''123''" by code_simp
  ultimately show ?thesis by simp
qed

text \<open>C32: lookups are not sequenced: from every state, when two lookups of
  typed barcodes complete in the reverse order of their requests, the form
  shows the details of the earlier barcode while the input holds the later
  one.\<close>

lemma lookup_race:
  assumes "js_trim a = a" "a \<noteq> []" "js_trim b = b" "b \<noteq> []"
  shows "barcode_input (add_run s [TypeBarcode a, ClickFetch, TypeBarcode b, ClickFetch,
            LookupDone (Suc (length (lookups s))) (JsonData (Some 1) (Some pb)),
            LookupDone (length (lookups s)) (JsonData (Some 1) (Some pa))]) = b \<and>
         form (add_run s [TypeBarcode a, ClickFetch, TypeBarcode b, ClickFetch,
            LookupDone (Suc (length (lookups s))) (JsonData (Some 1) (Some pb)),
            LookupDone (length (lookups s)) (JsonData (Some 1) (Some pa))]) =
           populateForm pa a (populateForm pb b (form s)) \<and>
         lookups (add_run s [TypeBarcode a, ClickFetch, TypeBarcode b, ClickFetch,
            LookupDone (Suc (length (lookups s))) (JsonData (Some 1) (Some pb)),
            LookupDone (length (lookups s)) (JsonData (Some 1) (Some pa))]) = lookups s"
  using assms
  by (simp add: click_fetch_def fetchProductDetails_def complete_lookup_def lookup_done_def Let_def nth_append)

lemma lookup_race_witness:
  "form (add_run (add_init True blank_form) [TypeBarcode ''3017620422003'', ClickFetch,
      TypeBarcode ''5449000000996'', ClickFetch,
      LookupDone 1 (JsonData (Some 1) (Some \<lparr>product_name_en = Some ''Cola'', product_name = None,
        brands = None, quantity = None, categories_tags = None\<rparr>)),
      LookupDone 0 (JsonData (Some 1) (Some \<lparr>product_name_en = Some ''Nutella'', product_name = None,
        brands = None, quantity = None, categories_tags = None\<rparr>))]) =
   populateForm \<lparr>product_name_en = Some ''Nutella'', product_name = None, brands = None, quantity = None,
       categories_tags = None\<rparr> ''3017620422003''
     (populateForm \<lparr>product_name_en = Some ''Cola'', product_name = None, brands = None, quantity = None,
       categories_tags = None\<rparr> ''5449000000996'' blank_form)"
proof -
  have t: "js_trim ''3017620422003'' = ''3017620422003''" "js_trim ''5449000000996'' = ''5449000000996''"
    by code_simp+
  have l: "length (lookups (add_init True blank_form)) = 0" "form (add_init True blank_form) = blank_form"
    by (simp_all add: add_init_def)
  from lookup_race [OF t(1) _ t(2), of "add_init True blank_form"] l show ?thesis by simp
qed

text \<open>C28: \<open>onBarcodeScanSuccess\<close> ignores an empty code; otherwise it plays
  the success sound, stops the scanner, fills the input and issues exactly one
  lookup of the code.\<close>

lemma onBarcodeScanSuccess_effect:
  "(b = [] \<longrightarrow> onBarcodeScanSuccess b s = s) \<and>
   (b \<noteq> [] \<longrightarrow>
      \<not> modal_shown (onBarcodeScanSuccess b s) \<and> barcode_input (onBarcodeScanSuccess b s) = b \<and>
      lookups (onBarcodeScanSuccess b s) = lookups s @ [b] \<and>
      lookup_status (onBarcodeScanSuccess b s) = LookupFetching b \<and>
      page_log (onBarcodeScanSuccess b s) = page_log s @ [AddSound SuccessSound, FetchUrl (off_url b)] \<and>
      live_tracks (onBarcodeScanSuccess b s) = live_tracks (stopBarcodeScanner s) \<and>
      intervals (onBarcodeScanSuccess b s) = intervals (stopBarcodeScanner s) \<and>
      quagga_running (onBarcodeScanSuccess b s) = quagga_running (stopBarcodeScanner s))"
  by (simp add: onBarcodeScanSuccess_def fetchProductDetails_def stopBarcodeScanner_def
      split: option.split backend.split)

lemma onBarcodeScanSuccess_effect_witness:
  "lookups (onBarcodeScanSuccess ''123'' (add_init True blank_form)) = [''123''] \<and>
   onBarcodeScanSuccess [] (add_init True blank_form) = add_init True blank_form"
  using onBarcodeScanSuccess_effect [of "''123''" "add_init True blank_form"]
    onBarcodeScanSuccess_effect [of "[]" "add_init True blank_form"]
  by (simp add: add_init_def)

end
