(* ===== verification/Server.thy ===== *)
theory Server
  imports Prelude "HOL-Library.Multiset" "HOL-Library.Char_ord" "HOL-Library.List_Lexorder" "HOL-Library.Option_ord"
begin

text \<open>
  The product store of \<open>src/server.js\<close>: the \<open>products\<close> table and the API
  endpoints that read and change it (lines 31--159), and the page routing
  (lines 163--169).  The table is a list of
  rows in the order of their ids (the order of the primary key, which the
  \<open>ORDER BY id DESC\<close> queries reverse), with MySQL's auto-increment counter.
  Each endpoint is a function from the table to the new table and the JSON
  response.  \<open>/api/add-product\<close> runs two queries with an \<open>await\<close> between
  them (the \<open>INSERT\<close>, then the \<open>UPDATE\<close> that sets the product code), so
  other requests may run in between: the model makes its second query an
  event of its own (\<open>AddCodeStep\<close>), and \<open>adds_pending\<close> holds the ids whose
  code is not yet set.  String comparison in \<open>WHERE product_code = ?\<close> is
  taken to be exact (the table's collation is not part of the repository), and
  the database is taken not to fail (the handlers other than the batch update
  have no \<open>catch\<close>).  The \<open>Date.now()\<close> prefix of an uploaded file's name is
  part of the file name the request carries.
\<close>

section \<open>Product codes\<close>

text \<open>\<open>String(n)\<close> for a natural number: its decimal digits.\<close>

fun nat_to_str :: "nat \<Rightarrow> js_string" where
  "nat_to_str n =
     (if n < 10 then [char_of (48 + n)] else nat_to_str (n div 10) @ [char_of (48 + n mod 10)])"

declare nat_to_str.simps [simp del]

text \<open>\<open>s.padStart(n, c)\<close> with a one-character filler.\<close>

definition pad_start :: "nat \<Rightarrow> char \<Rightarrow> js_string \<Rightarrow> js_string" where
  "pad_start n c s = replicate (n - length s) c @ s"

text \<open>Line 120: \<open>`ITEM${String(result.insertId).padStart(4, '0')}`\<close>.\<close>

definition code_of_id :: "nat \<Rightarrow> js_string" where
  "code_of_id i = ''ITEM'' @ pad_start 4 (CHR ''0'') (nat_to_str i)"

text \<open>The value of a string of decimal digits (MySQL's conversion of a numeric
  string), used to state that a code determines its id.\<close>

definition digits_value :: "js_string \<Rightarrow> nat" where
  "digits_value s = foldl (\<lambda>acc c. 10 * acc + ((of_char c :: nat) - 48)) 0 s"

section \<open>The table\<close>

record product_row =
  row_id :: nat
  product_code :: "js_string option"
  pname :: "js_string option"
  pcategory :: "js_string option"
  purchase_date :: "js_string option"
  warranty_date :: "js_string option"
  invoice_path :: "js_string option"
  pnotes :: "js_string option"
  pstatus :: js_string
  is_deleted :: bool

record db_state =
  rows :: "product_row list"
  auto_inc :: nat
  default_status :: js_string
  adds_pending :: "nat list"

text \<open>The form fields of an add or edit request; an absent field is \<open>None\<close>
  (\<open>undefined\<close>, stored as \<open>NULL\<close>), and \<open>upload\<close> the stored name of the
  uploaded invoice, if any.\<close>

record product_form =
  f_name :: "js_string option"
  f_category :: "js_string option"
  f_purchase :: "js_string option"
  f_warranty :: "js_string option"
  f_notes :: "js_string option"
  f_upload :: "js_string option"

datatype response =
    RespSuccess
  | RespCode js_string
  | RespRow product_row
  | RespRows "product_row list"
  | RespCodes "js_string option list"
  | RespStats nat nat nat
  | RespError nat js_string

text \<open>How a page's \<open>fetch\<close> of an endpoint ends: with the server's
  response, or rejected with the message of a network error.\<close>

datatype fetch_result = Fetched response | NetFailed js_string

datatype request =
    AddProduct product_form
  | UpdateProduct nat product_form "js_string option"
  | SoftDelete nat
  | Restore nat
  | Purge nat
  | BatchUpdate "js_string option" "nat list option"
  | GetProduct js_string
  | ListProducts
  | ListTrash
  | DashboardStats "js_string \<times> js_string"
  | ExpiringSoon "js_string \<times> js_string"

definition db_init :: "js_string \<Rightarrow> db_state" where
  "db_init st = \<lparr>rows = [], auto_inc = 1, default_status = st, adds_pending = []\<rparr>"

section \<open>Endpoints\<close>

text \<open>\<open>v || null\<close> for a date field: the empty string becomes \<open>NULL\<close>.\<close>

definition or_null :: "js_string option \<Rightarrow> js_string option" where
  "or_null v = (case v of Some x \<Rightarrow> if x = [] then None else Some x | None \<Rightarrow> None)"

definition upload_path :: "js_string \<Rightarrow> js_string" where
  "upload_path fn = ''uploads/'' @ fn"

text \<open>\<open>UPDATE products SET ... WHERE id = ?\<close>: the rows with that id.\<close>

definition update_where :: "nat \<Rightarrow> (product_row \<Rightarrow> product_row) \<Rightarrow> db_state \<Rightarrow> db_state" where
  "update_where i g db = db\<lparr>rows := map (\<lambda>r. if row_id r = i then g r else r) (rows db)\<rparr>"

text \<open>The first query of \<open>/api/add-product\<close> (lines 117--119): the row is
  inserted with a \<open>NULL\<close> code and the status column's default.\<close>

definition add_insert :: "product_form \<Rightarrow> db_state \<Rightarrow> db_state" where
  "add_insert f db =
     (let i = auto_inc db in
      db\<lparr>rows := rows db @ [\<lparr>row_id = i, product_code = None, pname = f_name f,
            pcategory = f_category f, purchase_date = or_null (f_purchase f),
            warranty_date = or_null (f_warranty f),
            invoice_path = Some (case f_upload f of Some fn \<Rightarrow> upload_path fn | None \<Rightarrow> []),
            pnotes = f_notes f, pstatus = default_status db, is_deleted = False\<rparr>],
         auto_inc := Suc i, adds_pending := adds_pending db @ [i]\<rparr>)"

text \<open>Its second query and response (lines 120--122), for the \<open>n\<close>-th pending add.\<close>

definition add_set_code :: "nat \<Rightarrow> db_state \<Rightarrow> db_state \<times> response option" where
  "add_set_code n db =
     (if n < length (adds_pending db) then
        (let i = adds_pending db ! n in
         (update_where i (\<lambda>r. r\<lparr>product_code := Some (code_of_id i)\<rparr>)
            (db\<lparr>adds_pending := take n (adds_pending db) @ drop (Suc n) (adds_pending db)\<rparr>),
          Some (RespCode (code_of_id i))))
      else (db, None))"

text \<open>\<open>PUT /api/product/:id\<close> (lines 126--135).\<close>

definition update_product :: "nat \<Rightarrow> product_form \<Rightarrow> js_string option \<Rightarrow> db_state \<Rightarrow> db_state" where
  "update_product i f existing db =
     update_where i (\<lambda>r. r\<lparr>pname := f_name f, pcategory := f_category f,
         purchase_date := or_null (f_purchase f), warranty_date := or_null (f_warranty f),
         pnotes := f_notes f,
         invoice_path := (case f_upload f of Some fn \<Rightarrow> Some (upload_path fn) | None \<Rightarrow> existing)\<rparr>) db"

definition soft_delete :: "nat \<Rightarrow> db_state \<Rightarrow> db_state" where
  "soft_delete i db = update_where i (\<lambda>r. r\<lparr>is_deleted := True\<rparr>) db"

definition restore :: "nat \<Rightarrow> db_state \<Rightarrow> db_state" where
  "restore i db = update_where i (\<lambda>r. r\<lparr>is_deleted := False\<rparr>) db"

definition purge :: "nat \<Rightarrow> db_state \<Rightarrow> db_state" where
  "purge i db = db\<lparr>rows := filter (\<lambda>r. row_id r \<noteq> i) (rows db)\<rparr>"

text \<open>\<open>POST /api/products/batch-update\<close> (lines 67--96): the body checks, the
  codes of the selected rows, then the update.\<close>

definition batch_update :: "js_string option \<Rightarrow> nat list option \<Rightarrow> db_state \<Rightarrow> db_state \<times> response" where
  "batch_update action ids db =
     (case (action, ids) of
        (Some a, Some is) \<Rightarrow>
          if a = [] \<or> is = [] then (db, RespError 400 ''Invalid request body.'')
          else if a = ''delete'' \<or> a = ''mark_damaged'' then
            (let codes = map product_code (filter (\<lambda>r. row_id r \<in> set is) (rows db));
                 g = (if a = ''delete'' then (\<lambda>r. r\<lparr>is_deleted := True\<rparr>)
                      else (\<lambda>r. r\<lparr>pstatus := ''Damaged''\<rparr>)) in
             (db\<lparr>rows := map (\<lambda>r. if row_id r \<in> set is then g r else r) (rows db)\<rparr>, RespCodes codes))
          else (db, RespError 400 ''Invalid action.'')
      | _ \<Rightarrow> (db, RespError 400 ''Invalid request body.''))"

text \<open>\<open>GET /api/product/:code\<close> (lines 105--113).\<close>

definition get_product :: "js_string \<Rightarrow> db_state \<Rightarrow> response" where
  "get_product c db =
     (case filter (\<lambda>r. product_code r = Some c \<and> \<not> is_deleted r) (rows db) of
        r # _ \<Rightarrow> RespRow r
      | [] \<Rightarrow> RespError 404 ''Product not found'')"

definition list_products :: "db_state \<Rightarrow> response" where
  "list_products db = RespRows (rev (filter (\<lambda>r. \<not> is_deleted r) (rows db)))"

definition list_trash :: "db_state \<Rightarrow> response" where
  "list_trash db = RespRows (rev (filter is_deleted (rows db)))"

text \<open>The condition \<open>warranty_date BETWEEN CURDATE() AND DATE_ADD(CURDATE(),
  INTERVAL 30 DAY)\<close> of lines 36 and 56, for the pair of dates the database's
  clock gives when the query runs.  Dates are stored in the \<open>YYYY-MM-DD\<close> form
  of the pages' date inputs, on which the calendar order MySQL uses is the
  order of the strings; a \<open>NULL\<close> date is never in the window.\<close>

definition in_window :: "js_string \<times> js_string \<Rightarrow> js_string option \<Rightarrow> bool" where
  "in_window w d = (case d of Some x \<Rightarrow> fst w \<le> x \<and> x \<le> snd w | None \<Rightarrow> False)"

text \<open>\<open>GET /api/products/expiring-soon\<close> (lines 51--64): the live rows whose
  warranty ends in the window, \<open>ORDER BY warranty_date ASC\<close> (rows with the
  same date keep the order of their ids, one of the orders MySQL may return).\<close>

definition expiring_rows :: "js_string \<times> js_string \<Rightarrow> db_state \<Rightarrow> product_row list" where
  "expiring_rows w db =
     sort_key warranty_date (filter (\<lambda>r. \<not> is_deleted r \<and> in_window w (warranty_date r)) (rows db))"

text \<open>\<open>GET /api/dashboard-stats\<close> (lines 31--48): the counts of live rows,
  of rows in the trash and of live rows expiring in the window, taken as one
  snapshot of the table.\<close>

definition dashboard_stats :: "js_string \<times> js_string \<Rightarrow> db_state \<Rightarrow> response" where
  "dashboard_stats w db =
     RespStats (length (filter (\<lambda>r. \<not> is_deleted r) (rows db))) (length (filter is_deleted (rows db)))
       (length (filter (\<lambda>r. \<not> is_deleted r \<and> in_window w (warranty_date r)) (rows db)))"

text \<open>One request, or the second half of a pending add: the new table and the
  response sent (none for the first half of an add).\<close>

datatype server_event = Req request | AddCodeStep nat

fun serve :: "db_state \<Rightarrow> server_event \<Rightarrow> db_state \<times> response option" where
  "serve db (Req (AddProduct f)) = (add_insert f db, None)"
| "serve db (AddCodeStep n) = add_set_code n db"
| "serve db (Req (UpdateProduct i f ex)) = (update_product i f ex db, Some RespSuccess)"
| "serve db (Req (SoftDelete i)) = (soft_delete i db, Some RespSuccess)"
| "serve db (Req (Restore i)) = (restore i db, Some RespSuccess)"
| "serve db (Req (Purge i)) = (purge i db, Some RespSuccess)"
| "serve db (Req (BatchUpdate a is)) = (let (db', r) = batch_update a is db in (db', Some r))"
| "serve db (Req (GetProduct c)) = (db, Some (get_product c db))"
| "serve db (Req ListProducts) = (db, Some (list_products db))"
| "serve db (Req ListTrash) = (db, Some (list_trash db))"
| "serve db (Req (DashboardStats w)) = (db, Some (dashboard_stats w db))"
| "serve db (Req (ExpiringSoon w)) = (db, Some (RespRows (expiring_rows w db)))"

inductive server_reachable :: "db_state \<Rightarrow> bool" where
  init: "server_reachable (db_init st)"
| step: "server_reachable db \<Longrightarrow> server_reachable (fst (serve db e))"

fun serve_all :: "db_state \<Rightarrow> server_event list \<Rightarrow> db_state \<times> response list" where
  "serve_all db [] = (db, [])"
| "serve_all db (e # es) =
     (let (db1, r) = serve db e; (db2, rs) = serve_all db1 es in (db2, (case r of Some x \<Rightarrow> [x] | None \<Rightarrow> []) @ rs))"

section \<open>Page routing\<close>

text \<open>Lines 163--169: each public path is served the HTML file of its name,
  \<open>/\<close> the file \<open>index.html\<close>; any other path falls through to a 404.\<close>

definition publicPages :: "js_string list" where
  "publicPages = [''/'', ''/add'', ''/find'', ''/all'', ''/details'', ''/edit'', ''/trash'', ''/scan'',
                  ''/print-stickers'', ''/audit'', ''/print-audit'', ''/warranty'']"

definition page_file :: "js_string \<Rightarrow> js_string" where
  "page_file page = (if page = ''/'' then ''index.html'' else drop 1 page @ ''.html'')"

definition route :: "js_string \<Rightarrow> js_string option" where
  "route path = (if path \<in> set publicPages then Some (page_file path) else None)"

section \<open>The table invariant\<close>

text \<open>Ids strictly increase along the table and stay below the counter; the
  pending adds are distinct ids below the counter; a row's code is \<open>NULL\<close>
  while its add is pending and \<open>code_of_id\<close> of its id afterwards.\<close>

definition db_wf :: "db_state \<Rightarrow> bool" where
  "db_wf db \<longleftrightarrow> sorted_wrt (<) (map row_id (rows db)) \<and>
     (\<forall>r\<in>set (rows db). row_id r < auto_inc db) \<and>
     distinct (adds_pending db) \<and> (\<forall>i\<in>set (adds_pending db). i < auto_inc db) \<and>
     (\<forall>r\<in>set (rows db). product_code r =
        (if row_id r \<in> set (adds_pending db) then None else Some (code_of_id (row_id r))))"

text \<open>A request body of the examples below.\<close>

abbreviation kettle_form :: product_form where
  "kettle_form \<equiv> \<lparr>f_name = Some ''Kettle'', f_category = Some ''Appliances'', f_purchase = Some [],
     f_warranty = None, f_notes = None, f_upload = None\<rparr>"

section \<open>Codes, invariant and endpoints\<close>


lemma of_char_digit: "d < 10 \<Longrightarrow> (of_char (char_of (48 + d)) :: nat) = 48 + d"
  by (simp add: of_char_of)

lemma digit_char: "(d::nat) < 10 \<Longrightarrow> is_digit (char_of (48 + d))"
  by (simp add: is_digit_def of_char_digit)

lemma is_digit_zero: "is_digit (CHR ''0'')"
  by (simp add: is_digit_def)

lemma nat_to_str_digits: "list_all is_digit (nat_to_str n) \<and> nat_to_str n \<noteq> []"
proof (induction n rule: nat_to_str.induct)
  case (1 n)
  then show ?case
    by (subst (1 2) nat_to_str.simps) (auto simp: digit_char)
qed

lemma digits_value_snoc: "digits_value (xs @ [c]) = 10 * digits_value xs + ((of_char c :: nat) - 48)"
  by (simp add: digits_value_def)

lemma digits_value_nat_to_str: "digits_value (nat_to_str n) = n"
proof (induction n rule: nat_to_str.induct)
  case (1 n)
  then show ?case
    by (subst nat_to_str.simps) (simp add: digits_value_snoc of_char_digit digits_value_def)
qed

lemma digits_value_zeros: "digits_value (replicate k (CHR ''0'') @ s) = digits_value s"
proof -
  have "foldl (\<lambda>acc c. 10 * acc + ((of_char c :: nat) - 48)) 0 (replicate k (CHR ''0'')) = 0"
    by (induction k) simp_all
  then show ?thesis by (simp add: digits_value_def)
qed

lemma code_of_id_value: "digits_value (drop 4 (code_of_id i)) = i"
  by (simp add: code_of_id_def pad_start_def digits_value_zeros digits_value_nat_to_str)

lemma code_of_id_inj: "code_of_id i = code_of_id j \<longleftrightarrow> i = j"
  by (metis code_of_id_value)

lemma code_of_id_product_code: "take 4 (code_of_id i) = ''ITEM'' \<and> 4 < length (code_of_id i) \<and>
   list_all is_digit (drop 4 (code_of_id i))"
  using nat_to_str_digits [of i]
  by (auto simp: code_of_id_def pad_start_def is_digit_zero list_all_iff set_replicate_conv_if)


lemma db_wf_init: "db_wf (db_init st)"
  by (simp add: db_wf_def db_init_def)

lemma db_wf_map_rows:
  assumes "db_wf db" and "\<And>r. row_id (h r) = row_id r" and "\<And>r. product_code (h r) = product_code r"
  shows "db_wf (db\<lparr>rows := map h (rows db)\<rparr>)"
proof -
  have "row_id \<circ> h = row_id" by (rule ext) (simp add: assms(2))
  with assms show ?thesis by (simp add: db_wf_def)
qed

lemma db_wf_update_where:
  "db_wf db \<Longrightarrow> (\<And>r. row_id (g r) = row_id r) \<Longrightarrow> (\<And>r. product_code (g r) = product_code r) \<Longrightarrow>
   db_wf (update_where i g db)"
  unfolding update_where_def by (rule db_wf_map_rows) simp_all

lemma db_wf_add_insert: "db_wf db \<Longrightarrow> db_wf (add_insert f db)"
  by (auto simp: db_wf_def add_insert_def Let_def sorted_wrt_append)

lemma db_wf_add_set_code: "db_wf db \<Longrightarrow> db_wf (fst (add_set_code n db))"
proof (cases "n < length (adds_pending db)")
  case True
  assume wf: "db_wf db"
  let ?i = "adds_pending db ! n"
  let ?p = "take n (adds_pending db) @ drop (Suc n) (adds_pending db)"
  have dist: "distinct (adds_pending db)" using wf by (simp add: db_wf_def)
  have set_p: "distinct ?p \<and> set ?p = set (adds_pending db) - {?i}"
    using remove_nth_distinct [OF dist True] .
  have ip: "?i \<in> set (adds_pending db)" using True by simp
  have rid: "row_id \<circ> (\<lambda>r. if row_id r = ?i then r\<lparr>product_code := Some (code_of_id ?i)\<rparr> else r) = row_id"
    by (rule ext) simp
  have "db_wf (db\<lparr>adds_pending := ?p\<rparr>\<lparr>rows := map (\<lambda>r. if row_id r = ?i then r\<lparr>product_code := Some (code_of_id ?i)\<rparr> else r) (rows db)\<rparr>)"
    using wf dist True set_p ip
    by (auto simp: db_wf_def rid)
  then show ?thesis using True by (simp add: add_set_code_def update_where_def Let_def)
next
  case False
  then show "db_wf db \<Longrightarrow> ?thesis" by (simp add: add_set_code_def)
qed


lemma db_wf_purge: "db_wf db \<Longrightarrow> db_wf (purge i db)"
  by (auto simp: db_wf_def purge_def sorted_wrt_map sorted_wrt_filter)

lemma db_wf_batch_update: "db_wf db \<Longrightarrow> db_wf (fst (batch_update a ids db))"
  by (auto simp: batch_update_def Let_def intro!: db_wf_map_rows split: option.split prod.split)

lemma db_wf_serve: "db_wf db \<Longrightarrow> db_wf (fst (serve db e))"
proof (cases e)
  case (Req q)
  assume wf: "db_wf db"
  then show ?thesis using Req
    by (cases q) (simp_all add: db_wf_add_insert db_wf_update_where update_product_def soft_delete_def
        restore_def db_wf_purge db_wf_batch_update split_def Let_def)
next
  case (AddCodeStep n)
  then show "db_wf db \<Longrightarrow> ?thesis" by (simp add: db_wf_add_set_code)
qed

lemma server_reachable_wf: "server_reachable db \<Longrightarrow> db_wf db"
  by (induction rule: server_reachable.induct) (simp_all add: db_wf_init db_wf_serve)

lemma codes_of_rows:
  "\<forall>r\<in>set xs. product_code r = (if row_id r \<in> P then None else Some (code_of_id (row_id r))) \<Longrightarrow>
   filter (\<lambda>c. c \<noteq> None) (map product_code xs) =
     map (Some \<circ> code_of_id) (map row_id (filter (\<lambda>r. row_id r \<notin> P) xs))"
  by (induction xs) auto

lemma db_wf_codes_distinct: "db_wf db \<Longrightarrow> distinct (filter (\<lambda>c. c \<noteq> None) (map product_code (rows db)))"
proof -
  assume wf: "db_wf db"
  then have "distinct (map row_id (rows db))" by (simp add: db_wf_def strict_sorted_iff)
  then have "distinct (map row_id (filter (\<lambda>r. row_id r \<notin> set (adds_pending db)) (rows db)))"
    by (simp add: distinct_map_filter)
  moreover have "inj_on (Some \<circ> code_of_id) A" for A
    by (rule inj_onI) (simp add: code_of_id_inj)
  moreover have "filter (\<lambda>c. c \<noteq> None) (map product_code (rows db)) =
      map (Some \<circ> code_of_id) (map row_id (filter (\<lambda>r. row_id r \<notin> set (adds_pending db)) (rows db)))"
    using wf unfolding db_wf_def by (intro codes_of_rows) blast
  ultimately show ?thesis by (simp only: distinct_map)
qed


text \<open>C33: the table invariant of the server: in every state the endpoints can
  reach, the ids are strictly increasing, a row carries the code
  \<open>code_of_id\<close> of its id once its add request has completed (and \<open>NULL\<close>
  before), and no two rows share a product code.\<close>

theorem server_table_wf:
  "server_reachable db \<Longrightarrow>
   sorted_wrt (<) (map row_id (rows db)) \<and>
   (\<forall>r\<in>set (rows db). product_code r =
      (if row_id r \<in> set (adds_pending db) then None else Some (code_of_id (row_id r)))) \<and>
   distinct (filter (\<lambda>c. c \<noteq> None) (map product_code (rows db)))"
  using server_reachable_wf [of db] db_wf_codes_distinct [of db] by (simp add: db_wf_def)

lemma server_table_wf_witness:
  "map product_code (rows (fst (serve (fst (serve (db_init ''Active'') (Req (AddProduct kettle_form))))
      (AddCodeStep 0)))) = [Some (code_of_id 1)]"
proof -
  let ?db = "fst (serve (fst (serve (db_init ''Active'') (Req (AddProduct kettle_form)))) (AddCodeStep 0))"
  have r: "server_reachable ?db"
    by (intro server_reachable.step server_reachable.init)
  have ids: "map row_id (rows ?db) = [1]" "adds_pending ?db = []"
    by (simp_all add: add_insert_def add_set_code_def update_where_def db_init_def)
  show ?thesis
    using server_table_wf [OF r] ids by (cases "rows ?db") auto
qed

text \<open>C34: insert/lookup: after \<open>/api/add-product\<close> completes, its response is
  the code of the new id, and \<open>/api/product/:code\<close> with that code returns the
  new row with the submitted name, category and notes.\<close>

theorem add_product_lookup:
  assumes "server_reachable db"
  shows "add_set_code (length (adds_pending db)) (add_insert f db) = (db2, resp) \<Longrightarrow>
     resp = Some (RespCode (code_of_id (auto_inc db))) \<and>
     (\<exists>r. get_product (code_of_id (auto_inc db)) db2 = RespRow r \<and> row_id r = auto_inc db \<and>
        pname r = f_name f \<and> pcategory r = f_category f \<and> pnotes r = f_notes f \<and> \<not> is_deleted r)"
proof -
  assume step: "add_set_code (length (adds_pending db)) (add_insert f db) = (db2, resp)"
  have wf: "db_wf db" using assms by (rule server_reachable_wf)
  let ?i = "auto_inc db"
  have old: "\<forall>r\<in>set (rows db). product_code r \<noteq> Some (code_of_id ?i)"
    using wf by (auto simp: db_wf_def code_of_id_inj)
  have old_id: "\<forall>r\<in>set (rows db). row_id r \<noteq> ?i"
    using wf by (auto simp: db_wf_def)
  have "filter (\<lambda>r. product_code r = Some (code_of_id ?i) \<and> \<not> is_deleted r)
          (map (\<lambda>r. if row_id r = ?i then r\<lparr>product_code := Some (code_of_id ?i)\<rparr> else r) (rows db)) = []"
    using old old_id by (auto simp: filter_empty_conv)
  then show ?thesis
    using step by (auto simp: add_set_code_def add_insert_def update_where_def get_product_def Let_def
        filter_empty_conv old_id)
qed


lemma add_product_lookup_witness:
  "snd (add_set_code 0 (add_insert kettle_form (db_init ''Active''))) = Some (RespCode ''ITEM0001'') \<and>
   (\<exists>r. get_product ''ITEM0001'' (fst (add_set_code 0 (add_insert kettle_form (db_init ''Active'')))) = RespRow r \<and>
      pname r = Some ''Kettle'')"
proof -
  have c: "code_of_id 1 = ''ITEM0001''" by code_simp
  obtain db2 resp where e: "add_set_code 0 (add_insert kettle_form (db_init ''Active'')) = (db2, resp)"
    by (cases "add_set_code 0 (add_insert kettle_form (db_init ''Active''))")
  have "resp = Some (RespCode (code_of_id 1)) \<and>
     (\<exists>r. get_product (code_of_id 1) db2 = RespRow r \<and> row_id r = 1 \<and>
        pname r = Some ''Kettle'' \<and> pcategory r = Some ''Appliances'' \<and> pnotes r = None \<and> \<not> is_deleted r)"
    using add_product_lookup [OF server_reachable.init [of "''Active''"], of kettle_form db2 resp] e
    by (simp add: db_init_def)
  then show ?thesis using e c by auto
qed

text \<open>C35: a batch delete answers with the codes of the selected rows, removes
  exactly them from the product list and keeps every row in the table; a
  request with a missing or unknown action or an empty id list is answered
  400 and changes nothing.\<close>

theorem batch_update_outcome:
  "(is \<noteq> [] \<longrightarrow>
      snd (batch_update (Some ''delete'') (Some is) db) =
        RespCodes (map product_code (filter (\<lambda>r. row_id r \<in> set is) (rows db))) \<and>
      list_products (fst (batch_update (Some ''delete'') (Some is) db)) =
        RespRows (rev (filter (\<lambda>r. \<not> is_deleted r \<and> row_id r \<notin> set is) (rows db))) \<and>
      map row_id (rows (fst (batch_update (Some ''delete'') (Some is) db))) = map row_id (rows db)) \<and>
   (a \<notin> {Some ''delete'', Some ''mark_damaged''} \<or> ids = None \<or> ids = Some [] \<longrightarrow>
      fst (batch_update a ids db) = db \<and> (\<exists>m. snd (batch_update a ids db) = RespError 400 m))"
proof -
  have del: "''delete'' \<noteq> ''mark_damaged''" by simp
  have rid: "row_id \<circ> (\<lambda>r. if row_id r \<in> set is then r\<lparr>is_deleted := True\<rparr> else r) = row_id"
    by (rule ext) simp
  have lp: "filter (\<lambda>r. \<not> is_deleted r) (map (\<lambda>r. if row_id r \<in> set is then r\<lparr>is_deleted := True\<rparr> else r) xs) =
            filter (\<lambda>r. \<not> is_deleted r \<and> row_id r \<notin> set is) xs" for xs
    by (induction xs) auto
  show ?thesis
    by (auto simp: batch_update_def list_products_def lp rid split: option.split)
qed

lemma batch_update_outcome_witness:
  "fst (batch_update (Some ''archive'') (Some [1]) (fst (add_set_code 0 (add_insert kettle_form (db_init ''Active''))))) =
     fst (add_set_code 0 (add_insert kettle_form (db_init ''Active''))) \<and>
   list_products (fst (batch_update (Some ''delete'') (Some [1])
     (fst (add_set_code 0 (add_insert kettle_form (db_init ''Active'')))))) = RespRows []"
  using batch_update_outcome [of "[1]" "fst (add_set_code 0 (add_insert kettle_form (db_init ''Active'')))"
      "Some ''archive''" "Some [1]"]
  by (simp add: add_set_code_def add_insert_def update_where_def db_init_def)


text \<open>Rows of a reachable table whose add has completed carry their code;
  the expiring list holds live rows of the table.\<close>

lemma completed_code:
  assumes "server_reachable db" "p \<in> set (rows db)" "row_id p \<notin> set (adds_pending db)"
  shows "product_code p = Some (code_of_id (row_id p))"
  using server_reachable_wf [OF assms(1)] assms(2,3) by (simp add: db_wf_def)

lemma expiring_rows_live: "p \<in> set (expiring_rows w db) \<Longrightarrow> p \<in> set (rows db) \<and> \<not> is_deleted p"
  by (simp add: expiring_rows_def)

text \<open>Moving a row to the trash removes exactly the rows of its id from a
  filter of live rows; restoring a live row after moving it undoes the move.\<close>

lemma filter_live_soft_delete:
  "filter (\<lambda>r. \<not> is_deleted r \<and> P r) (map (\<lambda>r. if row_id r = i then r\<lparr>is_deleted := True\<rparr> else r) xs) =
   filter (\<lambda>r. row_id r \<noteq> i) (filter (\<lambda>r. \<not> is_deleted r \<and> P r) xs)"
  by (induction xs) auto

lemma restore_soft_delete:
  assumes "\<forall>r\<in>set (rows db). row_id r = i \<longrightarrow> \<not> is_deleted r"
  shows "restore i (soft_delete i db) = db"
proof -
  have "map ((\<lambda>r. if row_id r = i then r\<lparr>is_deleted := False\<rparr> else r) \<circ>
             (\<lambda>r. if row_id r = i then r\<lparr>is_deleted := True\<rparr> else r)) (rows db) = rows db"
    by (rule map_idI) (use assms in auto)
  then show ?thesis by (simp add: restore_def soft_delete_def update_where_def)
qed

text \<open>C5: the warranty watch and the dashboard follow the trash: moving a product
  to the trash removes exactly that product from the expiring-soon list (the
  rest keep their order) and the dashboard's \<open>expiringSoon\<close> count becomes the
  length of the remaining list; restoring it from the trash gives the list
  back unchanged.\<close>

theorem expiring_trash_restore:
  "expiring_rows w (soft_delete i db) = filter (\<lambda>r. row_id r \<noteq> i) (expiring_rows w db) \<and>
   (\<exists>t d. dashboard_stats w (soft_delete i db) =
      RespStats t d (length (filter (\<lambda>r. row_id r \<noteq> i) (expiring_rows w db)))) \<and>
   ((\<forall>r\<in>set (rows db). row_id r = i \<longrightarrow> \<not> is_deleted r) \<longrightarrow>
      expiring_rows w (restore i (soft_delete i db)) = expiring_rows w db)"
proof -
  let ?P = "\<lambda>r. in_window w (warranty_date r)"
  have f: "filter (\<lambda>r. \<not> is_deleted r \<and> ?P r) (rows (soft_delete i db)) =
      filter (\<lambda>r. row_id r \<noteq> i) (filter (\<lambda>r. \<not> is_deleted r \<and> ?P r) (rows db))"
    by (simp add: soft_delete_def update_where_def filter_live_soft_delete)
  have e: "expiring_rows w (soft_delete i db) = filter (\<lambda>r. row_id r \<noteq> i) (expiring_rows w db)"
    by (simp only: expiring_rows_def f filter_sort)
  have "length (filter (\<lambda>r. row_id r \<noteq> i) (expiring_rows w db)) =
        length (filter (\<lambda>r. \<not> is_deleted r \<and> ?P r) (rows (soft_delete i db)))"
    unfolding expiring_rows_def by (simp only: filter_sort length_sort f)
  then show ?thesis using e restore_soft_delete by (simp add: dashboard_stats_def)
qed

lemma expiring_trash_restore_witness:
  "expiring_rows (''2026-11-09'', ''2026-12-09'')
     (soft_delete 1 (fst (add_set_code 0 (add_insert (kettle_form\<lparr>f_warranty := Some ''2026-11-20''\<rparr>)
        (db_init ''Active''))))) = [] \<and>
   expiring_rows (''2026-11-09'', ''2026-12-09'')
     (restore 1 (soft_delete 1 (fst (add_set_code 0 (add_insert (kettle_form\<lparr>f_warranty := Some ''2026-11-20''\<rparr>)
        (db_init ''Active'')))))) =
   expiring_rows (''2026-11-09'', ''2026-12-09'')
     (fst (add_set_code 0 (add_insert (kettle_form\<lparr>f_warranty := Some ''2026-11-20''\<rparr>) (db_init ''Active''))))"
proof -
  let ?db = "fst (add_set_code 0 (add_insert (kettle_form\<lparr>f_warranty := Some ''2026-11-20''\<rparr>) (db_init ''Active'')))"
  have ids: "map row_id (rows ?db) = [1]" "\<forall>r\<in>set (rows ?db). \<not> is_deleted r"
    by (simp_all add: add_insert_def add_set_code_def update_where_def db_init_def)
  then have live: "\<forall>r\<in>set (rows ?db). row_id r = 1 \<longrightarrow> \<not> is_deleted r" by blast
  have "filter (\<lambda>r. row_id r \<noteq> 1) (expiring_rows (''2026-11-09'', ''2026-12-09'') ?db) = []"
    using ids(1) by (auto simp: expiring_rows_def filter_empty_conv)
  with expiring_trash_restore [of "(''2026-11-09'', ''2026-12-09'')" 1 ?db] live show ?thesis by simp
qed

end
