(* ===== verification/AuditPage.thy ===== *)
theory AuditPage
  imports Server "HOL-Library.AList"
begin

text \<open>
  The audit page, \<open>src/public/js/audit.js\<close>: a QR scanner collects products
  into a JavaScript \<open>Map\<close> keyed by product code (\<open>scannedItems\<close>), shown as a
  table with check boxes; batch actions send the checked ids to the server's
  \<open>/api/products/batch-update\<close> and remove the codes it returns.

  The \<open>Map\<close> is an association list in insertion order: \<open>set\<close> is
  \<open>AList.update\<close> (an existing key keeps its place), \<open>delete\<close> is
  \<open>AList.delete\<close>, \<open>forEach\<close> runs along the list.  A product is the row the
  server sends (\<^typ>\<open>product_row\<close> of the theory \<open>Server\<close>), so a key is a
  \<open>product_code\<close>, which may be \<open>null\<close>.  As in the other pages each
  completion of a \<open>fetch\<close> is an event of its own, naming the request in
  flight it completes; \<open>confirm\<close> dialogs are answered by the event.
\<close>

section \<open>State and events\<close>

datatype audit_msg =
    AuditIdle
  | AuditFetching js_string
  | AuditAdded "js_string option"
  | AuditFailed js_string

datatype audit_effect =
    AuditSound sound
  | AuditFetch js_string
  | BatchRequest js_string "nat list"
  | Alert js_string
  | PrintList "product_row list"

record audit_state =
  scannedItems :: "(js_string option \<times> product_row) list"
  scans_pending :: "js_string list"
  batches_pending :: "nat list list"
  checked :: "nat set"
  audit_status :: audit_msg
  audit_log :: "audit_effect list"

datatype audit_event =
    Decoded js_string
  | ProductDone nat fetch_result
  | ToggleCheck nat bool
  | SelectAll bool
  | ClickBatch js_string bool
  | BatchDone nat fetch_result
  | ClickClear bool
  | ClickPrint

definition audit_init :: audit_state where
  "audit_init = \<lparr>scannedItems = [], scans_pending = [], batches_pending = [], checked = {},
     audit_status = AuditIdle, audit_log = []\<rparr>"

section \<open>Handlers\<close>

text \<open>\<open>renderTable\<close>: the table is rebuilt, so no box stays checked.\<close>

definition renderTable :: "audit_state \<Rightarrow> audit_state" where
  "renderTable s = s\<lparr>checked := {}\<rparr>"

text \<open>\<open>onScanSuccess\<close> up to its \<open>await fetch\<close> (lines 13--24).\<close>

definition audit_scan :: "js_string \<Rightarrow> audit_state \<Rightarrow> audit_state" where
  "audit_scan t s =
     (if \<not> starts_with t ''ITEM'' \<or> Some t \<in> fst ` set (scannedItems s) then s
      else s\<lparr>audit_log := audit_log s @ [AuditSound SuccessSound, AuditFetch (''/api/product/'' @ t)],
             audit_status := AuditFetching t, scans_pending := scans_pending s @ [t]\<rparr>)"

text \<open>The rest of \<open>onScanSuccess\<close> (lines 25--36): a response other than a row
  is not \<open>ok\<close>.\<close>

definition product_done :: "fetch_result \<Rightarrow> audit_state \<Rightarrow> audit_state" where
  "product_done r s =
     (case r of
        Fetched (RespRow p) \<Rightarrow>
          renderTable (s\<lparr>scannedItems := AList.update (product_code p) p (scannedItems s),
                         audit_status := AuditAdded (pname p)\<rparr>)
      | Fetched _ \<Rightarrow> s\<lparr>audit_log := audit_log s @ [AuditSound ErrorSound],
                        audit_status := AuditFailed ''Product not found in database.''\<rparr>
      | NetFailed m \<Rightarrow> s\<lparr>audit_log := audit_log s @ [AuditSound ErrorSound], audit_status := AuditFailed m\<rparr>)"

definition complete_scan :: "nat \<Rightarrow> fetch_result \<Rightarrow> audit_state \<Rightarrow> audit_state" where
  "complete_scan n r s =
     (if n < length (scans_pending s) then
        product_done r (s\<lparr>scans_pending := take n (scans_pending s) @ drop (Suc n) (scans_pending s)\<rparr>)
      else s)"

text \<open>The ids of the checked boxes, in the order of the table.\<close>

definition selected_ids :: "audit_state \<Rightarrow> nat list" where
  "selected_ids s = filter (\<lambda>i. i \<in> checked s) (map (row_id \<circ> snd) (scannedItems s))"

text \<open>\<open>performBatchAction(action)\<close> up to its \<open>await fetch\<close> (lines 57--75);
  \<open>ok\<close> is the answer to the \<open>confirm\<close> dialog.\<close>

definition click_batch :: "js_string \<Rightarrow> bool \<Rightarrow> audit_state \<Rightarrow> audit_state" where
  "click_batch action ok s =
     (let ids = selected_ids s in
      if ids = [] then s\<lparr>audit_log := audit_log s @ [Alert ''Please select items from the list first.'']\<rparr>
      else if \<not> ok then s
      else s\<lparr>audit_log := audit_log s @ [BatchRequest action ids],
             batches_pending := batches_pending s @ [ids]\<rparr>)"

text \<open>The rest of \<open>performBatchAction\<close> (lines 76--86): the returned codes
  are deleted from the \<open>Map\<close> one after the other.\<close>

definition batch_done :: "nat list \<Rightarrow> fetch_result \<Rightarrow> audit_state \<Rightarrow> audit_state" where
  "batch_done ids r s =
     (case r of
        Fetched (RespCodes cs) \<Rightarrow>
          (renderTable (s\<lparr>scannedItems := fold AList.delete cs (scannedItems s)\<rparr>))
            \<lparr>audit_log := audit_log s @
                [Alert (nat_to_str (length ids) @ '' item(s) have been updated successfully.'')]\<rparr>
      | Fetched _ \<Rightarrow> s\<lparr>audit_log := audit_log s @ [Alert ''An error occurred: Server failed to process the request.'']\<rparr>
      | NetFailed m \<Rightarrow> s\<lparr>audit_log := audit_log s @ [Alert (''An error occurred: '' @ m)]\<rparr>)"

definition complete_batch :: "nat \<Rightarrow> fetch_result \<Rightarrow> audit_state \<Rightarrow> audit_state" where
  "complete_batch n r s =
     (if n < length (batches_pending s) then
        batch_done (batches_pending s ! n) r
          (s\<lparr>batches_pending := take n (batches_pending s) @ drop (Suc n) (batches_pending s)\<rparr>)
      else s)"

definition click_clear :: "bool \<Rightarrow> audit_state \<Rightarrow> audit_state" where
  "click_clear ok s = (if scannedItems s \<noteq> [] \<and> ok then renderTable (s\<lparr>scannedItems := []\<rparr>) else s)"

definition click_print :: "audit_state \<Rightarrow> audit_state" where
  "click_print s =
     (if scannedItems s = [] then s\<lparr>audit_log := audit_log s @ [Alert ''No items to print.'']\<rparr>
      else s\<lparr>audit_log := audit_log s @ [PrintList (map snd (scannedItems s))]\<rparr>)"

fun audit_step :: "audit_state \<Rightarrow> audit_event \<Rightarrow> audit_state" where
  "audit_step s (Decoded t) = audit_scan t s"
| "audit_step s (ProductDone n r) = complete_scan n r s"
| "audit_step s (ToggleCheck i b) =
     (if i \<in> row_id ` snd ` set (scannedItems s)
      then s\<lparr>checked := (if b then insert i (checked s) else checked s - {i})\<rparr> else s)"
| "audit_step s (SelectAll b) =
     s\<lparr>checked := (if b then row_id ` snd ` set (scannedItems s) else {})\<rparr>"
| "audit_step s (ClickBatch a ok) = click_batch a ok s"
| "audit_step s (BatchDone n r) = complete_batch n r s"
| "audit_step s (ClickClear ok) = click_clear ok s"
| "audit_step s ClickPrint = click_print s"

fun audit_run :: "audit_state \<Rightarrow> audit_event list \<Rightarrow> audit_state" where
  "audit_run s [] = s"
| "audit_run s (e # es) = audit_run (audit_step s e) es"

inductive audit_reachable :: "audit_state \<Rightarrow> bool" where
  init: "audit_reachable audit_init"
| step: "audit_reachable s \<Longrightarrow> audit_reachable (audit_step s e)"

text \<open>The invariant of the collection: keys are distinct, and each entry is
  stored under the product's own code.\<close>

definition items_wf :: "(js_string option \<times> product_row) list \<Rightarrow> bool" where
  "items_wf xs \<longleftrightarrow> distinct (map fst xs) \<and> (\<forall>(k, p)\<in>set xs. k = product_code p)"

text \<open>A row of the server's table, used in the examples below.\<close>

abbreviation kettle_row :: product_row where
  "kettle_row \<equiv> \<lparr>row_id = 1, product_code = Some ''ITEM0001'', pname = Some ''Kettle'',
     pcategory = Some ''Appliances'', purchase_date = None, warranty_date = None,
     invoice_path = Some [], pnotes = None, pstatus = ''Active'', is_deleted = False\<rparr>"

section \<open>The collection invariant and the scan guard\<close>


lemma set_update_subset: "set (AList.update k v xs) \<subseteq> insert (k, v) (set xs)"
  by (induction xs) auto

lemma items_wf_update: "items_wf xs \<Longrightarrow> items_wf (AList.update (product_code p) p xs)"
  using set_update_subset [of "product_code p" p xs]
  by (fastforce simp: items_wf_def distinct_update)

lemma items_wf_fold_delete: "items_wf xs \<Longrightarrow> items_wf (fold AList.delete ks xs)"
proof (induction ks arbitrary: xs)
  case (Cons k ks)
  have "distinct (map fst (AList.delete k xs))"
    using Cons.prems by (simp add: items_wf_def distinct_delete)
  moreover have "set (AList.delete k xs) \<subseteq> set xs" by (auto simp: AList.delete_eq)
  ultimately have "items_wf (AList.delete k xs)"
    using Cons.prems by (auto simp: items_wf_def)
  then show ?case using Cons.IH by simp
qed simp


lemmas audit_handler_defs = audit_scan_def complete_scan_def product_done_def renderTable_def
  click_batch_def complete_batch_def batch_done_def click_clear_def click_print_def

lemma audit_step_items_wf:
  "items_wf (scannedItems s) \<Longrightarrow> items_wf (scannedItems (audit_step s e))"
  by (cases e)
    (auto simp: audit_handler_defs Let_def items_wf_update items_wf_fold_delete
      split: fetch_result.split response.split, simp add: items_wf_def)

lemma audit_step_checked:
  "checked s \<subseteq> row_id ` snd ` set (scannedItems s) \<Longrightarrow>
   checked (audit_step s e) \<subseteq> row_id ` snd ` set (scannedItems (audit_step s e))"
  by (cases e) (auto simp: audit_handler_defs Let_def split: fetch_result.split response.split)



lemma audit_reachable_items_wf: "audit_reachable s \<Longrightarrow> items_wf (scannedItems s)"
proof (induction rule: audit_reachable.induct)
  case init
  then show ?case by (simp add: audit_init_def items_wf_def)
next
  case (step s e)
  from step.IH show ?case by (rule audit_step_items_wf)
qed

lemma audit_reachable_run: "audit_reachable s \<Longrightarrow> audit_reachable (audit_run s es)"
  by (induction es arbitrary: s) (simp_all add: audit_reachable.step)

text \<open>C36: the invariant of the audit collection: in every reachable state the
  keys of \<open>scannedItems\<close> are distinct, every product is stored under its own
  code, and only products of the table can be checked.\<close>

theorem audit_collection_wf:
  "audit_reachable s \<Longrightarrow>
   distinct (map fst (scannedItems s)) \<and> (\<forall>(k, p)\<in>set (scannedItems s). k = product_code p) \<and>
   checked s \<subseteq> row_id ` snd ` set (scannedItems s)"
proof -
  assume r: "audit_reachable s"
  have "checked s \<subseteq> row_id ` snd ` set (scannedItems s)"
    using r by (induction rule: audit_reachable.induct) (simp_all add: audit_init_def audit_step_checked)
  with audit_reachable_items_wf [OF r] show ?thesis by (simp add: items_wf_def)
qed

lemma audit_collection_wf_witness:
  "map fst (scannedItems (audit_run audit_init
      [Decoded ''ITEM0001'', ProductDone 0 (Fetched (RespRow kettle_row)), SelectAll True])) = [Some ''ITEM0001''] \<and>
   checked (audit_run audit_init
      [Decoded ''ITEM0001'', ProductDone 0 (Fetched (RespRow kettle_row)), SelectAll True]) = {1}"
proof -
  have r: "audit_reachable (audit_run audit_init
      [Decoded ''ITEM0001'', ProductDone 0 (Fetched (RespRow kettle_row)), SelectAll True])"
    by (rule audit_reachable_run [OF audit_reachable.init])
  have "scannedItems (audit_run audit_init
      [Decoded ''ITEM0001'', ProductDone 0 (Fetched (RespRow kettle_row)), SelectAll True]) =
        [(Some ''ITEM0001'', kettle_row)]"
    by (simp add: audit_init_def audit_handler_defs starts_with_def)
  with audit_collection_wf [OF r] show ?thesis by (simp add: audit_init_def audit_handler_defs starts_with_def)
qed

text \<open>The effect of a decoded text that passes the guard.\<close>

lemma audit_scan_new:
  "starts_with t ''ITEM'' \<Longrightarrow> Some t \<notin> fst ` set (scannedItems s) \<Longrightarrow>
   audit_scan t s = s\<lparr>audit_log := audit_log s @ [AuditSound SuccessSound, AuditFetch (''/api/product/'' @ t)],
             audit_status := AuditFetching t, scans_pending := scans_pending s @ [t]\<rparr>"
  by (simp add: audit_scan_def)

text \<open>C37: the duplicate guard only looks at the collection: from every state,
  a code that starts with \<open>ITEM\<close> and is not yet collected, decoded \<open>n\<close> times
  before its lookup completes (the scanner decodes a code in view many times a
  second), plays the sound and fetches the product \<open>n\<close> times.\<close>

theorem audit_duplicate_guard:
  assumes "starts_with t ''ITEM''" and "Some t \<notin> fst ` set (scannedItems s)"
  shows "scans_pending (audit_run s (replicate n (Decoded t))) = scans_pending s @ replicate n t \<and>
    audit_log (audit_run s (replicate n (Decoded t))) =
      audit_log s @ concat (replicate n [AuditSound SuccessSound, AuditFetch (''/api/product/'' @ t)]) \<and>
    scannedItems (audit_run s (replicate n (Decoded t))) = scannedItems s"
  using assms(2)
proof (induction n arbitrary: s)
  case (Suc n)
  from Suc.IH [of "audit_step s (Decoded t)"] Suc.prems show ?case
    by (simp add: audit_scan_new [OF assms(1) Suc.prems])
qed simp

lemma audit_duplicate_guard_witness:
  "scans_pending (audit_run audit_init (replicate 2 (Decoded ''ITEM0001''))) = [''ITEM0001'', ''ITEM0001'']"
proof -
  have "starts_with ''ITEM0001'' ''ITEM''" "Some ''ITEM0001'' \<notin> fst ` set (scannedItems audit_init)"
    by (simp_all add: starts_with_def audit_init_def)
  from audit_duplicate_guard [OF this, of 2] show ?thesis
    by (simp add: audit_init_def numeral_2_eq_2)
qed

end
