(* ===== verification/EditPage.thy ===== *)
theory EditPage
  imports Server
begin

text \<open>
  The edit page, \<open>src/public/js/edit.js\<close>: \<open>loadProductData\<close> fetches the
  product named by the page's \<open>code\<close> parameter and builds the edit form from
  it (lines 7--47); the \<open>submit\<close> handler sends the form to
  \<open>PUT /api/product/:id\<close> and redirects to the details page (lines 49--69).

  The form is built by interpolating the product's fields into HTML: a
  \<open>null\<close> field prints as \<open>null\<close>, a date input whose value is not a valid
  date (such as \<open>null\<close>) is empty, and the category select marks the option
  equal to the stored category, showing its first option when none is marked.
  The interpolated texts are taken to contain no HTML markup characters
  (\<open><\<close>, \<open>&\<close>, \<open>"\<close>), but their line breaks are followed through the
  browser: the HTML parser turns every line break into LF and drops a line
  feed right after the \<open><textarea>\<close> start tag, a text input strips line
  breaks from its value, and \<open>FormData\<close> sent by \<open>fetch\<close> is encoded as
  \<open>multipart/form-data\<close>, which turns every line break of a value into CR LF
  (the HTML standard's algorithms; multer stores the field texts as received).
\<close>

section \<open>The form\<close>

definition edit_categories :: "js_string list" where
  "edit_categories = [''Electronics'', ''Furniture'', ''Appliances'', ''Tools'', ''Other'']"

text \<open>The value of the category select (lines 35--44).\<close>

definition edit_category :: "js_string option \<Rightarrow> js_string" where
  "edit_category c =
     (case filter (\<lambda>cat. Some cat = c) edit_categories of cat # _ \<Rightarrow> cat | [] \<Rightarrow> hd edit_categories)"

text \<open>The value of a date input built with \<open>value="${v}"\<close>: the server's
  \<open>DATE_FORMAT\<close> text, or empty for \<open>null\<close>.\<close>

definition date_input :: "js_string option \<Rightarrow> js_string" where
  "date_input v = (case v of Some d \<Rightarrow> d | None \<Rightarrow> [])"

section \<open>Line breaks through the browser\<close>

text \<open>The parser's preprocessing of the HTML text: CR LF and a lone CR become LF.\<close>

fun lf_normalize :: "js_string \<Rightarrow> js_string" where
  "lf_normalize [] = []"
| "lf_normalize [c] = (if c = CHR 0x0D then [CHR 0x0A] else [c])"
| "lf_normalize (c # d # cs) =
     (if c = CHR 0x0D \<and> d = CHR 0x0A then CHR 0x0A # lf_normalize cs
      else (if c = CHR 0x0D then CHR 0x0A else c) # lf_normalize (d # cs))"

text \<open>The value of \<open><textarea>${t}</textarea>\<close> (line 32): a line feed right
  after the start tag is not part of the content.\<close>

definition textarea_value :: "js_string \<Rightarrow> js_string" where
  "textarea_value t = (case lf_normalize t of c # cs \<Rightarrow> if c = CHR 0x0A then cs else c # cs | [] \<Rightarrow> [])"

text \<open>The value of \<open><input type="text" value="${t}">\<close> (line 21): the value
  sanitization of a text input strips line breaks.\<close>

definition text_input_value :: "js_string \<Rightarrow> js_string" where
  "text_input_value t = filter (\<lambda>c. c \<noteq> CHR 0x0A \<and> c \<noteq> CHR 0x0D) (lf_normalize t)"

text \<open>A string field of the \<open>multipart/form-data\<close> body (line 57): every CR not
  followed by LF and every LF not preceded by CR becomes CR LF.\<close>

fun crlf_normalize :: "js_string \<Rightarrow> js_string" where
  "crlf_normalize [] = []"
| "crlf_normalize [c] = (if c = CHR 0x0D \<or> c = CHR 0x0A then [CHR 0x0D, CHR 0x0A] else [c])"
| "crlf_normalize (c # d # cs) =
     (if c = CHR 0x0D \<and> d = CHR 0x0A then CHR 0x0D # CHR 0x0A # crlf_normalize cs
      else if c = CHR 0x0D \<or> c = CHR 0x0A then CHR 0x0D # CHR 0x0A # crlf_normalize (d # cs)
      else c # crlf_normalize (d # cs))"

section \<open>The form as sent\<close>

text \<open>The fields the form holds once built from a product (lines 16--33), as
  the \<open>multipart/form-data\<close> body of the \<open>PUT\<close> carries them; no new invoice
  is chosen.\<close>

definition edit_form_of :: "product_row \<Rightarrow> product_form" where
  "edit_form_of r =
     \<lparr>f_name = Some (crlf_normalize (text_input_value (js_template (pname r)))),
      f_category = Some (edit_category (pcategory r)),
      f_purchase = Some (date_input (purchase_date r)), f_warranty = Some (date_input (warranty_date r)),
      f_notes = Some (crlf_normalize (textarea_value (js_or (pnotes r) []))), f_upload = None\<rparr>"

text \<open>The hidden \<open>existingInvoice\<close> field (line 19), whose value is the
  attribute's text.\<close>

definition edit_existing :: "product_row \<Rightarrow> js_string option" where
  "edit_existing r = Some (crlf_normalize (lf_normalize (js_or (invoice_path r) [])))"

section \<open>The page\<close>

datatype edit_msg =
    EditBlank
  | EditNoCode
  | EditLoadFailed js_string
  | EditUpdating
  | EditUpdated
  | EditUpdateFailed
  | EditNoConnection

datatype edit_effect = EditSound sound | EditPut nat product_form "js_string option" | EditRedirect js_string

record edit_page =
  productData :: "product_row option"
  edit_status :: edit_msg
  edit_log :: "edit_effect list"

text \<open>\<open>loadProductData\<close>, given the \<open>code\<close> parameter and how its fetch ends.\<close>

definition loadProductData :: "js_string option \<Rightarrow> fetch_result \<Rightarrow> edit_page" where
  "loadProductData code r =
     (case code of
        None \<Rightarrow> \<lparr>productData = None, edit_status = EditNoCode, edit_log = []\<rparr>
      | Some c \<Rightarrow>
          (case r of
             Fetched (RespRow p) \<Rightarrow> \<lparr>productData = Some p, edit_status = EditBlank, edit_log = []\<rparr>
           | Fetched _ \<Rightarrow>
               \<lparr>productData = None, edit_status = EditLoadFailed ''Could not fetch product data.'', edit_log = []\<rparr>
           | NetFailed m \<Rightarrow> \<lparr>productData = None, edit_status = EditLoadFailed m, edit_log = []\<rparr>))"

text \<open>The \<open>submit\<close> handler with the fields \<open>f\<close> the user leaves in the form:
  the request to the server, then the page's reaction to the answer
  (\<open>productData.id\<close> of a page that failed to load throws before the request).\<close>

definition edit_submit :: "product_form \<Rightarrow> edit_page \<Rightarrow> db_state \<Rightarrow> db_state \<times> edit_page" where
  "edit_submit f pg db =
     (case productData pg of
        None \<Rightarrow> (db, pg\<lparr>edit_status := EditUpdating\<rparr>)
      | Some p \<Rightarrow>
          (case serve db (Req (UpdateProduct (row_id p) f (edit_existing p))) of
             (db', Some RespSuccess) \<Rightarrow>
               (db', pg\<lparr>edit_status := EditUpdated,
                        edit_log := edit_log pg @ [EditPut (row_id p) f (edit_existing p), EditSound SuccessSound,
                                                   EditRedirect (''/details.html?code='' @ js_template (product_code p))]\<rparr>)
           | (db', _) \<Rightarrow>
               (db', pg\<lparr>edit_status := EditUpdateFailed,
                        edit_log := edit_log pg @ [EditPut (row_id p) f (edit_existing p)]\<rparr>)))"

section \<open>Lemmas\<close>

text \<open>The select keeps a category of its list and shows \<open>Electronics\<close>
  for any other.\<close>

lemma edit_category_cases:
  "edit_category c = (if c \<in> Some ` set edit_categories then the c else ''Electronics'')"
  by (auto simp: edit_category_def edit_categories_def)

text \<open>The two normal forms of line breaks: the multipart encoding absorbs the
  parser's, and is idempotent; a text without line breaks passes unchanged.
  A product's notes stored through a form (already CR LF) come back unchanged
  from the edit form unless they start with a line break.\<close>

lemma lf_normalize_Cons:
  "lf_normalize (c # cs) =
     (if c = CHR 0x0D \<and> cs \<noteq> [] \<and> hd cs = CHR 0x0A then CHR 0x0A # lf_normalize (tl cs)
      else (if c = CHR 0x0D then CHR 0x0A else c) # lf_normalize cs)"
  by (cases cs) auto

lemma crlf_normalize_Cons:
  "crlf_normalize (c # cs) =
     (if c = CHR 0x0D \<and> cs \<noteq> [] \<and> hd cs = CHR 0x0A then CHR 0x0D # CHR 0x0A # crlf_normalize (tl cs)
      else if c = CHR 0x0D \<or> c = CHR 0x0A then CHR 0x0D # CHR 0x0A # crlf_normalize cs
      else c # crlf_normalize cs)"
  by (cases cs) auto

lemma crlf_normalize_no_breaks:
  "CHR 0x0D \<notin> set t \<Longrightarrow> CHR 0x0A \<notin> set t \<Longrightarrow> crlf_normalize t = t"
  by (induction t rule: crlf_normalize.induct) auto

lemma crlf_lf_normalize: "crlf_normalize (lf_normalize t) = crlf_normalize t"
proof (induction t rule: lf_normalize.induct)
  case (3 c d cs)
  then show ?case by (cases "lf_normalize cs") (auto simp: crlf_normalize_Cons lf_normalize_Cons)
qed auto

lemma crlf_normalize_idem: "crlf_normalize (crlf_normalize t) = crlf_normalize t"
  by (induction t rule: crlf_normalize.induct) (auto simp: crlf_normalize_Cons)

lemma crlf_normalize_hd:
  "c \<noteq> CHR 0x0D \<Longrightarrow> c \<noteq> CHR 0x0A \<Longrightarrow> crlf_normalize (c # cs) = c # crlf_normalize cs"
  by (simp add: crlf_normalize_Cons)

lemma edit_notes_roundtrip:
  assumes "c \<noteq> CHR 0x0D" "c \<noteq> CHR 0x0A"
  shows "crlf_normalize (textarea_value (crlf_normalize (c # cs))) = crlf_normalize (c # cs)"
proof -
  have "lf_normalize (crlf_normalize (c # cs)) = c # lf_normalize (crlf_normalize cs)"
    using assms by (simp add: crlf_normalize_hd lf_normalize_Cons)
  then have "textarea_value (crlf_normalize (c # cs)) = lf_normalize (crlf_normalize (c # cs))"
    using assms by (simp add: textarea_value_def)
  then show ?thesis by (simp add: crlf_lf_normalize crlf_normalize_idem)
qed

end
