(* ===== verification/ProductPages.thy ===== *)
theory ProductPages
  imports Server
begin

text \<open>
  The pages that list and look up products over the server's endpoints:
  the lookup of \<open>src/public/js/find.js\<close>, the product list of \<open>all.js\<close>
  with its delete button and export/print guards, the trash of \<open>trash.js\<close>
  with restore and permanent delete, the counts of \<open>dashboard.js\<close>, and the
  sticker sheets of \<open>print-stickers.js\<close>.  Each handler is a function of the
  page state and of how its \<open>fetch\<close> ends; where a handler awaits a request
  and then acts on the page, the composition with the server's endpoint
  (\<open>serve\<close>) is written out.  The rendered HTML is not modelled: a table is
  the list of the ids of its rows.
\<close>

section \<open>Effects\<close>

datatype page_effect =
    PageSound sound
  | PageRequest js_string
  | PageRedirect js_string
  | PageAlert js_string
  | PageOpen js_string

section \<open>The lookup page (find.js)\<close>

text \<open>\<open>value.trim().toUpperCase()\<close> of the code field.\<close>

definition find_code :: "js_string \<Rightarrow> js_string" where
  "find_code v = map ascii_upper (js_trim v)"

datatype find_msg = FindEnterCode | FindRedirecting | FindNotFound js_string | FindNoConnection

text \<open>\<open>lookupProduct\<close> (lines 1--27), given how the fetch of each code ends.\<close>

definition lookupProduct :: "js_string \<Rightarrow> (js_string \<Rightarrow> fetch_result) \<Rightarrow> find_msg \<times> page_effect list" where
  "lookupProduct v fetch =
     (let code = find_code v; req = PageRequest (''/api/product/'' @ code) in
      if code = [] then (FindEnterCode, [])
      else case fetch code of
        Fetched (RespRow item) \<Rightarrow>
          (FindRedirecting, [req, PageSound SuccessSound,
                             PageRedirect (''/details.html?code='' @ js_template (product_code item))])
      | Fetched _ \<Rightarrow> (FindNotFound code, [req, PageSound ErrorSound])
      | NetFailed _ \<Rightarrow> (FindNoConnection, [req, PageSound ErrorSound]))"

section \<open>The product list (all.js)\<close>

datatype list_msg = ListShown | ListEmpty | ListLoadError

record list_page =
  allProductsData :: "product_row list"
  shown_rows :: "nat list"
  buttons_enabled :: bool
  list_status :: list_msg

definition list_init :: list_page where
  "list_init = \<lparr>allProductsData = [], shown_rows = [], buttons_enabled = False, list_status = ListShown\<rparr>"

text \<open>\<open>fetchProducts\<close> (lines 4--55): a response that is not a list of rows
  fails in \<open>forEach\<close> and shows the error.\<close>

definition fetchProducts :: "fetch_result \<Rightarrow> list_page \<Rightarrow> list_page" where
  "fetchProducts r pg =
     (case r of
        Fetched (RespRows ps) \<Rightarrow>
          if ps = [] then pg\<lparr>allProductsData := [], buttons_enabled := False, list_status := ListEmpty\<rparr>
          else pg\<lparr>allProductsData := ps, shown_rows := map row_id ps, buttons_enabled := True,
                  list_status := ListShown\<rparr>
      | _ \<Rightarrow> pg\<lparr>list_status := ListLoadError\<rparr>)"

text \<open>The delete button of a row (lines 35--40, 57--66): after \<open>confirm\<close>, the
  soft delete, the row's removal and a new \<open>fetchProducts\<close>.\<close>

definition all_delete :: "nat \<Rightarrow> bool \<Rightarrow> list_page \<times> db_state \<Rightarrow> list_page \<times> db_state" where
  "all_delete i ok st =
     (let (pg, db) = st in
      if \<not> ok then (pg, db)
      else
        (let db' = fst (serve db (Req (SoftDelete i)));
             pg' = pg\<lparr>shown_rows := filter (\<lambda>j. j \<noteq> i) (shown_rows pg)\<rparr> in
         (fetchProducts (Fetched (list_products db')) pg', db')))"

text \<open>\<open>exportToExcel\<close> and \<open>printStickers\<close> (lines 69--93).\<close>

definition all_export :: "list_page \<Rightarrow> page_effect list" where
  "all_export pg = (if allProductsData pg = [] then [PageAlert ''No products to export.'']
                    else [PageOpen ''IssacsHomeInventory.xlsx''])"

definition all_print :: "list_page \<Rightarrow> page_effect list" where
  "all_print pg = (if allProductsData pg = [] then [PageAlert ''No products to print.'']
                   else [PageOpen ''/print-stickers.html''])"

section \<open>The trash (trash.js)\<close>

text \<open>\<open>fetchTrashedItems\<close> (lines 4--48): the ids of the rows shown, or the
  error.\<close>

definition fetchTrashedItems :: "fetch_result \<Rightarrow> nat list option" where
  "fetchTrashedItems r = (case r of Fetched (RespRows ps) \<Rightarrow> Some (map row_id ps) | _ \<Rightarrow> None)"

datatype trash_action = RestoreItem | DeleteForever

text \<open>A click on a row's button (lines 51--69): after \<open>confirm\<close>, the request
  is awaited and the row removed, whatever the server answers.\<close>

definition trash_click :: "trash_action \<Rightarrow> nat \<Rightarrow> bool \<Rightarrow> nat list \<times> db_state \<Rightarrow> nat list \<times> db_state" where
  "trash_click a i ok st =
     (let (shown, db) = st in
      if \<not> ok then (shown, db)
      else (filter (\<lambda>j. j \<noteq> i) shown,
            fst (serve db (Req (case a of RestoreItem \<Rightarrow> Restore i | DeleteForever \<Rightarrow> Purge i)))))"

section \<open>The dashboard (dashboard.js)\<close>

text \<open>The three counts shown (lines 7--21): total, expiring soon and in the
  trash, or three dashes when the response is not ok or the fetch fails.\<close>

definition dashboard_view :: "fetch_result \<Rightarrow> js_string \<times> js_string \<times> js_string" where
  "dashboard_view r =
     (case r of Fetched (RespStats t d e) \<Rightarrow> (nat_to_str t, nat_to_str e, nat_to_str d)
      | _ \<Rightarrow> (''-'', ''-'', ''-''))"

section \<open>Sticker sheets (print-stickers.js)\<close>

text \<open>The loop of lines 15--51: a new sheet each time the count of stickers
  placed is a multiple of 32.\<close>

definition sticker_step :: "'a \<Rightarrow> 'a list list \<times> nat \<Rightarrow> 'a list list \<times> nat" where
  "sticker_step p st =
     (let (sheets, n) = st in
      (if n mod 32 = 0 then sheets @ [[p]] else butlast sheets @ [last sheets @ [p]], Suc n))"

definition sticker_sheets :: "'a list \<Rightarrow> 'a list list" where
  "sticker_sheets ps = fst (fold sticker_step ps ([], 0))"

text \<open>The reference layout: consecutive blocks of 32.\<close>

fun chunks32 :: "'a list \<Rightarrow> 'a list list" where
  "chunks32 [] = []"
| "chunks32 ps = take 32 ps # chunks32 (drop 32 ps)"

section \<open>Sticker sheets: the loop lays out blocks of 32\<close>

lemma chunks32_Cons: "xs \<noteq> [] \<Longrightarrow> chunks32 xs = take 32 xs # chunks32 (drop 32 xs)"
  by (cases xs) simp_all

lemma chunks32_snoc_step:
  assumes ne: "ys \<noteq> []"
    and IH: "chunks32 (drop 32 ys @ [p]) =
     (if length (drop 32 ys) mod 32 = 0 then chunks32 (drop 32 ys) @ [[p]]
      else butlast (chunks32 (drop 32 ys)) @ [last (chunks32 (drop 32 ys)) @ [p]])"
  shows "chunks32 (ys @ [p]) =
     (if length ys mod 32 = 0 then chunks32 ys @ [[p]] else butlast (chunks32 ys) @ [last (chunks32 ys) @ [p]])"
proof -
  have lhs: "chunks32 (ys @ [p]) = take 32 (ys @ [p]) # chunks32 (drop 32 (ys @ [p]))"
    by (rule chunks32_Cons) simp
  have rhs: "chunks32 ys = take 32 ys # chunks32 (drop 32 ys)" by (rule chunks32_Cons [OF ne])
  show ?thesis
  proof (cases "length ys < 32")
    case True
    then have "drop 32 ys = []" "drop 32 (ys @ [p]) = []" "take 32 (ys @ [p]) = ys @ [p]" "take 32 ys = ys"
      by simp_all
    with True ne show ?thesis by (simp add: lhs rhs del: chunks32.simps(2))
  next
    case False
    then have d: "drop 32 (ys @ [p]) = drop 32 ys @ [p]" "take 32 (ys @ [p]) = take 32 ys" by simp_all
    have m: "length (drop 32 ys) mod 32 = length ys mod 32"
      using False by (simp add: le_mod_geq)
    show ?thesis
    proof (cases "drop 32 ys = []")
      case True
      with False have "length ys = 32" by simp
      with True IH show ?thesis by (simp add: lhs rhs d del: chunks32.simps(2))
    next
      case dne: False
      then have "chunks32 (drop 32 ys) \<noteq> []" by (simp add: chunks32_Cons)
      then show ?thesis using IH m False by (simp add: lhs rhs d del: chunks32.simps(2))
    qed
  qed
qed

lemma chunks32_snoc:
  "chunks32 (xs @ [p]) =
     (if length xs mod 32 = 0 then chunks32 xs @ [[p]] else butlast (chunks32 xs) @ [last (chunks32 xs) @ [p]])"
proof (induction xs rule: chunks32.induct)
  case (2 x xs)
  show ?case by (rule chunks32_snoc_step [OF _ 2]) simp
qed simp

lemma fold_sticker_step:
  "fold sticker_step ps (chunks32 xs, length xs) = (chunks32 (xs @ ps), length (xs @ ps))"
proof (induction ps arbitrary: xs)
  case (Cons p ps)
  have "sticker_step p (chunks32 xs, length xs) = (chunks32 (xs @ [p]), length (xs @ [p]))"
    by (simp add: sticker_step_def chunks32_snoc)
  then show ?case using Cons.IH [of "xs @ [p]"] by simp
qed simp

lemma sticker_sheets_chunks: "sticker_sheets ps = chunks32 ps"
  using fold_sticker_step [of ps "[]"] by (simp add: sticker_sheets_def)

lemma chunks32_concat: "concat (chunks32 ps) = ps"
  by (induction ps rule: chunks32.induct) simp_all

lemma chunks32_sizes: "q \<in> set (chunks32 ps) \<Longrightarrow> q \<noteq> [] \<and> length q \<le> 32"
  by (induction ps rule: chunks32.induct) auto


lemma chunks32_length: "length (chunks32 ps) = (length ps + 31) div 32"
  by (induction ps rule: chunks32.induct) simp_all

text \<open>C24: the sheet loop of print-stickers.js computes the blocks of 32:
  it equals \<^const>\<open>chunks32\<close>, so the sheets hold every sticker once, in order,
  on \<open>ceil(n/32)\<close> sheets of 1 to 32 stickers each.\<close>

theorem sticker_sheets_layout:
  "sticker_sheets ps = chunks32 ps \<and> concat (sticker_sheets ps) = ps \<and> length (sticker_sheets ps) = (length ps + 31) div 32 \<and>
   (\<forall>q\<in>set (sticker_sheets ps). q \<noteq> [] \<and> length q \<le> 32)"
  by (simp add: sticker_sheets_chunks chunks32_concat chunks32_length chunks32_sizes)

lemma sticker_sheets_layout_witness:
  "length (sticker_sheets [0..<40::nat]) = 2 \<and> concat (sticker_sheets [0..<40::nat]) = [0..<40]"
proof -
  have "concat (sticker_sheets xs) = xs \<and> length (sticker_sheets xs) = (length xs + 31) div 32" for xs :: "nat list"
    using sticker_sheets_layout [of xs] by blast
  from this [of "[0..<40]"] show ?thesis by simp
qed

section \<open>Lookup of a stored code\<close>

text \<open>A completed, undeleted row is found by its code; the lookup page
  finds it whatever the case and surrounding white space of the typed code.\<close>

lemma get_product_completed:
  assumes "db_wf db" "r \<in> set (rows db)" "row_id r \<notin> set (adds_pending db)" "\<not> is_deleted r"
  shows "get_product (code_of_id (row_id r)) db = RespRow r"
proof -
  have d: "distinct (map row_id (rows db))" using assms(1) by (simp add: db_wf_def strict_sorted_iff)
  have same: "x = r" if "x \<in> set (rows db)" "row_id x = row_id r" for x
    using d that assms(2) by (metis distinct_map inj_onD)
  have codes: "\<forall>x\<in>set (rows db). product_code x =
      (if row_id x \<in> set (adds_pending db) then None else Some (code_of_id (row_id x)))"
    using assms(1) by (simp add: db_wf_def)
  have "(product_code x = Some (code_of_id (row_id r)) \<and> \<not> is_deleted x) = (row_id x = row_id r)"
    if x: "x \<in> set (rows db)" for x
  proof
    assume "product_code x = Some (code_of_id (row_id r)) \<and> \<not> is_deleted x"
    with codes x show "row_id x = row_id r" by (auto simp: code_of_id_inj split: if_splits)
  next
    assume "row_id x = row_id r"
    with same x have "x = r" by blast
    with codes assms(2-4) show "product_code x = Some (code_of_id (row_id r)) \<and> \<not> is_deleted x" by simp
  qed
  then have "filter (\<lambda>x. product_code x = Some (code_of_id (row_id r)) \<and> \<not> is_deleted x) (rows db) =
        filter (\<lambda>x. row_id x = row_id r) (rows db)"
    by (rule filter_cong [OF refl])
  also have "\<dots> = [r]" by (rule filter_key_unique [OF d assms(2)])
  finally show ?thesis by (simp add: get_product_def)
qed

text \<open>C2: the lookup page finds every stored product by its code, whatever the
  case and the white space around the typed text: in a reachable table, for a
  live product whose add has completed, the page requests, plays the success
  sound and redirects to that product's details exactly when the typed text,
  trimmed and upper-cased, is the product's code.\<close>

theorem find_lookup_redirects:
  assumes "server_reachable db" "r \<in> set (rows db)" "row_id r \<notin> set (adds_pending db)" "\<not> is_deleted r"
  shows "lookupProduct v (\<lambda>c. Fetched (get_product c db)) =
     (FindRedirecting, [PageRequest (''/api/product/'' @ code_of_id (row_id r)), PageSound SuccessSound,
                        PageRedirect (''/details.html?code='' @ code_of_id (row_id r))])
     \<longleftrightarrow> map ascii_upper (js_trim v) = code_of_id (row_id r)"
proof
  assume v: "map ascii_upper (js_trim v) = code_of_id (row_id r)"
  have wf: "db_wf db" using assms(1) by (rule server_reachable_wf)
  have "product_code r = Some (code_of_id (row_id r))" using wf assms(2,3) by (simp add: db_wf_def)
  moreover have "code_of_id (row_id r) \<noteq> []" by (simp add: code_of_id_def)
  ultimately show "lookupProduct v (\<lambda>c. Fetched (get_product c db)) =
     (FindRedirecting, [PageRequest (''/api/product/'' @ code_of_id (row_id r)), PageSound SuccessSound,
                        PageRedirect (''/details.html?code='' @ code_of_id (row_id r))])"
    using get_product_completed [OF wf assms(2-4)] v
    by (simp add: lookupProduct_def find_code_def js_template_def Let_def)
next
  assume "lookupProduct v (\<lambda>c. Fetched (get_product c db)) =
     (FindRedirecting, [PageRequest (''/api/product/'' @ code_of_id (row_id r)), PageSound SuccessSound,
                        PageRedirect (''/details.html?code='' @ code_of_id (row_id r))])"
  then show "map ascii_upper (js_trim v) = code_of_id (row_id r)"
    by (auto simp: lookupProduct_def find_code_def Let_def split: if_splits fetch_result.splits response.splits)
qed

lemma find_lookup_redirects_witness:
  "fst (lookupProduct '' item0001 '' (\<lambda>c. Fetched (get_product c
      (fst (add_set_code 0 (add_insert kettle_form (db_init ''Active''))))))) = FindRedirecting"
proof -
  let ?db = "fst (add_set_code 0 (add_insert kettle_form (db_init ''Active'')))"
  have c: "code_of_id (Suc 0) = ''ITEM0001''" by code_simp
  have "server_reachable (fst (serve (fst (serve (db_init ''Active'') (Req (AddProduct kettle_form)))) (AddCodeStep 0)))"
    by (intro server_reachable.step server_reachable.init)
  then have db: "server_reachable ?db" by simp
  have r: "hd (rows ?db) \<in> set (rows ?db)" "row_id (hd (rows ?db)) \<notin> set (adds_pending ?db)"
    "\<not> is_deleted (hd (rows ?db))" "row_id (hd (rows ?db)) = 1"
    by (simp_all add: add_set_code_def add_insert_def update_where_def db_init_def)
  have v: "map ascii_upper (js_trim '' item0001 '') = ''ITEM0001''" by code_simp
  from find_lookup_redirects [OF db r(1-3), of "'' item0001 ''"] v r(4) c show ?thesis by simp
qed

section \<open>Delete from the list, restore from the trash\<close>

lemma all_delete_unfold:
  "fst (all_delete i True (pg, db)) =
        fetchProducts (Fetched (list_products (soft_delete i db))) (pg\<lparr>shown_rows := filter (\<lambda>j. j \<noteq> i) (shown_rows pg)\<rparr>)"
  unfolding all_delete_def by (simp only: Let_def fst_conv serve.simps split prod.case if_True not_True_eq_False if_False)


lemma soft_delete_hides_list:
  "i \<notin> set (map row_id (filter (\<lambda>r. \<not> is_deleted r)
     (map (\<lambda>r. if row_id r = i then r\<lparr>is_deleted := True\<rparr> else r) xs)))"
  by (induction xs) simp_all


lemma soft_delete_rows:
  "rows (soft_delete i db) = map (\<lambda>r. if row_id r = i then r\<lparr>is_deleted := True\<rparr> else r) (rows db)"
  by (simp add: soft_delete_def update_where_def)

lemma all_delete_hides:
  "i \<notin> set (shown_rows (fst (all_delete i True (pg, db))))"
proof -
  let ?ps = "rev (filter (\<lambda>r. \<not> is_deleted r) (rows (soft_delete i db)))"
  have del: "i \<notin> set (map row_id ?ps)"
    using soft_delete_hides_list [of i "rows db"] by (simp only: soft_delete_rows set_map set_rev not_False_eq_True)
  have "shown_rows (fst (all_delete i True (pg, db))) =
        (if ?ps = [] then filter (\<lambda>j. j \<noteq> i) (shown_rows pg) else map row_id ?ps)"
    unfolding all_delete_unfold fetchProducts_def list_products_def
    by (simp only: fetch_result.case response.case if_distrib [of shown_rows]) simp
  with del show ?thesis by simp
qed

lemma trash_restore_unfold:
  "snd (trash_click RestoreItem i True (shown, db)) = restore i db"
  unfolding trash_click_def by (simp only: Let_def snd_conv serve.simps split prod.case if_True
    not_True_eq_False if_False trash_action.case fst_conv)

lemma all_delete_db: "snd (all_delete i True (pg, db)) = soft_delete i db"
  unfolding all_delete_def by (simp only: Let_def snd_conv fst_conv serve.simps split prod.case if_True
    not_True_eq_False if_False)

lemma delete_then_restore:
  assumes "\<forall>r\<in>set (rows db). row_id r = i \<longrightarrow> \<not> is_deleted r"
  shows "i \<notin> set (shown_rows (fst (all_delete i True (pg, db)))) \<and>
     snd (trash_click RestoreItem i True (shown, snd (all_delete i True (pg, db)))) = db"
  using all_delete_hides [of i pg db] restore_soft_delete [OF assms]
  by (simp only: trash_restore_unfold all_delete_db simp_thms)

end
