(* ===== verification/ViewPages.thy ===== *)
theory ViewPages
  imports ProductPages AuditPage
begin

text \<open>
  The read-only pages: the warranty watch (\<open>src/public/js/warranty.js\<close>),
  the product details (\<open>src/public/js/details.js\<close>), the printable audit
  report (\<open>src/public/js/print-audit.js\<close>) and the legacy form and lookup of
  \<open>src/script.js\<close>.  Each page is a function from what its fetches return
  to what it shows; a template literal shows a \<open>null\<close> field as the text
  \<open>null\<close> (\<^const>\<open>js_template\<close>).
\<close>

section \<open>Warranty watch (warranty.js)\<close>

record warranty_row =
  w_code :: js_string
  w_name :: js_string
  w_status :: js_string
  w_expires :: js_string
  w_href :: js_string

datatype warranty_view = WarrantyEmpty | WarrantyTable "warranty_row list" | WarrantyError js_string

text \<open>One row of the table (lines 28--37) and the target of a click on it
  (lines 42--46), read from the row's \<open>data-code\<close>.\<close>

definition warranty_row_of :: "product_row \<Rightarrow> warranty_row" where
  "warranty_row_of p =
     \<lparr>w_code = js_template (product_code p), w_name = js_template (pname p), w_status = pstatus p,
      w_expires = js_template (warranty_date p),
      w_href = ''/details.html?code='' @ js_template (product_code p)\<rparr>"

text \<open>Lines 4--51: the list returned by \<open>/api/products/expiring-soon\<close>, a
  message when it is empty, the error's message when the response is not ok or
  the fetch fails.\<close>

definition warranty_page :: "fetch_result \<Rightarrow> warranty_view" where
  "warranty_page r =
     (case r of
        Fetched (RespRows ps) \<Rightarrow> if ps = [] then WarrantyEmpty else WarrantyTable (map warranty_row_of ps)
      | Fetched _ \<Rightarrow> WarrantyError ''Failed to fetch data from server.''
      | NetFailed m \<Rightarrow> WarrantyError m)"

section \<open>Product details (details.js)\<close>

record detail_view =
  d_title :: js_string
  d_category :: js_string
  d_status :: js_string
  d_purchase :: js_string
  d_warranty :: js_string
  d_notes :: js_string
  d_invoice :: "js_string option"
  d_edit :: js_string
  d_code :: js_string
  d_qr :: "js_string option"

datatype details_view = DetailsError js_string | DetailsShown detail_view

text \<open>Lines 17--42 for a found item: \<open>textContent = null\<close> shows nothing, a
  \<open>null\<close> or empty invoice path is falsy (\<^const>\<open>or_null\<close>) and shows
  \<open>Not uploaded\<close> (\<^const>\<open>None\<close>), the QR code encodes the product code.\<close>

definition detail_of :: "product_row \<Rightarrow> detail_view" where
  "detail_of item =
     \<lparr>d_title = (case pname item of Some n \<Rightarrow> n | None \<Rightarrow> []),
      d_category = js_template (pcategory item), d_status = pstatus item,
      d_purchase = js_or (purchase_date item) ''N/A'', d_warranty = js_or (warranty_date item) ''N/A'',
      d_notes = js_or (pnotes item) ''None'',
      d_invoice = map_option (\<lambda>p. ''/'' @ p) (or_null (invoice_path item)),
      d_edit = ''/edit.html?code='' @ js_template (product_code item),
      d_code = js_template (product_code item), d_qr = product_code item\<rparr>"

text \<open>The whole handler (lines 1--48), given the \<open>code\<close> query parameter
  (\<^const>\<open>None\<close> when absent) and how the fetch of \<open>/api/product/code\<close> ends; the
  title reads \<open>Error\<close> in both error branches.\<close>

definition details_page :: "js_string option \<Rightarrow> (js_string \<Rightarrow> fetch_result) \<Rightarrow> details_view" where
  "details_page code fetch =
     (case code of
        None \<Rightarrow> DetailsError ''No product code provided.''
      | Some c \<Rightarrow>
          if c = [] then DetailsError ''No product code provided.''
          else (case fetch c of
                  Fetched (RespRow item) \<Rightarrow> DetailsShown (detail_of item)
                | Fetched _ \<Rightarrow> DetailsError ''Product not found''
                | NetFailed m \<Rightarrow> DetailsError m))"

section \<open>Printable audit report (print-audit.js)\<close>

record report_row =
  rp_code :: js_string
  rp_name :: js_string
  rp_category :: js_string
  rp_status :: js_string

datatype audit_report = NoItemsToPrint | AuditReport js_string "report_row list"

definition report_row_of :: "product_row \<Rightarrow> report_row" where
  "report_row_of item =
     \<lparr>rp_code = js_template (product_code item), rp_name = js_template (pname item),
      rp_category = js_template (pcategory item), rp_status = pstatus item\<rparr>"

text \<open>Lines 1--39, given the list the audit page stored under
  \<open>auditListForPrinting\<close> (\<^const>\<open>None\<close> when the key is absent, which
  \<open>JSON.parse\<close> reads as \<open>null\<close>) and the date \<open>toLocaleDateString\<close> shows.\<close>

definition print_audit_page :: "js_string \<Rightarrow> product_row list option \<Rightarrow> audit_report" where
  "print_audit_page today items =
     (case items of
        None \<Rightarrow> NoItemsToPrint
      | Some is \<Rightarrow> if is = [] then NoItemsToPrint else AuditReport today (map report_row_of is))"

section \<open>Legacy form and lookup (script.js)\<close>

datatype legacy_effect = Beep | ResetForm | LegacyFetch js_string

datatype legacy_submit_msg = LegacyAdded js_string | LegacyAddError js_string | LegacyNoServer

text \<open>The submit handler (lines 10--35): \<open>{success: true, code}\<close> is the
  server's \<^const>\<open>RespCode\<close>; any other JSON body shows its \<open>error\<close> field
  (\<open>undefined\<close> when it has none).\<close>

definition legacy_submit :: "fetch_result \<Rightarrow> legacy_submit_msg \<times> legacy_effect list" where
  "legacy_submit r =
     (case r of
        Fetched (RespCode c) \<Rightarrow> (LegacyAdded c, [Beep, ResetForm])
      | Fetched (RespError _ m) \<Rightarrow> (LegacyAddError m, [])
      | Fetched _ \<Rightarrow> (LegacyAddError ''undefined'', [])
      | NetFailed _ \<Rightarrow> (LegacyNoServer, []))"

record legacy_item =
  l_name :: js_string
  l_code :: js_string
  l_category :: js_string
  l_purchase :: "js_string option"
  l_warranty :: "js_string option"
  l_notes :: js_string
  l_invoice :: "js_string option"

datatype legacy_lookup_msg =
    LegacyEnterCode | LegacyFound legacy_item | LegacyNotFound js_string | LegacyLookupNoServer

text \<open>A truthy date (\<^const>\<open>or_null\<close>) is shown through \<open>toLocaleDateString\<close>
  (kept here as the date it formats), a falsy one as \<open>N/A\<close>.\<close>

definition legacy_item_of :: "product_row \<Rightarrow> legacy_item" where
  "legacy_item_of item =
     \<lparr>l_name = js_template (pname item), l_code = js_template (product_code item),
      l_category = js_template (pcategory item), l_purchase = or_null (purchase_date item),
      l_warranty = or_null (warranty_date item), l_notes = js_or (pnotes item) ''None'',
      l_invoice = map_option (\<lambda>p. ''/'' @ p) (or_null (invoice_path item))\<rparr>"

text \<open>\<open>lookup\<close> (lines 38--67), given how the fetch of each code ends.\<close>

definition legacy_lookup :: "js_string \<Rightarrow> (js_string \<Rightarrow> fetch_result) \<Rightarrow> legacy_lookup_msg \<times> legacy_effect list" where
  "legacy_lookup v fetch =
     (let code = find_code v; req = LegacyFetch (''/api/product/'' @ code) in
      if code = [] then (LegacyEnterCode, [])
      else case fetch code of
        Fetched (RespRow item) \<Rightarrow> (LegacyFound (legacy_item_of item), [req, Beep])
      | Fetched _ \<Rightarrow> (LegacyNotFound code, [req])
      | NetFailed _ \<Rightarrow> (LegacyLookupNoServer, [req]))"

text \<open>A product added with its warranty in the window of the examples.\<close>

abbreviation lamp_form :: product_form where
  "lamp_form \<equiv> \<lparr>f_name = Some ''Lamp'', f_category = Some ''Electronics'', f_purchase = Some ''2025-11-20'',
     f_warranty = Some ''2026-11-20'', f_notes = None, f_upload = None\<rparr>"

section \<open>The warranty watch opens the details of its rows\<close>

text \<open>C20: the warranty watch and the details page agree: in a reachable
  table, a row of the expiring-soon list whose add has completed is shown in
  the watch's table, its link carries the row's generated code, and the
  details page opened with that code shows that very row.\<close>

theorem warranty_row_opens_details:
  assumes "server_reachable db" and "p \<in> set (expiring_rows w db)" and "row_id p \<notin> set (adds_pending db)"
  shows "(\<exists>ws. warranty_page (Fetched (RespRows (expiring_rows w db))) = WarrantyTable ws \<and>
            warranty_row_of p \<in> set ws) \<and>
         w_href (warranty_row_of p) = ''/details.html?code='' @ code_of_id (row_id p) \<and>
         details_page (Some (code_of_id (row_id p))) (\<lambda>c. Fetched (get_product c db)) = DetailsShown (detail_of p)"
proof -
  from expiring_rows_live [OF assms(2)] have p: "p \<in> set (rows db)" "\<not> is_deleted p" by simp_all
  have wf: "db_wf db" using assms(1) by (rule server_reachable_wf)
  have code: "product_code p = Some (code_of_id (row_id p))" by (rule completed_code [OF assms(1) p(1) assms(3)])
  have get: "get_product (code_of_id (row_id p)) db = RespRow p"
    by (rule get_product_completed [OF wf p(1) assms(3) p(2)])
  have ne: "code_of_id (row_id p) \<noteq> []" by (simp add: code_of_id_def)
  have "expiring_rows w db \<noteq> []" using assms(2) by auto
  then have "\<exists>ws. warranty_page (Fetched (RespRows (expiring_rows w db))) = WarrantyTable ws \<and>
            warranty_row_of p \<in> set ws" using assms(2) by (simp add: warranty_page_def)
  then show ?thesis using code get ne
    by (simp add: warranty_row_of_def details_page_def js_template_def)
qed

lemma warranty_row_opens_details_witness:
  "details_page (Some ''ITEM0001'') (\<lambda>c. Fetched (get_product c
      (fst (add_set_code 0 (add_insert lamp_form (db_init ''Active''))))))
   = DetailsShown (detail_of (hd (rows (fst (add_set_code 0 (add_insert lamp_form (db_init ''Active'')))))))"
proof -
  let ?db = "fst (add_set_code 0 (add_insert lamp_form (db_init ''Active'')))"
  have c: "code_of_id 1 = ''ITEM0001''" "code_of_id (Suc 0) = ''ITEM0001''" by code_simp+
  have "server_reachable (fst (serve (fst (serve (db_init ''Active'') (Req (AddProduct lamp_form)))) (AddCodeStep 0)))"
    by (intro server_reachable.step server_reachable.init)
  then have db: "server_reachable ?db" by simp
  have rows: "rows ?db = [\<lparr>row_id = 1, product_code = Some ''ITEM0001'', pname = Some ''Lamp'',
       pcategory = Some ''Electronics'', purchase_date = Some ''2025-11-20'', warranty_date = Some ''2026-11-20'',
       invoice_path = Some [], pnotes = None, pstatus = ''Active'', is_deleted = False\<rparr>]"
    "adds_pending ?db = []"
    by (simp_all add: add_set_code_def add_insert_def update_where_def db_init_def or_null_def c)
  have win: "in_window (''2026-11-09'', ''2026-12-09'') (Some ''2026-11-20'')"
    by (simp add: in_window_def)
  have "hd (rows ?db) \<in> set (expiring_rows (''2026-11-09'', ''2026-12-09'') ?db)"
    using win by (simp add: rows expiring_rows_def)
  from warranty_row_opens_details [OF db this] show ?thesis by (simp add: rows c)
qed

section \<open>Properties\<close>

text \<open>The legacy lookup of script.js and the lookup page of find.js agree on
  every input: one finds an item exactly when the other redirects to it, and
  both report the same code as not found.\<close>

lemma legacy_lookup_agrees_find:
  "(\<exists>i. fst (legacy_lookup v f) = LegacyFound i) \<longleftrightarrow> fst (lookupProduct v f) = FindRedirecting" and
  "fst (legacy_lookup v f) = LegacyNotFound c \<longleftrightarrow> fst (lookupProduct v f) = FindNotFound c"
  by (simp_all add: legacy_lookup_def lookupProduct_def Let_def split: fetch_result.split response.split)

text \<open>The legacy form shows the code the server generated, beeps and resets.\<close>

lemma legacy_submit_after_add:
  "snd (serve db (AddCodeStep n)) = Some r \<Longrightarrow>
   legacy_submit (Fetched r) = (LegacyAdded (code_of_id (adds_pending db ! n)), [Beep, ResetForm])"
  by (auto simp: add_set_code_def legacy_submit_def Let_def split: if_splits)

text \<open>The printable report lists the collected products of the audit page in
  collection order, each under the code it was collected by.\<close>

lemma audit_print_report:
  assumes "audit_reachable s" and "scannedItems s \<noteq> []"
  shows "audit_log (click_print s) = audit_log s @ [PrintList (map snd (scannedItems s))] \<and>
    print_audit_page d (Some (map snd (scannedItems s))) =
      AuditReport d (map (\<lambda>(k, p). report_row_of p) (scannedItems s)) \<and>
    map (rp_code \<circ> report_row_of \<circ> snd) (scannedItems s) = map (js_template \<circ> fst) (scannedItems s)"
proof -
  have wf: "items_wf (scannedItems s)" using assms(1) by (rule audit_reachable_items_wf)
  then have "\<forall>(k, p)\<in>set (scannedItems s). k = product_code p" by (simp add: items_wf_def)
  then have "map (rp_code \<circ> report_row_of \<circ> snd) (scannedItems s) = map (js_template \<circ> fst) (scannedItems s)"
    by (auto simp: report_row_of_def)
  moreover have "map report_row_of (map snd (scannedItems s)) = map (\<lambda>(k, p). report_row_of p) (scannedItems s)"
    by (auto simp: split_def)
  ultimately show ?thesis using assms(2) by (simp add: click_print_def print_audit_page_def)
qed
end
