(* ===== verification/Spec2Isabelle.thy ===== *)
theory Spec2Isabelle
  imports ScanController BarcodeScanner AuditPage EditPage ProductPages ViewPages
begin

text \<open>
  \<^bold>\<open>A verification model of issacs-inventory-app.\<close>

  The application is an Express server (\<open>src/server.js\<close>) over a MySQL table
  of products, and a set of browser pages (\<open>src/public/js/*.js\<close>).  The part
  with engineering content is the scan page (\<open>scan.js\<close>): a QR scanner and an
  OCR path that crops a camera frame, binarises it with OpenCV, runs Tesseract
  twice (standard, then colour-inverted) and extracts a product code
  \<open>ITEM\<close> followed by digits from the recognised text.

  \<^bold>\<open>Theories and what they model.\<close>
  \<^item> \<open>Prelude\<close>: ASCII character classes (\<open>is_digit\<close>, \<open>is_alnum\<close>,
    \<open>ascii_upper\<close>) and the string predicates \<open>startsWith\<close>/\<open>includes\<close>; the
    named fact collections \<open>eval_model\<close> (definitions to unfold on concrete
    inputs) and \<open>char_class\<close>.
  \<^item> \<open>CodeExtractor\<close>: \<open>findProductCode\<close> (scan.js 164--168).  The regular
    expression is written out: \<open>clean_text\<close> is the \<open>replace\<close>, \<open>match_at\<close> one
    attempt of the case-insensitive pattern, \<open>first_match\<close> the leftmost match.
    Claims C1, C3, C4: the result is exactly the upper-cased leftmost,
    longest occurrence, codes round-trip and case does not matter; lemmas
    check the specification's examples and show that a text without digits
    yields no code.
  \<^item> \<open>Imaging\<close>: \<open>preprocessImage\<close> (scan.js 118--131) and the image each OCR
    attempt receives (146--151).  Canvases and OpenCV matrices are records of
    width, height and a pixel list of \<open>8 word\<close> channels; the grey conversion is
    OpenCV's fixed-point formula, the threshold OpenCV's table.  The browser's
    \<open>drawImage\<close> resampling and OpenCV's Gaussian mean are parameters, since
    the code only calls them.  Claims C6--C8: the exact error condition of the
    crop, the size and binary content of the output, and the transparency of
    the inverted image.
  \<^item> \<open>Recognition\<close>: \<open>runSingleRecognition\<close>, \<open>runRecognitionPipeline\<close>,
    \<open>handleSuccess\<close>, \<open>handleFailure\<close> (scan.js 133--180).  The Tesseract worker
    is a parameter \<open>ocr\<close> from images to a text with a confidence (a rational:
    JavaScript numbers are finite binary fractions) or a rejection; the page
    effects are an explicit list.  A run's canvas is a value, while scan.js
    line 146 reads the shared \<open>#ocr-snapshot\<close> canvas again for the second
    attempt: the two differ only when pipelines overlap (C18), where a later
    capture may overwrite the canvas of an earlier run.  Claims C10--C13: success and failure
    characterised by the specification's acceptance rule, at most two OCR calls
    in a fixed order, and the effects that end a successful run.
  \<^item> \<open>ScanController\<close>: the handlers of scan.js as a step function
    \<open>scan_step\<close> over a record of the page state; every promise completion is an
    event of its own, so an event list is an interleaving the browser may
    produce, \<open>scan_reachable\<close> the inductive set of reachable states.  The
    html5-qrcode \<open>stop()\<close> is taken to stop the camera at once.  Claim C9
    (liveness): from every reachable loaded state, the completion of the two
    engine initialisations enables the capture button.  Claims C14--C19, C21:
    readiness gating as an invariant (rule induction), a successful capture
    releases the camera; and, against the specification, stated from every
    state where the triggering events can occur: overlapping camera sessions,
    a stream that is never stopped, a stream kept on the capture error path,
    overlapping pipelines and unvalidated QR payloads.

  \<^item> \<open>BarcodeScanner\<close>: the add page (add.js): \<open>startBarcodeScanner\<close>
    with the native \<open>BarcodeDetector\<close> polling and the QuaggaJS fallback,
    \<open>stopBarcodeScanner\<close>, \<open>onBarcodeScanSuccess\<close>, the Open Food Facts
    lookup \<open>fetchProductDetails\<close>, \<open>populateForm\<close> and the form
    submission, as a step function \<open>add_step\<close> over events like the scan page.  QuaggaJS is taken to keep
    every \<open>onDetected\<close> handler and call each on a detection.  Claims
    C22, C23, C25--C29, C31, C32: the backend is fixed by the capability test
    (invariant), stop releases exactly the current session,
    the effect of a detection, lookup outcomes and input trimming; and, against
    the specification's exactly-once delivery and release on stop, each from
    every state where it can start: a session started while the modal is
    closed, double delivery of one detection, accumulating Quagga handlers and
    out-of-order lookups.
  \<^item> \<open>Server\<close>: the endpoints of server.js over the \<open>products\<close> table (a
    list of rows in id order with the auto-increment counter); add-product is
    two steps because of its two \<open>await\<close>ed queries.  The 30-day warranty
    window of the dashboard and expiring-soon queries is the pair of dates the
    database clock gives (\<open>in_window\<close>); the page routing is \<open>route\<close>.
    Claims C33--C35: the table invariant (ids increase, every completed row
    carries the code of its id, codes are unique), insert/lookup, and
    batch-update's outcomes; C5: moving a product to the trash removes exactly
    it from the expiring-soon list and the dashboard's count, and restoring it
    gives the list back.
  \<^item> \<open>AuditPage\<close>: the audit page (audit.js): the \<open>Map\<close> of scanned items as an
    association list (HOL-Library \<open>AList\<close>), check boxes, batch actions and
    their server responses.  Claims C36--C37: the collection invariant, and,
    from every state, the duplicate lookups the guard lets through while a
    lookup is in flight.
  \<^item> \<open>EditPage\<close>: the edit page (edit.js): the form built from a product
    (\<open>edit_form_of\<close>, with the category select \<open>edit_category\<close>) and its
    submission to the server's \<open>update_product\<close>.  The line breaks of the
    interpolated texts follow the browser: the parser's normalisation
    (\<open>lf_normalize\<close>), the textarea's dropped leading line feed
    (\<open>textarea_value\<close>), the text input's sanitisation
    (\<open>text_input_value\<close>) and the CR LF of the multipart body
    (\<open>crlf_normalize\<close>); a lemma shows notes stored through a form come back
    unchanged unless they start with a line break.
  \<^item> \<open>ProductPages\<close>: the list (all.js), lookup (find.js), trash
    (trash.js), dashboard (dashboard.js) and sticker (print-stickers.js) pages,
    each a function of what its fetches return, the clicks that change the
    table composed with the server's endpoints.  Claim C2: the lookup page
    redirects to a stored product's details exactly when the typed text,
    trimmed and upper-cased, is its code; claim C24: the sticker loop equals
    the reference split into blocks of 32; a lemma shows that a delete on the
    list page is undone by a restore from the trash.
  \<^item> \<open>ViewPages\<close>: the warranty watch (warranty.js), the details page
    (details.js), the printable audit report (print-audit.js) and the legacy
    form and lookup (script.js).  Claim C20: a completed row of the warranty
    watch links to a details page that shows that very row; lemmas show the
    legacy lookup agrees with find.js, the legacy form shows the generated
    code, and the report lists the audit collection in order.
  \<^item> This theory: properties across components.  C38: the server's codes
    are read back by the OCR extractor and the audit check and give back their
    id.  C39: a batch action of the audit page, answered by the server's
    batch-update, removes exactly the checked products.  C40: the audit page's
    prefix test disagrees with the extractor on whole families of texts.  C30:
    saving the edit page unchanged rewrites the category and the line breaks
    of the texts, and a category the add page assigns
    but the edit page does not offer becomes \<open>Electronics\<close>.

  The components meet through shared types: the server's \<^typ>\<open>product_row\<close>
  and \<^typ>\<open>response\<close> are what the audit and edit pages receive, the
  server's \<^typ>\<open>product_form\<close> is what the edit page sends, and
  \<open>code_of_id\<close> of the server is what \<open>findProductCode\<close> and the audit page
  read.

  \<^bold>\<open>Bounds and fuel.\<close>  No component needs fuel: every loop of the modelled
  code is a structural recursion over a list (the regular-expression scan,
  pixel maps, the \<open>Map\<close> operations) or a bounded sequence of two attempts;
  \<open>String(n)\<close> is a recursion on \<open>n div 10\<close>; the pages and the server are
  step functions driven by finite event lists.

  \<^bold>\<open>Not modelled.\<close>  The HTML markup of the pages beyond the values it
  shows, the navigation and sound helpers of main.js beyond the two sounds,
  the express and multer set-up and static file serving, the MySQL engine
  (its date arithmetic enters only as the window's two dates),
  \<open>toLocaleDateString\<close> and the QR image generation: I/O wrappers without
  logic of their own.
\<close>

section \<open>Properties across components\<close>



text \<open>C38: the codes the server generates are read back exactly: the OCR
  extractor of the scan page returns a generated code unchanged, the audit
  page's prefix check accepts it, and its digits give back the id.\<close>

theorem server_code_read_back:
  "findProductCode (code_of_id i) = Some (code_of_id i) \<and> starts_with (code_of_id i) ''ITEM'' \<and>
   digits_value (drop 4 (code_of_id i)) = i"
proof -
  have "is_product_code (code_of_id i)"
    using code_of_id_product_code [of i] by (simp add: is_product_code_def)
  then show ?thesis
    using code_of_id_product_code [of i] code_of_id_value [of i]
    by (simp add: findProductCode_canonical starts_with_def numeral_eq_Suc)
qed


lemma fold_delete_filter: "fold AList.delete ks xs = filter (\<lambda>p. fst p \<notin> set ks) xs"
  by (induction ks arbitrary: xs) (auto simp: AList.delete_eq split_def intro: filter_cong)

lemma batch_codes_selected:
  assumes wf: "db_wf db"
    and present: "\<forall>i\<in>set ids. \<exists>r\<in>set (rows db). row_id r = i \<and> i \<notin> set (adds_pending db)"
  shows "Some (code_of_id j) \<in> set (map product_code (filter (\<lambda>r. row_id r \<in> set ids) (rows db)))
           \<longleftrightarrow> j \<in> set ids"
proof
  assume "Some (code_of_id j) \<in> set (map product_code (filter (\<lambda>r. row_id r \<in> set ids) (rows db)))"
  then obtain r where "r \<in> set (rows db)" "row_id r \<in> set ids" "product_code r = Some (code_of_id j)"
    by auto
  moreover have "product_code r = (if row_id r \<in> set (adds_pending db) then None else Some (code_of_id (row_id r)))"
    using wf \<open>r \<in> set (rows db)\<close> by (simp add: db_wf_def)
  ultimately show "j \<in> set ids"
    by (simp add: code_of_id_inj split: if_splits)
next
  assume "j \<in> set ids"
  with present obtain r where "r \<in> set (rows db)" "row_id r = j" "j \<notin> set (adds_pending db)"
    by blast
  moreover have "product_code r = (if row_id r \<in> set (adds_pending db) then None else Some (code_of_id (row_id r)))"
    using wf \<open>r \<in> set (rows db)\<close> by (simp add: db_wf_def)
  moreover have "row_id r \<in> set ids" using \<open>j \<in> set ids\<close> \<open>row_id r = j\<close> by simp
  ultimately have "product_code r \<in> set (map product_code (filter (\<lambda>r. row_id r \<in> set ids) (rows db)))"
    "product_code r = Some (code_of_id j)"
    using \<open>r \<in> set (rows db)\<close> \<open>row_id r = j\<close> \<open>j \<notin> set (adds_pending db)\<close>
    by (auto intro!: image_eqI [where x = r])
  then show "Some (code_of_id j) \<in> set (map product_code (filter (\<lambda>r. row_id r \<in> set ids) (rows db)))"
    by simp
qed

text \<open>C39: the audit page and the server agree on batch actions: when the
  checked products are rows of the server's table whose adds have completed,
  the codes \<open>/api/products/batch-update\<close> returns make the page remove exactly
  the checked products from its collection, keeping the others in order.\<close>

theorem audit_batch_removes_selected:
  assumes "server_reachable db" and "audit_reachable s" and "selected_ids s \<noteq> []"
    and "\<forall>(k, p)\<in>set (scannedItems s). product_code p = Some (code_of_id (row_id p))"
    and "\<forall>i\<in>set (selected_ids s). \<exists>r\<in>set (rows db). row_id r = i \<and> i \<notin> set (adds_pending db)"
  shows "scannedItems (batch_done (selected_ids s)
            (Fetched (snd (batch_update (Some ''delete'') (Some (selected_ids s)) db))) s) =
         filter (\<lambda>(k, p). row_id p \<notin> set (selected_ids s)) (scannedItems s)"
proof -
  let ?ids = "selected_ids s"
  let ?cs = "map product_code (filter (\<lambda>r. row_id r \<in> set ?ids) (rows db))"
  have wf: "db_wf db" using assms(1) by (rule server_reachable_wf)
  have resp: "snd (batch_update (Some ''delete'') (Some ?ids) db) = RespCodes ?cs"
    using assms(3) by (simp add: batch_update_def Let_def)
  have keys: "\<forall>(k, p)\<in>set (scannedItems s). k = Some (code_of_id (row_id p))"
    using audit_reachable_items_wf [OF assms(2)] assms(4) by (fastforce simp: items_wf_def)
  have "filter (\<lambda>p. fst p \<notin> set ?cs) (scannedItems s) =
        filter (\<lambda>(k, p). row_id p \<notin> set ?ids) (scannedItems s)"
  proof (rule filter_cong [OF refl])
    fix x assume "x \<in> set (scannedItems s)"
    with keys obtain p where "x = (Some (code_of_id (row_id p)), p)" by (cases x) auto
    then show "(fst x \<notin> set ?cs) = (case x of (k, p) \<Rightarrow> row_id p \<notin> set ?ids)"
      using batch_codes_selected [OF wf assms(5)] by simp
  qed
  then show ?thesis
    by (simp add: resp batch_done_def renderTable_def fold_delete_filter)
qed


lemma audit_batch_removes_selected_witness:
  "scannedItems (batch_done [1]
     (Fetched (snd (batch_update (Some ''delete'') (Some [1])
        (fst (add_set_code 0 (add_insert kettle_form (db_init ''Active''))))))) 
     (audit_run audit_init [Decoded ''ITEM0001'', ProductDone 0 (Fetched (RespRow kettle_row)), SelectAll True])) = []"
proof -
  let ?db = "fst (add_set_code 0 (add_insert kettle_form (db_init ''Active'')))"
  let ?s = "audit_run audit_init [Decoded ''ITEM0001'', ProductDone 0 (Fetched (RespRow kettle_row)), SelectAll True]"
  have c: "code_of_id 1 = ''ITEM0001''" "code_of_id (Suc 0) = ''ITEM0001''" by code_simp+
  have "server_reachable (fst (serve (fst (serve (db_init ''Active'') (Req (AddProduct kettle_form)))) (AddCodeStep 0)))"
    by (intro server_reachable.step server_reachable.init)
  then have db: "server_reachable ?db" by simp
  have s: "audit_reachable ?s" by (rule audit_reachable_run [OF audit_reachable.init])
  have items: "scannedItems ?s = [(Some ''ITEM0001'', kettle_row)]" and sel: "selected_ids ?s = [1]"
    by (simp_all add: audit_init_def audit_handler_defs starts_with_def selected_ids_def)
  have rows: "rows ?db = [kettle_row]" "adds_pending ?db = []"
    by (simp_all add: add_set_code_def add_insert_def update_where_def db_init_def or_null_def c)
  show ?thesis
    using audit_batch_removes_selected [OF db s] items sel rows c by simp
qed


text \<open>C40: the audit page does not use the code extractor, although the
  specification makes it the single test of a product code: from every state,
  any text that merely starts with \<open>ITEM\<close> is looked up, even one without
  digits in which the extractor finds no code, while a lower-case code
  \<open>item\<close> followed by digits, which the extractor accepts, is silently
  ignored.\<close>

theorem audit_prefix_vs_extractor:
  assumes "Some (''ITEM'' @ x) \<notin> fst ` set (scannedItems s)" and "\<not> list_ex is_digit x"
    and "ds \<noteq> []" and "list_all is_digit ds"
  shows "findProductCode (''ITEM'' @ x) = None \<and>
    scans_pending (audit_step s (Decoded (''ITEM'' @ x))) = scans_pending s @ [''ITEM'' @ x] \<and>
    findProductCode (''item'' @ ds) = Some (''ITEM'' @ ds) \<and>
    audit_step s (Decoded (''item'' @ ds)) = s"
proof -
  have "\<not> list_ex is_digit (''ITEM'' @ x)" using assms(2) by (simp add: is_digit_def)
  then have "findProductCode (''ITEM'' @ x) = None" by (rule findProductCode_no_digit)
  moreover have "starts_with (''ITEM'' @ x) ''ITEM''" by (simp add: starts_with_def)
  moreover have "\<not> starts_with (''item'' @ ds) ''ITEM''" by (simp add: starts_with_def)
  ultimately show ?thesis using assms(1) findProductCode_lower_item [OF assms(3,4)]
    by (simp add: audit_scan_def)
qed

lemma audit_prefix_vs_extractor_witness:
  "findProductCode ''ITEMS-LIST'' = None \<and>
   scans_pending (audit_step audit_init (Decoded ''ITEMS-LIST'')) = [''ITEMS-LIST''] \<and>
   audit_step audit_init (Decoded ''item0001'') = audit_init"
proof -
  have h: "Some (''ITEM'' @ ''S-LIST'') \<notin> fst ` set (scannedItems audit_init)"
    "\<not> list_ex is_digit ''S-LIST''" "''0001'' \<noteq> []" "list_all is_digit ''0001''"
    by (simp_all add: audit_init_def is_digit_def)
  from audit_prefix_vs_extractor [OF h] show ?thesis by (simp add: audit_init_def)
qed



end
